theory Spec2Isabelle
  imports Complex_Main
begin

section \<open>Conventions\<close>

text \<open>
  The combat core of the game is embedded function by function. A JavaScript number is a
  real (no rounding, no NaN, no infinity); an object is a record whose fields carry a
  short prefix for their class (\<open>p_\<close> player, \<open>e_\<close> enemy, ...); a method that
  mutates \<open>this\<close>, or an object it holds a reference to, takes the objects and returns
  the new ones. What a method reads from outside the program is an argument: a draw of
  \<open>Math.random()\<close>, the clock \<open>performance.now()\<close>, the module counter of enemy ids.
  Fields and methods used by rendering only (colours, names, \<open>render\<close>) are left out.

  The records of player and enemy carry one field the source does not have, the counter
  \<open>dmgCalls\<close>: it counts the invocations of \<open>takeDamage\<close> on the object, as a test
  spy would. No function embedded from the source reads it.

  The file has two parts: first the embedding, module by module, with the objects used
  as concrete inputs; then the properties, claim by claim.
\<close>

section \<open>utils.js\<close>

record vec2 =
  vec_x :: real
  vec_y :: real

definition distance :: "real \<Rightarrow> real \<Rightarrow> real \<Rightarrow> real \<Rightarrow> real" where
  \<comment> \<open>\<open>distance(a, b)\<close> on \<open>a = (ax, ay)\<close>, \<open>b = (bx, by)\<close>\<close>
  "distance ax ay bx by =
     (let dx = ax - bx; dy = ay - by in sqrt (dx * dx + dy * dy))"

definition normalize :: "real \<Rightarrow> real \<Rightarrow> vec2" where
  "normalize x y =
     (let len = sqrt (x * x + y * y)
      in if len = 0 then \<lparr>vec_x = 0, vec_y = 0\<rparr>
         else \<lparr>vec_x = x / len, vec_y = y / len\<rparr>)"

definition clamp :: "real \<Rightarrow> real \<Rightarrow> real \<Rightarrow> real" where
  "clamp val lo hi = max lo (min hi val)"

definition lerp :: "real \<Rightarrow> real \<Rightarrow> real \<Rightarrow> real" where
  "lerp a b t = a + (b - a) * t"

section \<open>constants.js\<close>

definition WORLD_WIDTH :: real where "WORLD_WIDTH = 3000"
definition WORLD_HEIGHT :: real where "WORLD_HEIGHT = 3000"
definition PLAYER_RADIUS :: real where "PLAYER_RADIUS = 14"
definition MP_CONFIG_maxMp :: real where "MP_CONFIG_maxMp = 5"
definition MP_CONFIG_mpRegen :: real where "MP_CONFIG_mpRegen = 0.5"

datatype evadeType = Roll | Blink

record characterDef =
  c_maxHp :: real
  c_speed :: real
  c_damage :: real
  c_attackSpeed :: real
  c_evadeType :: evadeType

definition CHARACTERS_fighter :: characterDef where
  "CHARACTERS_fighter =
     \<lparr>c_maxHp = 120, c_speed = 150, c_damage = 1.0, c_attackSpeed = 1.0, c_evadeType = Roll\<rparr>"

definition CHARACTERS_mage :: characterDef where
  "CHARACTERS_mage =
     \<lparr>c_maxHp = 80, c_speed = 180, c_damage = 1.2, c_attackSpeed = 0.8, c_evadeType = Blink\<rparr>"

definition CHARACTERS_celestial :: characterDef where
  "CHARACTERS_celestial =
     \<lparr>c_maxHp = 70, c_speed = 220, c_damage = 0.8, c_attackSpeed = 1.5, c_evadeType = Roll\<rparr>"

section \<open>player.js\<close>

record stats =
  maxHp :: real
  speed :: real
  damage :: real
  attackSpeed :: real
  defense :: real
  weaponSize :: real
  extraProjectiles :: int

record player =
  p_x :: real
  p_y :: real
  p_radius :: real
  p_evadeType :: evadeType
  p_stats :: stats
  p_hp :: real
  p_invulnTimer :: real
  p_maxMp :: real
  p_mp :: real
  p_mpRegenTimer :: real
  p_moveDir :: vec2
  p_facing :: vec2
  p_attackDir :: vec2
  p_z :: real
  p_isStrafing :: bool
  p_dmgCalls :: nat

definition Player_new :: "characterDef \<Rightarrow> player" where
  \<comment> \<open>the constructor, up to the four subsystems, which are states of their own below\<close>
  "Player_new def =
     \<lparr>p_x = WORLD_WIDTH / 2, p_y = WORLD_HEIGHT / 2, p_radius = PLAYER_RADIUS,
      p_evadeType = c_evadeType def,
      p_stats = \<lparr>maxHp = c_maxHp def, speed = c_speed def, damage = c_damage def,
                 attackSpeed = c_attackSpeed def, defense = 0, weaponSize = 1,
                 extraProjectiles = 0\<rparr>,
      p_hp = c_maxHp def, p_invulnTimer = 0,
      p_maxMp = MP_CONFIG_maxMp, p_mp = MP_CONFIG_maxMp, p_mpRegenTimer = 0,
      p_moveDir = \<lparr>vec_x = 0, vec_y = 0\<rparr>,
      p_facing = \<lparr>vec_x = 1, vec_y = 0\<rparr>,
      p_attackDir = \<lparr>vec_x = 1, vec_y = 0\<rparr>,
      p_z = 0, p_isStrafing = False, p_dmgCalls = 0\<rparr>"

definition canSpendMp :: "player \<Rightarrow> real \<Rightarrow> bool" where
  "canSpendMp p cost = (p_mp p \<ge> cost)"

definition spendMp :: "player \<Rightarrow> real \<Rightarrow> player \<times> bool" where
  \<comment> \<open>the player after the call, and the value returned\<close>
  "spendMp p cost =
     (if p_mp p < cost then (p, False) else (p\<lparr>p_mp := p_mp p - cost\<rparr>, True))"

definition Player_takeDamage :: "player \<Rightarrow> real \<Rightarrow> player" where
  "Player_takeDamage p amount =
     (let p0 = p\<lparr>p_dmgCalls := Suc (p_dmgCalls p)\<rparr>
      in if p_invulnTimer p0 > 0 then p0
         else let reduced = amount * (1 - defense (p_stats p0));
                  p1 = p0\<lparr>p_hp := p_hp p0 - reduced\<rparr>;
                  p2 = p1\<lparr>p_invulnTimer := 0.3\<rparr>
              in if p_hp p2 < 0 then p2\<lparr>p_hp := 0\<rparr> else p2)"

definition isDead :: "player \<Rightarrow> bool" where
  "isDead p = (p_hp p \<le> 0)"

section \<open>enemy.js\<close>

datatype behavior = Swarm | Melee | Ranged

datatype meleeState = Chase | Windup | Attack | Recovery

text \<open>
  An entry of \<open>ENEMY_TYPES\<close>. The fields the constructor and the ranged behaviour read
  through \<open>def.f || default\<close> are optional; \<open>js_or\<close> is that operator on numbers: the
  default is taken when the field is missing or 0.
\<close>

record enemyDef =
  def_radius :: real
  def_hp :: real
  def_speed :: real
  def_damage :: real
  def_behavior :: "behavior option"
  def_attackRange :: "real option"
  def_windupTime :: "real option"
  def_recoveryTime :: "real option"
  def_attackCooldown :: "real option"
  def_preferredRange :: "real option"
  def_arrowSpeed :: "real option"
  def_arrowDamage :: "real option"
  def_arrowRadius :: "real option"
  def_arrowLifetime :: "real option"
  def_arrowCooldown :: "real option"

definition js_or :: "real option \<Rightarrow> real \<Rightarrow> real" where
  "js_or v d = (case v of None \<Rightarrow> d | Some r \<Rightarrow> if r = 0 then d else r)"

definition ENEMY_TYPES_shambler :: enemyDef where
  "ENEMY_TYPES_shambler =
     \<lparr>def_radius = 12, def_hp = 30, def_speed = 60, def_damage = 15,
      def_behavior = Some Melee, def_attackRange = Some 50, def_windupTime = Some 0.4,
      def_recoveryTime = Some 0.5, def_attackCooldown = Some 1.2,
      def_preferredRange = None, def_arrowSpeed = None, def_arrowDamage = None,
      def_arrowRadius = None, def_arrowLifetime = None, def_arrowCooldown = None\<rparr>"

definition ENEMY_TYPES_imp :: enemyDef where
  "ENEMY_TYPES_imp =
     \<lparr>def_radius = 9, def_hp = 15, def_speed = 120, def_damage = 8,
      def_behavior = Some Melee, def_attackRange = Some 35, def_windupTime = Some 0.12,
      def_recoveryTime = Some 0.15, def_attackCooldown = Some 0.5,
      def_preferredRange = None, def_arrowSpeed = None, def_arrowDamage = None,
      def_arrowRadius = None, def_arrowLifetime = None, def_arrowCooldown = None\<rparr>"

definition ENEMY_TYPES_brute :: enemyDef where
  "ENEMY_TYPES_brute =
     \<lparr>def_radius = 18, def_hp = 80, def_speed = 40, def_damage = 25,
      def_behavior = Some Melee, def_attackRange = Some 55, def_windupTime = Some 0.6,
      def_recoveryTime = Some 0.7, def_attackCooldown = Some 2.0,
      def_preferredRange = None, def_arrowSpeed = None, def_arrowDamage = None,
      def_arrowRadius = None, def_arrowLifetime = None, def_arrowCooldown = None\<rparr>"

definition ENEMY_TYPES_archer :: enemyDef where
  "ENEMY_TYPES_archer =
     \<lparr>def_radius = 10, def_hp = 20, def_speed = 80, def_damage = 4,
      def_behavior = Some Ranged, def_attackRange = None, def_windupTime = None,
      def_recoveryTime = None, def_attackCooldown = None,
      def_preferredRange = Some 200, def_arrowSpeed = Some 250, def_arrowDamage = Some 12,
      def_arrowRadius = Some 4, def_arrowLifetime = Some 3.0,
      def_arrowCooldown = Some 2.0\<rparr>"

record arrowData =
  ar_x :: real
  ar_y :: real
  ar_dx :: real
  ar_dy :: real
  ar_speed :: real
  ar_damage :: real
  ar_radius :: real
  ar_lifetime :: real

record enemy =
  e_id :: nat
  e_def :: enemyDef
  e_x :: real
  e_y :: real
  e_radius :: real
  e_speed :: real
  e_maxHp :: real
  e_hp :: real
  e_dead :: bool
  e_flashTimer :: real
  e_behavior :: behavior
  e_wobblePhase :: real
  e_wobbleFreq :: real
  e_meleeState :: meleeState
  e_meleeTimer :: real
  e_damage :: real
  e_attackRange :: real
  e_windupTime :: real
  e_recoveryTime :: real
  e_attackCooldown :: real
  e_attackCooldownTimer :: real
  e_preferredRange :: real
  e_arrowCooldownTimer :: real
  e_arrowCooldown :: real
  e_strafeDir :: real
  e_strafeTimer :: real
  e_slowFactor :: real
  e_slowTimer :: real
  e_knockbackVx :: real
  e_knockbackVy :: real
  e_pendingArrow :: "arrowData option"
  e_dmgCalls :: nat

text \<open>
  The constructor. The module counter \<open>nextId\<close> is the argument \<open>ident\<close>; the four
  draws of \<open>Math.random()\<close>, each in \<open>[0, 1)\<close>, are the arguments \<open>r1 .. r4\<close>.
\<close>

definition Enemy_new ::
  "nat \<Rightarrow> enemyDef \<Rightarrow> real \<Rightarrow> real \<Rightarrow> real \<Rightarrow> real \<Rightarrow> real \<Rightarrow> real \<Rightarrow> real \<Rightarrow> enemy" where
  "Enemy_new ident def x y level r1 r2 r3 r4 =
     \<lparr>e_id = ident, e_def = def, e_x = x, e_y = y, e_radius = def_radius def,
      e_speed = def_speed def,
      e_maxHp = def_hp def * (1 + (level - 1) * 0.20),
      e_hp = def_hp def * (1 + (level - 1) * 0.20),
      e_dead = False, e_flashTimer = 0,
      e_behavior = (case def_behavior def of None \<Rightarrow> Swarm | Some b \<Rightarrow> b),
      e_wobblePhase = r1 * pi * 2, e_wobbleFreq = 2 + r2 * 2,
      e_meleeState = Chase, e_meleeTimer = 0,
      e_damage = def_damage def * (1 + (level - 1) * 0.15),
      e_attackRange = js_or (def_attackRange def) 30,
      e_windupTime = js_or (def_windupTime def) 0.4,
      e_recoveryTime = js_or (def_recoveryTime def) 0.5,
      e_attackCooldown = js_or (def_attackCooldown def) 1.2,
      e_attackCooldownTimer = 0,
      e_preferredRange = js_or (def_preferredRange def) 200,
      e_arrowCooldownTimer = 0,
      e_arrowCooldown = js_or (def_arrowCooldown def) 2.0,
      e_strafeDir = (if r3 < 0.5 then 1 else -1),
      e_strafeTimer = 1 + r4 * 2,
      e_slowFactor = 1.0, e_slowTimer = 0, e_knockbackVx = 0, e_knockbackVy = 0,
      e_pendingArrow = None, e_dmgCalls = 0\<rparr>"

definition applySlow :: "enemy \<Rightarrow> real \<Rightarrow> real \<Rightarrow> enemy" where
  "applySlow e factor duration = e\<lparr>e_slowFactor := factor, e_slowTimer := duration\<rparr>"

definition applyKnockback :: "enemy \<Rightarrow> real \<Rightarrow> real \<Rightarrow> real \<Rightarrow> enemy" where
  "applyKnockback e dx dy force =
     e\<lparr>e_knockbackVx := e_knockbackVx e + dx * force,
       e_knockbackVy := e_knockbackVy e + dy * force\<rparr>"

definition Enemy_takeDamage :: "enemy \<Rightarrow> real \<Rightarrow> enemy" where
  "Enemy_takeDamage e amount =
     (let e1 = e\<lparr>e_hp := e_hp e - amount, e_flashTimer := 0.1,
                 e_dmgCalls := Suc (e_dmgCalls e)\<rparr>
      in if e_hp e1 \<le> 0 then e1\<lparr>e_dead := True\<rparr> else e1)"

definition slowTick :: "real \<Rightarrow> enemy \<Rightarrow> enemy" where
  \<comment> \<open>\<open>Enemy.update\<close>, the block "Slow debuff tick"\<close>
  "slowTick dt e =
     (if e_slowTimer e > 0
      then let e1 = e\<lparr>e_slowTimer := e_slowTimer e - dt\<rparr>
           in if e_slowTimer e1 \<le> 0 then e1\<lparr>e_slowFactor := 1.0\<rparr> else e1
      else e)"

definition knockbackDecay :: "real \<Rightarrow> enemy \<Rightarrow> enemy" where
  \<comment> \<open>\<open>Enemy.update\<close>, the block "Knockback decay"; \<open>Math.pow(0.05, dt)\<close> is \<open>0.05 powr dt\<close>\<close>
  "knockbackDecay dt e =
     (if e_knockbackVx e \<noteq> 0 \<or> e_knockbackVy e \<noteq> 0
      then let e1 = e\<lparr>e_x := e_x e + e_knockbackVx e * dt,
                       e_y := e_y e + e_knockbackVy e * dt\<rparr>;
               decay = 0.05 powr dt;
               e2 = e1\<lparr>e_knockbackVx := e_knockbackVx e1 * decay,
                        e_knockbackVy := e_knockbackVy e1 * decay\<rparr>;
               e3 = (if \<bar>e_knockbackVx e2\<bar> < 1 then e2\<lparr>e_knockbackVx := 0\<rparr> else e2)
           in if \<bar>e_knockbackVy e3\<bar> < 1 then e3\<lparr>e_knockbackVy := 0\<rparr> else e3
      else e)"

definition chaseStep :: "real \<Rightarrow> real \<Rightarrow> enemy \<Rightarrow> player \<Rightarrow> enemy" where
  \<comment> \<open>the wobbling advance toward the player shared by the three behaviours;
      \<open>k\<close> is the amplitude factor of the wobble (0.4 swarm, 0.3 melee and ranged)\<close>
  "chaseStep k v e p =
     (let dir = normalize (p_x p - e_x e) (p_y p - e_y e);
          wobble = sin (e_wobblePhase e) * k;
          mx = vec_x dir + (- vec_y dir) * wobble;
          my = vec_y dir + vec_x dir * wobble;
          n = normalize mx my
      in e\<lparr>e_x := e_x e + vec_x n * v, e_y := e_y e + vec_y n * v\<rparr>)"

definition updateSwarm :: "real \<Rightarrow> enemy \<Rightarrow> player \<Rightarrow> enemy" where
  "updateSwarm dt e p = chaseStep 0.4 (e_speed e * e_slowFactor e * dt) e p"

definition updateMelee :: "real \<Rightarrow> enemy \<Rightarrow> player \<Rightarrow> enemy \<times> player" where
  "updateMelee dt e0 p =
     (let dist = distance (e_x e0) (e_y e0) (p_x p) (p_y p);
          e = e0\<lparr>e_attackCooldownTimer := max 0 (e_attackCooldownTimer e0 - dt)\<rparr>;
          inRange = (dist < e_attackRange e + p_radius p + e_radius e)
      in case e_meleeState e of
           Chase \<Rightarrow>
             (let e1 = (if \<not> inRange
                        then chaseStep 0.3 (e_speed e * e_slowFactor e * dt) e p else e)
              in if inRange \<and> e_attackCooldownTimer e1 \<le> 0
                 then (e1\<lparr>e_meleeState := Windup, e_meleeTimer := e_windupTime e1\<rparr>, p)
                 else (e1, p))
         | Windup \<Rightarrow>
             (let e1 = e\<lparr>e_meleeTimer := e_meleeTimer e - dt\<rparr>
              in if e_meleeTimer e1 \<le> 0
                 then (e1\<lparr>e_meleeState := Attack, e_meleeTimer := 0.1\<rparr>, p)
                 else (e1, p))
         | Attack \<Rightarrow>
             (let e1 = e\<lparr>e_meleeTimer := e_meleeTimer e - dt\<rparr>
              in if e_meleeTimer e1 \<le> 0
                 then (let p1 = (if dist < e_attackRange e1 + p_radius p + e_radius e1 + 10
                                 then Player_takeDamage p (e_damage e1) else p)
                       in (e1\<lparr>e_meleeState := Recovery,
                               e_meleeTimer := e_recoveryTime e1,
                               e_attackCooldownTimer := e_attackCooldown e1\<rparr>, p1))
                 else (e1, p))
         | Recovery \<Rightarrow>
             (let e1 = e\<lparr>e_meleeTimer := e_meleeTimer e - dt\<rparr>
              in if e_meleeTimer e1 \<le> 0
                 then (e1\<lparr>e_meleeState := Chase\<rparr>, p)
                 else (e1, p)))"

definition updateRanged :: "real \<Rightarrow> enemy \<Rightarrow> player \<Rightarrow> real \<Rightarrow> enemy" where
  \<comment> \<open>\<open>rnd\<close> is the draw of \<open>Math.random()\<close> used when the strafe timer runs out\<close>
  "updateRanged dt e0 p rnd =
     (let dist = distance (e_x e0) (e_y e0) (p_x p) (p_y p);
          dir = normalize (p_x p - e_x e0) (p_y p - e_y e0);
          e1 = e0\<lparr>e_arrowCooldownTimer := max 0 (e_arrowCooldownTimer e0 - dt)\<rparr>;
          e2 = e1\<lparr>e_strafeTimer := e_strafeTimer e1 - dt\<rparr>;
          e3 = (if e_strafeTimer e2 \<le> 0
                then e2\<lparr>e_strafeDir := e_strafeDir e2 * (-1),
                        e_strafeTimer := 1.5 + rnd * 2\<rparr>
                else e2);
          spd = e_speed e3 * e_slowFactor e3;
          e4 = (if dist > e_preferredRange e3 + 40
                then chaseStep 0.3 (spd * dt) e3 p
                else if dist < e_preferredRange e3 - 40
                then e3\<lparr>e_x := e_x e3 - vec_x dir * spd * 0.7 * dt,
                        e_y := e_y e3 - vec_y dir * spd * 0.7 * dt\<rparr>
                else let perpX = - vec_y dir * e_strafeDir e3;
                         perpY = vec_x dir * e_strafeDir e3
                     in e3\<lparr>e_x := e_x e3 + perpX * spd * 0.5 * dt,
                           e_y := e_y e3 + perpY * spd * 0.5 * dt\<rparr>)
      in if e_arrowCooldownTimer e4 \<le> 0 \<and> dist < e_preferredRange e4 + 100
         then e4\<lparr>e_pendingArrow := Some
                 \<lparr>ar_x = e_x e4, ar_y = e_y e4, ar_dx = vec_x dir, ar_dy = vec_y dir,
                  ar_speed = js_or (def_arrowSpeed (e_def e4)) 250,
                  ar_damage = js_or (def_arrowDamage (e_def e4)) 12,
                  ar_radius = js_or (def_arrowRadius (e_def e4)) 4,
                  ar_lifetime = js_or (def_arrowLifetime (e_def e4)) 3.0\<rparr>,
                e_arrowCooldownTimer := e_arrowCooldown e4\<rparr>
         else e4)"

definition dispatch :: "real \<Rightarrow> enemy \<Rightarrow> player \<Rightarrow> real \<Rightarrow> enemy \<times> player" where
  \<comment> \<open>the \<open>switch (this.behavior)\<close> of \<open>Enemy.update\<close>\<close>
  "dispatch dt e p rnd =
     (case e_behavior e of
        Melee \<Rightarrow> updateMelee dt e p
      | Ranged \<Rightarrow> (updateRanged dt e p rnd, p)
      | Swarm \<Rightarrow> (updateSwarm dt e p, p))"

definition Enemy_update :: "real \<Rightarrow> enemy \<Rightarrow> player \<Rightarrow> real \<Rightarrow> enemy \<times> player" where
  "Enemy_update dt e p rnd =
     (if e_dead e then (e, p)
      else let e1 = e\<lparr>e_wobblePhase := e_wobblePhase e + e_wobbleFreq e * dt\<rparr>;
               e2 = slowTick dt e1;
               e3 = knockbackDecay dt e2;
               (e4, p') = dispatch dt e3 p rnd;
               e5 = (if e_flashTimer e4 > 0
                     then e4\<lparr>e_flashTimer := e_flashTimer e4 - dt\<rparr> else e4);
               e6 = e5\<lparr>e_x := clamp (e_x e5) (e_radius e5) (WORLD_WIDTH - e_radius e5)\<rparr>;
               e7 = e6\<lparr>e_y := clamp (e_y e6) (e_radius e6) (WORLD_HEIGHT - e_radius e6)\<rparr>
           in (e7, p'))"

text \<open>
  A run of frames on one enemy: each frame brings its own time step, the player as the
  rest of the game left it for that frame, and the random draw. Only the enemy is
  threaded through.
\<close>

fun Enemy_updates :: "enemy \<Rightarrow> (real \<times> player \<times> real) list \<Rightarrow> enemy" where
  "Enemy_updates e [] = e"
| "Enemy_updates e ((dt, p, rnd) # fs) = Enemy_updates (fst (Enemy_update dt e p rnd)) fs"

subsection \<open>Runs of the melee behaviour\<close>

definition nextPhase :: "meleeState \<Rightarrow> meleeState" where
  \<comment> \<open>the cycle named in the header of enemy.js: chase, windup, attack, recovery, chase\<close>
  "nextPhase s = (case s of Chase \<Rightarrow> Windup | Windup \<Rightarrow> Attack
                   | Attack \<Rightarrow> Recovery | Recovery \<Rightarrow> Chase)"

definition meleeHits :: "real \<Rightarrow> enemy \<Rightarrow> player \<Rightarrow> bool" where
  \<comment> \<open>the frame ends the attack phase with the player inside the extended range\<close>
  "meleeHits dt e p =
     (e_meleeState e = Attack \<and> e_meleeTimer e - dt \<le> 0
      \<and> distance (e_x e) (e_y e) (p_x p) (p_y p)
          < e_attackRange e + p_radius p + e_radius e + 10)"

text \<open>
  A run of \<open>_updateMelee\<close> over frames, each with its time step and the player of that
  frame: the enemy at the end and the number of invocations of \<open>player.takeDamage\<close>
  made on the way; and the number of frames of the run that satisfy \<open>meleeHits\<close>.
\<close>

fun meleeRun :: "enemy \<Rightarrow> (real \<times> player) list \<Rightarrow> enemy \<times> nat" where
  "meleeRun e [] = (e, 0)"
| "meleeRun e ((dt, p) # fs) =
     (let (e', p') = updateMelee dt e p;
          (e'', n) = meleeRun e' fs
      in (e'', (p_dmgCalls p' - p_dmgCalls p) + n))"

fun attackHits :: "enemy \<Rightarrow> (real \<times> player) list \<Rightarrow> nat" where
  "attackHits e [] = 0"
| "attackHits e ((dt, p) # fs) =
     (if meleeHits dt e p then 1 else 0) + attackHits (fst (updateMelee dt e p)) fs"

text \<open>
  For the cycle: the test \<open>inRange\<close> of \<open>_updateMelee\<close>; the time a list of frames
  takes; and the frames it takes a timer set to \<open>t\<close> to run out, which are frames of
  time steps that are not negative, with the timer still positive before the last of
  them and not after it.
\<close>

definition inReach :: "enemy \<Rightarrow> player \<Rightarrow> bool" where
  "inReach e p =
     (distance (e_x e) (e_y e) (p_x p) (p_y p) < e_attackRange e + p_radius p + e_radius e)"

definition elapsed :: "(real \<times> player) list \<Rightarrow> real" where
  "elapsed fs = sum_list (map fst fs)"

definition runsOut :: "real \<Rightarrow> (real \<times> player) list \<Rightarrow> bool" where
  "runsOut t fs =
     (fs \<noteq> [] \<and> list_all (\<lambda>f. 0 \<le> fst f) fs \<and> elapsed (butlast fs) < t \<and> t \<le> elapsed fs)"

section \<open>dodge.js\<close>

text \<open>The constants \<open>DODGE\<close> and \<open>BACK_JUMP\<close> of constants.js.\<close>

definition DODGE_roll_duration :: real where "DODGE_roll_duration = 0.25"
definition DODGE_roll_speed :: real where "DODGE_roll_speed = 500"
definition DODGE_roll_cooldown :: real where "DODGE_roll_cooldown = 1.5"
definition DODGE_roll_iframes :: real where "DODGE_roll_iframes = 0.25"
definition DODGE_blink_distance :: real where "DODGE_blink_distance = 120"
definition DODGE_blink_cooldown :: real where "DODGE_blink_cooldown = 2.0"
definition DODGE_blink_iframes :: real where "DODGE_blink_iframes = 0.15"
definition DODGE_blink_effectDuration :: real where "DODGE_blink_effectDuration = 0.35"
definition BACK_JUMP_speed :: real where "BACK_JUMP_speed = 600"
definition BACK_JUMP_duration :: real where "BACK_JUMP_duration = 0.12"
definition BACK_JUMP_cooldown :: real where "BACK_JUMP_cooldown = 2.0"
definition BACK_JUMP_iframes :: real where "BACK_JUMP_iframes = 0.15"

record trailPoint =
  t_x :: real
  t_y :: real
  t_alpha :: real

record blinkEffect =
  b_x :: real
  b_y :: real
  b_timer :: real
  b_maxTimer :: real
  b_radius :: real

record dodgeSystem =
  d_evadeType :: evadeType
  d_cooldown :: real
  d_maxCooldown :: real
  d_active :: bool
  d_timer :: real
  d_direction :: vec2
  d_trail :: "trailPoint list"
  d_blinkEffects :: "blinkEffect list"
  d_backstepActive :: bool
  d_backstepTimer :: real
  d_backstepDir :: vec2
  d_backstepTrail :: "trailPoint list"

definition DodgeSystem_new :: "evadeType \<Rightarrow> dodgeSystem" where
  "DodgeSystem_new et =
     \<lparr>d_evadeType = et, d_cooldown = 0, d_maxCooldown = 0, d_active = False, d_timer = 0,
      d_direction = \<lparr>vec_x = 0, vec_y = 0\<rparr>, d_trail = [], d_blinkEffects = [],
      d_backstepActive = False, d_backstepTimer = 0,
      d_backstepDir = \<lparr>vec_x = 0, vec_y = 0\<rparr>, d_backstepTrail = []\<rparr>"

text \<open>
  The dodge system holds a reference to the player and writes its position and its
  invulnerability timer, so its methods work on the pair of both.
\<close>

definition triggerRoll :: "vec2 \<Rightarrow> dodgeSystem \<times> player \<Rightarrow> dodgeSystem \<times> player" where
  "triggerRoll dir s =
     (case s of (d, p) \<Rightarrow>
        (d\<lparr>d_direction := dir, d_active := True, d_timer := DODGE_roll_duration,
           d_cooldown := DODGE_roll_cooldown, d_maxCooldown := DODGE_roll_cooldown\<rparr>,
         p\<lparr>p_invulnTimer := max (p_invulnTimer p) DODGE_roll_iframes\<rparr>))"

definition triggerBlink :: "vec2 \<Rightarrow> dodgeSystem \<times> player \<Rightarrow> dodgeSystem \<times> player" where
  "triggerBlink dir s =
     (case s of (d, p) \<Rightarrow>
        let d1 = d\<lparr>d_blinkEffects := d_blinkEffects d @
                    [\<lparr>b_x = p_x p, b_y = p_y p, b_timer = DODGE_blink_effectDuration,
                      b_maxTimer = DODGE_blink_effectDuration, b_radius = p_radius p\<rparr>]\<rparr>;
            p1 = p\<lparr>p_x := p_x p + vec_x dir * DODGE_blink_distance,
                   p_y := p_y p + vec_y dir * DODGE_blink_distance\<rparr>;
            p2 = p1\<lparr>p_x := clamp (p_x p1) (p_radius p1) (WORLD_WIDTH - p_radius p1),
                    p_y := clamp (p_y p1) (p_radius p1) (WORLD_HEIGHT - p_radius p1)\<rparr>;
            d2 = d1\<lparr>d_blinkEffects := d_blinkEffects d1 @
                    [\<lparr>b_x = p_x p2, b_y = p_y p2, b_timer = DODGE_blink_effectDuration,
                      b_maxTimer = DODGE_blink_effectDuration, b_radius = 4\<rparr>]\<rparr>;
            p3 = p2\<lparr>p_invulnTimer := max (p_invulnTimer p2) DODGE_blink_iframes\<rparr>
        in (d2\<lparr>d_cooldown := DODGE_blink_cooldown, d_maxCooldown := DODGE_blink_cooldown\<rparr>,
            p3))"

definition triggerBackstep :: "vec2 \<Rightarrow> dodgeSystem \<times> player \<Rightarrow> dodgeSystem \<times> player" where
  "triggerBackstep dir s =
     (case s of (d, p) \<Rightarrow>
        (d\<lparr>d_backstepDir := \<lparr>vec_x = vec_x dir, vec_y = vec_y dir\<rparr>,
           d_backstepActive := True, d_backstepTimer := BACK_JUMP_duration,
           d_cooldown := BACK_JUMP_cooldown, d_maxCooldown := BACK_JUMP_cooldown\<rparr>,
         p\<lparr>p_invulnTimer := max (p_invulnTimer p) BACK_JUMP_iframes\<rparr>))"

definition execute :: "dodgeSystem \<times> player \<Rightarrow> vec2 \<Rightarrow> vec2 \<Rightarrow> dodgeSystem \<times> player" where
  "execute s moveDir facingDir =
     (case s of (d, p) \<Rightarrow>
        if d_cooldown d > 0 \<or> d_active d \<or> d_backstepActive d then s
        else let hasInput = (vec_x moveDir \<noteq> 0 \<or> vec_y moveDir \<noteq> 0)
             in if hasInput
                then let dir = normalize (vec_x moveDir) (vec_y moveDir)
                     in if vec_x dir = 0 \<and> vec_y dir = 0 then s
                        else if d_evadeType d = Blink then triggerBlink dir s
                        else triggerRoll dir s
                else let dir = normalize (vec_x facingDir) (vec_y facingDir)
                     in if vec_x dir = 0 \<and> vec_y dir = 0 then s
                        else triggerBackstep \<lparr>vec_x = - vec_x dir, vec_y = - vec_y dir\<rparr> s)"

definition pushTrail :: "nat \<Rightarrow> trailPoint \<Rightarrow> trailPoint list \<Rightarrow> trailPoint list" where
  \<comment> \<open>\<open>trail.push(t); if (trail.length > n) trail.shift()\<close>\<close>
  "pushTrail n t ts = (let ts' = ts @ [t] in if length ts' > n then tl ts' else ts')"

definition fadeTrail :: "real \<Rightarrow> trailPoint list \<Rightarrow> trailPoint list" where
  \<comment> \<open>\<open>for (t of trail) t.alpha -= k; trail = trail.filter(t => t.alpha > 0)\<close>\<close>
  "fadeTrail k ts = filter (\<lambda>t. t_alpha t > 0) (map (\<lambda>t. t\<lparr>t_alpha := t_alpha t - k\<rparr>) ts)"

definition DodgeSystem_update :: "real \<Rightarrow> dodgeSystem \<times> player \<Rightarrow> dodgeSystem \<times> player" where
  "DodgeSystem_update dt s =
     (case s of (d0, p0) \<Rightarrow>
        let d1 = (if d_cooldown d0 > 0 then d0\<lparr>d_cooldown := d_cooldown d0 - dt\<rparr> else d0);
            (d2, p2) =
              (if d_active d1
               then let p' = p0\<lparr>p_x := p_x p0 + vec_x (d_direction d1) * DODGE_roll_speed * dt,
                                p_y := p_y p0 + vec_y (d_direction d1) * DODGE_roll_speed * dt\<rparr>;
                        d' = d1\<lparr>d_timer := d_timer d1 - dt,
                                d_trail := pushTrail 6
                                  \<lparr>t_x = p_x p', t_y = p_y p', t_alpha = 0.6\<rparr> (d_trail d1)\<rparr>
                    in (if d_timer d' \<le> 0 then d'\<lparr>d_active := False\<rparr> else d', p')
               else (d1, p0));
            (d3, p3) =
              (if d_backstepActive d2
               then let p' = p2\<lparr>p_x := p_x p2 + vec_x (d_backstepDir d2) * BACK_JUMP_speed * dt,
                                p_y := p_y p2 + vec_y (d_backstepDir d2) * BACK_JUMP_speed * dt\<rparr>;
                        d' = d2\<lparr>d_backstepTimer := d_backstepTimer d2 - dt,
                                d_backstepTrail := pushTrail 4
                                  \<lparr>t_x = p_x p', t_y = p_y p', t_alpha = 0.5\<rparr>
                                  (d_backstepTrail d2)\<rparr>
                    in (if d_backstepTimer d' \<le> 0 then d'\<lparr>d_backstepActive := False\<rparr> else d',
                        p')
               else (d2, p2));
            d4 = d3\<lparr>d_trail := fadeTrail (dt * 3) (d_trail d3)\<rparr>;
            d5 = d4\<lparr>d_backstepTrail := fadeTrail (dt * 4) (d_backstepTrail d4)\<rparr>;
            d6 = d5\<lparr>d_blinkEffects :=
                    filter (\<lambda>e. b_timer e > 0)
                      (map (\<lambda>e. e\<lparr>b_timer := b_timer e - dt, b_radius := b_radius e + dt * 80\<rparr>)
                        (d_blinkEffects d5))\<rparr>
        in (d6, p3))"

definition isRolling :: "dodgeSystem \<Rightarrow> bool" where
  "isRolling d = d_active d"

definition isMovementLocked :: "dodgeSystem \<Rightarrow> bool" where
  "isMovementLocked d = (d_active d \<or> d_backstepActive d)"

definition isReady :: "dodgeSystem \<Rightarrow> bool" where
  "isReady d = (d_cooldown d \<le> 0 \<and> \<not> d_active d \<and> \<not> d_backstepActive d)"

definition getCooldownPercent :: "dodgeSystem \<Rightarrow> real" where
  "getCooldownPercent d =
     (if d_maxCooldown d \<le> 0 then 0 else max 0 (d_cooldown d / d_maxCooldown d))"

text \<open>
  What can happen to a dodge system and its player between two observations: a call of
  \<open>execute\<close>, a call of \<open>update\<close>, or the rest of the game writing the player.
\<close>

datatype dodgeEvent = Execute vec2 vec2 | Update real | PlayerWritten player

fun dodgeStep :: "dodgeSystem \<times> player \<Rightarrow> dodgeEvent \<Rightarrow> dodgeSystem \<times> player" where
  "dodgeStep s (Execute m f) = execute s m f"
| "dodgeStep s (Update dt) = DodgeSystem_update dt s"
| "dodgeStep s (PlayerWritten p') = (fst s, p')"

definition dodgeRun :: "dodgeSystem \<times> player \<Rightarrow> dodgeEvent list \<Rightarrow> dodgeSystem \<times> player" where
  "dodgeRun s evs = foldl dodgeStep s evs"

section \<open>The world oracle (world.js)\<close>

text \<open>
  Of the world only the two overlap queries the state machine calls are embedded. An
  obstacle is a rectangle with a type; \<open>o_grabHeight\<close> is read for vines only.
\<close>

datatype obstacleType = Gap | Vine | Solid

record obstacle =
  o_type :: obstacleType
  o_x :: real
  o_y :: real
  o_w :: real
  o_h :: real
  o_grabHeight :: real

type_synonym world = "obstacle list"

definition circleRectOverlap :: "obstacle \<Rightarrow> real \<Rightarrow> real \<Rightarrow> real \<Rightarrow> bool" where
  "circleRectOverlap obs px py pr =
     (let nx = max (o_x obs) (min px (o_x obs + o_w obs));
          ny = max (o_y obs) (min py (o_y obs + o_h obs));
          dx = px - nx; dy = py - ny
      in dx * dx + dy * dy < pr * pr)"

definition checkGap :: "world \<Rightarrow> real \<Rightarrow> real \<Rightarrow> real \<Rightarrow> obstacle option" where
  "checkGap w px py pr =
     find (\<lambda>obs. o_type obs = Gap \<and> circleRectOverlap obs px py pr) w"

definition checkVineGrab :: "world \<Rightarrow> real \<Rightarrow> real \<Rightarrow> real \<Rightarrow> real \<Rightarrow> obstacle option" where
  "checkVineGrab w px py pr z =
     find (\<lambda>obs. o_type obs = Vine \<and> circleRectOverlap obs px py pr \<and> z \<ge> o_grabHeight obs) w"

section \<open>playerState.js\<close>

definition JUMP_initialVelocity :: real where "JUMP_initialVelocity = 300"
definition JUMP_gravity :: real where "JUMP_gravity = 800"
definition JUMP_landSquashDuration :: real where "JUMP_landSquashDuration = 0.1"

datatype playerState = Idle | Moving | Strafing | Jumping | Hanging | Falling

record stateMachine =
  sm_state :: playerState
  sm_z :: real
  sm_vz :: real
  sm_landSquash :: real
  sm_hangTarget :: "obstacle option"
  sm_hangTimer :: real
  sm_hangLerpTarget :: real
  sm_lastSafeX :: real
  sm_lastSafeY :: real
  sm_gapFallTimer :: real
  sm_gapFalling :: bool
  sm_gapFallAlpha :: real
  sm_fallStartZ :: real

definition PlayerStateMachine_new :: "player \<Rightarrow> stateMachine" where
  "PlayerStateMachine_new p =
     \<lparr>sm_state = Idle, sm_z = 0, sm_vz = 0, sm_landSquash = 0, sm_hangTarget = None,
      sm_hangTimer = 0, sm_hangLerpTarget = 0, sm_lastSafeX = p_x p, sm_lastSafeY = p_y p,
      sm_gapFallTimer = 0, sm_gapFalling = False, sm_gapFallAlpha = 1, sm_fallStartZ = 0\<rparr>"

definition isGrounded :: "stateMachine \<Rightarrow> bool" where
  "isGrounded sm = (sm_state sm = Idle \<or> sm_state sm = Moving \<or> sm_state sm = Strafing)"

definition isAirborne :: "stateMachine \<Rightarrow> bool" where
  "isAirborne sm = (sm_state sm = Jumping \<or> sm_state sm = Falling)"

definition canDodge :: "stateMachine \<Rightarrow> bool" where
  "canDodge sm = isGrounded sm"

definition canMove :: "stateMachine \<Rightarrow> bool" where
  "canMove sm = isGrounded sm"

definition canUseAbility :: "stateMachine \<Rightarrow> bool" where
  "canUseAbility sm = (sm_state sm \<noteq> Hanging \<and> sm_state sm \<noteq> Falling)"

definition requestJump :: "stateMachine \<Rightarrow> stateMachine \<times> bool" where
  "requestJump sm =
     (if \<not> isGrounded sm then (sm, False)
      else (sm\<lparr>sm_vz := JUMP_initialVelocity, sm_state := Jumping, sm_fallStartZ := 0\<rparr>, True))"

definition dismountVine :: "stateMachine \<Rightarrow> stateMachine" where
  "dismountVine sm =
     (if sm_state sm \<noteq> Hanging then sm
      else sm\<lparr>sm_vz := JUMP_initialVelocity * 0.5, sm_state := Jumping,
              sm_fallStartZ := sm_z sm, sm_hangTarget := None, sm_hangTimer := 0\<rparr>)"

definition enterFalling :: "bool \<Rightarrow> stateMachine \<Rightarrow> stateMachine" where
  "enterFalling isGapFall sm =
     (if isAirborne sm then sm
      else let sm1 = sm\<lparr>sm_vz := 0, sm_state := Falling, sm_fallStartZ := sm_z sm\<rparr>
           in if isGapFall
              then sm1\<lparr>sm_gapFalling := True, sm_gapFallTimer := 0.5, sm_gapFallAlpha := 1\<rparr>
              else sm1)"

definition enterHanging :: "obstacle \<Rightarrow> stateMachine \<Rightarrow> stateMachine" where
  "enterHanging vine sm =
     sm\<lparr>sm_state := Hanging, sm_hangTarget := Some vine, sm_hangTimer := 3.0,
        sm_hangLerpTarget := o_grabHeight vine, sm_vz := 0\<rparr>"

text \<open>
  \<open>update(dt, moveInput, isStrafing, world)\<close> is split along its blocks. The state
  machine writes the player it refers to, so the blocks work on the pair. \<open>world\<close> may be
  \<open>null\<close> (\<open>None\<close>). \<open>now\<close> is the reading of \<open>performance.now()\<close>. The result
  \<open>None\<close> is the \<open>TypeError\<close> of reading \<open>grabHeight\<close> of a \<open>null\<close> hang target.
\<close>

definition trackSafe :: "world option \<Rightarrow> stateMachine \<times> player \<Rightarrow> stateMachine" where
  \<comment> \<open>"Track last safe position while grounded and not over a gap"\<close>
  "trackSafe world s =
     (case s of (sm, p) \<Rightarrow>
        (case world of
           None \<Rightarrow> sm
         | Some w \<Rightarrow>
             if isGrounded sm
             then (case checkGap w (p_x p) (p_y p) (p_radius p) of
                     None \<Rightarrow> sm\<lparr>sm_lastSafeX := p_x p, sm_lastSafeY := p_y p\<rparr>
                   | Some gap \<Rightarrow> sm)
             else sm))"

definition groundState :: "vec2 \<Rightarrow> bool \<Rightarrow> stateMachine \<Rightarrow> stateMachine" where
  \<comment> \<open>"Update ground state based on movement"\<close>
  "groundState moveInput strafing sm =
     (if isGrounded sm
      then let hasInput = (vec_x moveInput \<noteq> 0 \<or> vec_y moveInput \<noteq> 0)
           in if hasInput then sm\<lparr>sm_state := (if strafing then Strafing else Moving)\<rparr>
              else sm\<lparr>sm_state := Idle\<rparr>
      else sm)"

definition gapFallStep :: "real \<Rightarrow> stateMachine \<times> player \<Rightarrow> stateMachine \<times> player" where
  \<comment> \<open>the branch \<open>if (this.gapFalling)\<close>, which ends the call on both of its paths\<close>
  "gapFallStep dt s =
     (case s of (sm, p) \<Rightarrow>
        let sm1 = sm\<lparr>sm_gapFallTimer := sm_gapFallTimer sm - dt\<rparr>;
            sm2 = sm1\<lparr>sm_gapFallAlpha := max 0 (sm_gapFallTimer sm1 / 0.5)\<rparr>
        in if sm_gapFallTimer sm2 \<le> 0
           then let p1 = p\<lparr>p_x := sm_lastSafeX sm2, p_y := sm_lastSafeY sm2\<rparr>;
                    p2 = Player_takeDamage p1 15;
                    p3 = p2\<lparr>p_invulnTimer := 1.0\<rparr>;
                    sm3 = sm2\<lparr>sm_z := 0, sm_vz := 0, sm_gapFalling := False,
                             sm_gapFallAlpha := 1, sm_state := Idle\<rparr>
                in (sm3, p3\<lparr>p_z := sm_z sm3\<rparr>)
           else (sm2, p\<lparr>p_z := sm_z sm2\<rparr>))"

definition heightPhysics :: "real \<Rightarrow> stateMachine \<Rightarrow> stateMachine" where
  \<comment> \<open>gravity, the terminal velocity cap, the height, and the fall start at the apex\<close>
  "heightPhysics dt sm =
     (let sm1 = sm\<lparr>sm_vz := sm_vz sm - JUMP_gravity * dt\<rparr>;
          sm2 = sm1\<lparr>sm_vz := max (sm_vz sm1) (- 600)\<rparr>;
          sm3 = sm2\<lparr>sm_z := sm_z sm2 + sm_vz sm2 * dt\<rparr>
      in if sm_state sm3 = Jumping \<and> sm_vz sm3 < 0 \<and> sm_z sm3 > sm_fallStartZ sm3
         then sm3\<lparr>sm_fallStartZ := sm_z sm3\<rparr> else sm3)"

definition vineGrab :: "world option \<Rightarrow> stateMachine \<times> player \<Rightarrow> obstacle option" where
  \<comment> \<open>"Check vine grab while airborne"\<close>
  "vineGrab world s =
     (case s of (sm, p) \<Rightarrow>
        (case world of
           None \<Rightarrow> None
         | Some w \<Rightarrow>
             if sm_vz sm \<le> 0
             then checkVineGrab w (p_x p) (p_y p) (p_radius p) (sm_z sm) else None))"

definition landing :: "stateMachine \<times> player \<Rightarrow> stateMachine \<times> player" where
  \<comment> \<open>the block \<open>if (this.z <= 0)\<close>\<close>
  "landing s =
     (case s of (sm, p) \<Rightarrow>
        if sm_z sm \<le> 0
        then let sm1 = sm\<lparr>sm_z := 0, sm_vz := 0, sm_landSquash := JUMP_landSquashDuration\<rparr>;
                 p1 = (if sm_fallStartZ sm1 > 80
                       then let dmg = (sm_fallStartZ sm1 - 80) * 0.3
                            in Player_takeDamage p dmg
                       else p)
             in (sm1\<lparr>sm_fallStartZ := 0, sm_state := Idle\<rparr>, p1)
        else s)"

definition hangingStep :: "real \<Rightarrow> real \<Rightarrow> stateMachine \<Rightarrow> stateMachine option" where
  \<comment> \<open>the block \<open>if (this.state === 'hanging')\<close>\<close>
  "hangingStep dt now sm =
     (if sm_state sm = Hanging
      then let diff = sm_hangLerpTarget sm - sm_z sm;
               moved = (if \<bar>diff\<bar> > 0.5 then Some (sm\<lparr>sm_z := sm_z sm + diff * 15 * dt\<rparr>)
                        else (case sm_hangTarget sm of
                                None \<Rightarrow> None
                              | Some vine \<Rightarrow>
                                  Some (sm\<lparr>sm_z := o_grabHeight vine + sin (now / 300) * 2\<rparr>)))
           in (case moved of
                 None \<Rightarrow> None
               | Some sm1 \<Rightarrow>
                   let sm2 = sm1\<lparr>sm_hangTimer := sm_hangTimer sm1 - dt\<rparr>
                   in if sm_hangTimer sm2 \<le> 0
                      then Some (sm2\<lparr>sm_fallStartZ := sm_z sm2, sm_hangTarget := None,
                                    sm_state := Falling, sm_vz := 0\<rparr>)
                      else Some sm2)
      else Some sm)"

definition squashAndSync :: "real \<Rightarrow> stateMachine \<times> player \<Rightarrow> stateMachine \<times> player" where
  \<comment> \<open>"Landing squash decay" and "Sync z to player"\<close>
  "squashAndSync dt s =
     (case s of (sm, p) \<Rightarrow>
        let sm1 = (if sm_landSquash sm > 0
                   then let sm' = sm\<lparr>sm_landSquash := sm_landSquash sm - dt\<rparr>
                        in if sm_landSquash sm' < 0 then sm'\<lparr>sm_landSquash := 0\<rparr> else sm'
                   else sm)
        in (sm1, p\<lparr>p_z := sm_z sm1\<rparr>))"

definition frameTail ::
  "real \<Rightarrow> real \<Rightarrow> stateMachine \<times> player \<Rightarrow> (stateMachine \<times> player) option" where
  "frameTail dt now s =
     (case s of (sm, p) \<Rightarrow>
        (case hangingStep dt now sm of
           None \<Rightarrow> None
         | Some sm1 \<Rightarrow> Some (squashAndSync dt (sm1, p))))"

definition PlayerStateMachine_update ::
  "real \<Rightarrow> vec2 \<Rightarrow> bool \<Rightarrow> world option \<Rightarrow> real \<Rightarrow> stateMachine \<times> player
   \<Rightarrow> (stateMachine \<times> player) option" where
  "PlayerStateMachine_update dt moveInput strafing world now s =
     (case s of (sm0, p) \<Rightarrow>
        let sm1 = trackSafe world (sm0, p);
            sm2 = groundState moveInput strafing sm1
        in if sm_state sm2 = Jumping \<or> sm_state sm2 = Falling
           then if sm_gapFalling sm2 then Some (gapFallStep dt (sm2, p))
                else let sm3 = heightPhysics dt sm2
                     in (case vineGrab world (sm3, p) of
                           Some vine \<Rightarrow> Some (enterHanging vine sm3, p)
                         | None \<Rightarrow> frameTail dt now (landing (sm3, p)))
           else frameTail dt now (sm2, p))"

text \<open>
  What can happen to a state machine and its player between two observations: a call of
  \<open>update\<close>, a call of one of the four methods that enter a state, or the rest of the
  game writing the player. A run ends with \<open>None\<close> at the \<open>TypeError\<close> of \<open>update\<close>.
\<close>

datatype smEvent =
    Frame real vec2 bool "world option" real
  | JumpRequested
  | VineDismounted
  | FallEntered bool
  | HangEntered obstacle
  | PlayerSet player

fun smStep :: "stateMachine \<times> player \<Rightarrow> smEvent \<Rightarrow> (stateMachine \<times> player) option" where
  "smStep s (Frame dt mv st world now) = PlayerStateMachine_update dt mv st world now s"
| "smStep s JumpRequested = Some (fst (requestJump (fst s)), snd s)"
| "smStep s VineDismounted = Some (dismountVine (fst s), snd s)"
| "smStep s (FallEntered isGapFall) = Some (enterFalling isGapFall (fst s), snd s)"
| "smStep s (HangEntered vine) = Some (enterHanging vine (fst s), snd s)"
| "smStep s (PlayerSet p') = Some (fst s, p')"

fun smRun :: "stateMachine \<times> player \<Rightarrow> smEvent list \<Rightarrow> (stateMachine \<times> player) option" where
  "smRun s [] = Some s"
| "smRun s (ev # evs) = (case smStep s ev of None \<Rightarrow> None | Some s' \<Rightarrow> smRun s' evs)"

text \<open>
  The events of a game played in the world \<open>w\<close> by a player of radius \<open>r\<close>: \<open>update\<close> is
  called with \<open>w\<close> or with no world, and the player keeps its radius.
\<close>

fun eventIn :: "world \<Rightarrow> real \<Rightarrow> smEvent \<Rightarrow> bool" where
  "eventIn w r (Frame dt mv st world now) = (world = None \<or> world = Some w)"
| "eventIn w r (PlayerSet p') = (p_radius p' = r)"
| "eventIn w r ev = True"

section \<open>weapons.js: the effects\<close>

text \<open>
  One record per effect class; the set \<open>hitEnemies\<close> holds enemy ids. \<open>Projectile\<close> and
  \<open>FairyBolt\<close> have the same fields and share a record; they differ in the type tag,
  which is the constructor of the datatype \<open>effect\<close> below.
\<close>

record projectile =
  pr_x :: real
  pr_y :: real
  pr_vx :: real
  pr_vy :: real
  pr_damage :: real
  pr_radius :: real
  pr_lifetime :: real
  pr_maxLifetime :: real
  pr_hitEnemies :: "nat set"
  pr_alive :: bool

record swingEffect =
  sw_x :: real
  sw_y :: real
  sw_dir :: real
  sw_range :: real
  sw_arc :: real
  sw_damage :: real
  sw_duration :: real
  sw_timer :: real
  sw_hitEnemies :: "nat set"
  sw_alive :: bool

record novaEffect =
  nv_x :: real
  nv_y :: real
  nv_damage :: real
  nv_maxRadius :: real
  nv_expandSpeed :: real
  nv_radius :: real
  nv_hitEnemies :: "nat set"
  nv_alive :: bool

record spinAttackState =
  sp_baseDamage :: real
  sp_orbitRadius :: real
  sp_bladeRadius :: real
  sp_duration :: real
  sp_timer :: real
  sp_bladeCount :: nat
  sp_knockback :: real
  sp_angle :: real
  sp_rotationSpeed :: real
  sp_hitTimers :: "nat \<rightharpoonup> real"
  sp_alive :: bool
  sp_ownerX :: real
  sp_ownerY :: real

record windPushEffect =
  wp_x :: real
  wp_y :: real
  wp_dir :: real
  wp_range :: real
  wp_arc :: real
  wp_damage :: real
  wp_pushForce :: real
  wp_duration :: real
  wp_timer :: real
  wp_hitEnemies :: "nat set"
  wp_currentRange :: real
  wp_alive :: bool

record frostRingEffect =
  fr_x :: real
  fr_y :: real
  fr_damage :: real
  fr_maxRadius :: real
  fr_expandSpeed :: real
  fr_slowFactor :: real
  fr_slowDuration :: real
  fr_radius :: real
  fr_hitEnemies :: "nat set"
  fr_alive :: bool

record chainSegment =
  ch_x1 :: real
  ch_y1 :: real
  ch_x2 :: real
  ch_y2 :: real
  ch_damage :: real

record lightningArcEffect =
  la_alive :: bool
  la_timer :: real
  la_chains :: "chainSegment list"

datatype meteorPhase = Warning | Impact

record meteorEffect =
  mt_x :: real
  mt_y :: real
  mt_damage :: real
  mt_radius :: real
  mt_delay :: real
  mt_timer :: real
  mt_phase :: meteorPhase
  mt_impactTimer :: real
  mt_hitEnemies :: "nat set"
  mt_alive :: bool

record pulseEffect =
  pu_x :: real
  pu_y :: real
  pu_damage :: real
  pu_maxRadius :: real
  pu_expandSpeed :: real
  pu_knockback :: real
  pu_radius :: real
  pu_hitEnemies :: "nat set"
  pu_alive :: bool

subsection \<open>Constructors\<close>

definition Projectile_new ::
  "real \<Rightarrow> real \<Rightarrow> real \<Rightarrow> real \<Rightarrow> real \<Rightarrow> real \<Rightarrow> real \<Rightarrow> projectile" where
  "Projectile_new x y vx vy dmg radius lifetime =
     \<lparr>pr_x = x, pr_y = y, pr_vx = vx, pr_vy = vy, pr_damage = dmg, pr_radius = radius,
      pr_lifetime = lifetime, pr_maxLifetime = lifetime, pr_hitEnemies = {}, pr_alive = True\<rparr>"

definition FairyBolt_new ::
  "real \<Rightarrow> real \<Rightarrow> real \<Rightarrow> real \<Rightarrow> real \<Rightarrow> real \<Rightarrow> real \<Rightarrow> projectile" where
  "FairyBolt_new x y tx ty dmg spd radius =
     (let dir = normalize (tx - x) (ty - y)
      in \<lparr>pr_x = x, pr_y = y, pr_vx = vec_x dir * spd, pr_vy = vec_y dir * spd,
          pr_damage = dmg, pr_radius = radius, pr_lifetime = 2.0, pr_maxLifetime = 2.0,
          pr_hitEnemies = {}, pr_alive = True\<rparr>)"

definition SwingEffect_new ::
  "real \<Rightarrow> real \<Rightarrow> real \<Rightarrow> real \<Rightarrow> real \<Rightarrow> real \<Rightarrow> real \<Rightarrow> swingEffect" where
  "SwingEffect_new x y dir rng arc dmg duration =
     \<lparr>sw_x = x, sw_y = y, sw_dir = dir, sw_range = rng, sw_arc = arc, sw_damage = dmg,
      sw_duration = duration, sw_timer = duration, sw_hitEnemies = {}, sw_alive = True\<rparr>"

definition NovaEffect_new :: "real \<Rightarrow> real \<Rightarrow> real \<Rightarrow> real \<Rightarrow> real \<Rightarrow> novaEffect" where
  "NovaEffect_new x y dmg maxRadius expandSpeed =
     \<lparr>nv_x = x, nv_y = y, nv_damage = dmg, nv_maxRadius = maxRadius,
      nv_expandSpeed = expandSpeed, nv_radius = 10, nv_hitEnemies = {}, nv_alive = True\<rparr>"

definition SpinAttackState_new ::
  "real \<Rightarrow> real \<Rightarrow> real \<Rightarrow> real \<Rightarrow> nat \<Rightarrow> real \<Rightarrow> spinAttackState" where
  \<comment> \<open>\<open>knockback || 0\<close> is \<open>knockback\<close> on a number\<close>
  "SpinAttackState_new baseDamage orbitRadius bladeRadius duration bladeCount knockback =
     \<lparr>sp_baseDamage = baseDamage, sp_orbitRadius = orbitRadius, sp_bladeRadius = bladeRadius,
      sp_duration = duration, sp_timer = duration, sp_bladeCount = bladeCount,
      sp_knockback = knockback, sp_angle = 0, sp_rotationSpeed = 5,
      sp_hitTimers = Map.empty, sp_alive = True, sp_ownerX = 0, sp_ownerY = 0\<rparr>"

definition WindPushEffect_new ::
  "real \<Rightarrow> real \<Rightarrow> real \<Rightarrow> real \<Rightarrow> real \<Rightarrow> real \<Rightarrow> real \<Rightarrow> real \<Rightarrow> windPushEffect" where
  "WindPushEffect_new x y dir rng arc dmg pushForce duration =
     \<lparr>wp_x = x, wp_y = y, wp_dir = dir, wp_range = rng, wp_arc = arc, wp_damage = dmg,
      wp_pushForce = pushForce, wp_duration = duration, wp_timer = duration,
      wp_hitEnemies = {}, wp_currentRange = 10, wp_alive = True\<rparr>"

definition FrostRingEffect_new ::
  "real \<Rightarrow> real \<Rightarrow> real \<Rightarrow> real \<Rightarrow> real \<Rightarrow> real \<Rightarrow> real \<Rightarrow> frostRingEffect" where
  "FrostRingEffect_new x y dmg maxRadius expandSpeed slowFactor slowDuration =
     \<lparr>fr_x = x, fr_y = y, fr_damage = dmg, fr_maxRadius = maxRadius,
      fr_expandSpeed = expandSpeed, fr_slowFactor = slowFactor,
      fr_slowDuration = slowDuration, fr_radius = 10, fr_hitEnemies = {}, fr_alive = True\<rparr>"

definition MeteorEffect_new :: "real \<Rightarrow> real \<Rightarrow> real \<Rightarrow> real \<Rightarrow> real \<Rightarrow> meteorEffect" where
  "MeteorEffect_new x y dmg radius delay =
     \<lparr>mt_x = x, mt_y = y, mt_damage = dmg, mt_radius = radius, mt_delay = delay,
      mt_timer = delay, mt_phase = Warning, mt_impactTimer = 0.3, mt_hitEnemies = {},
      mt_alive = True\<rparr>"

definition PulseEffect_new ::
  "real \<Rightarrow> real \<Rightarrow> real \<Rightarrow> real \<Rightarrow> real \<Rightarrow> real \<Rightarrow> pulseEffect" where
  "PulseEffect_new x y dmg maxRadius expandSpeed knockback =
     \<lparr>pu_x = x, pu_y = y, pu_damage = dmg, pu_maxRadius = maxRadius,
      pu_expandSpeed = expandSpeed, pu_knockback = knockback, pu_radius = 10,
      pu_hitEnemies = {}, pu_alive = True\<rparr>"

subsection \<open>The lightning chain, built by the constructor\<close>

text \<open>
  The inner loop of \<open>_buildChain\<close>: the scan of the roster for the nearest enemy that is
  alive, not in the hit set and nearer than \<open>range\<close>. It keeps the index of the best
  enemy so far (the object reference \<open>nearest\<close>) and its distance; a later enemy
  replaces it only when strictly nearer.
\<close>

fun nearestScan ::
  "real \<Rightarrow> real \<Rightarrow> nat set \<Rightarrow> enemy list \<Rightarrow> nat \<Rightarrow> nat option \<times> real \<Rightarrow> nat option \<times> real" where
  "nearestScan cx cy hitSet [] i best = best"
| "nearestScan cx cy hitSet (e # es) i (nearest, nearestDist) =
     (if e_dead e \<or> e_id e \<in> hitSet
      then nearestScan cx cy hitSet es (Suc i) (nearest, nearestDist)
      else let d = distance cx cy (e_x e) (e_y e)
           in if d < nearestDist
              then nearestScan cx cy hitSet es (Suc i) (Some i, d)
              else nearestScan cx cy hitSet es (Suc i) (nearest, nearestDist))"

definition findNearest :: "real \<Rightarrow> real \<Rightarrow> real \<Rightarrow> nat set \<Rightarrow> enemy list \<Rightarrow> nat option" where
  "findNearest cx cy rng hitSet enemies =
     fst (nearestScan cx cy hitSet enemies 0 (None, rng))"

text \<open>
  The outer loop \<open>for (let i = 0; i < maxChains + 1; i++)\<close>, by the number of
  iterations still to run. It returns the segments pushed to \<open>this.chains\<close> and the
  roster after the calls of \<open>takeDamage\<close>.
\<close>

fun chainLoop ::
  "nat \<Rightarrow> real \<Rightarrow> real \<Rightarrow> real \<Rightarrow> real \<Rightarrow> real \<Rightarrow> nat set \<Rightarrow> enemy list
   \<Rightarrow> chainSegment list \<times> enemy list" where
  "chainLoop 0 cx cy dmg decay rng hitSet enemies = ([], enemies)"
| "chainLoop (Suc n) cx cy dmg decay rng hitSet enemies =
     (case findNearest cx cy rng hitSet enemies of
        None \<Rightarrow> ([], enemies)
      | Some k \<Rightarrow>
          let nearest = enemies ! k;
              seg = \<lparr>ch_x1 = cx, ch_y1 = cy, ch_x2 = e_x nearest, ch_y2 = e_y nearest,
                     ch_damage = dmg\<rparr>;
              enemies1 = enemies[k := Enemy_takeDamage nearest dmg];
              (segs, enemies2) =
                chainLoop n (e_x nearest) (e_y nearest) (dmg * decay) decay rng
                  (insert (e_id nearest) hitSet) enemies1
          in (seg # segs, enemies2))"

definition buildChain ::
  "real \<Rightarrow> real \<Rightarrow> real \<Rightarrow> int \<Rightarrow> real \<Rightarrow> real \<Rightarrow> enemy list \<Rightarrow> chainSegment list \<times> enemy list" where
  "buildChain startX startY baseDamage maxChains decay rng enemies =
     chainLoop (nat (maxChains + 1)) startX startY baseDamage decay rng {} enemies"

definition LightningArcEffect_new ::
  "real \<Rightarrow> real \<Rightarrow> real \<Rightarrow> int \<Rightarrow> real \<Rightarrow> real \<Rightarrow> enemy list
   \<Rightarrow> lightningArcEffect \<times> enemy list" where
  \<comment> \<open>the effect constructed, and the roster as the constructor leaves it\<close>
  "LightningArcEffect_new x y dmg chainCount damageDecay rng enemies =
     (let (segs, enemies') = buildChain x y dmg chainCount damageDecay rng enemies
      in (\<lparr>la_alive = True, la_timer = 0.4, la_chains = segs\<rparr>, enemies'))"

subsection \<open>The effects as one type, and their update methods\<close>

datatype effect =
    Projectile projectile
  | FairyBolt projectile
  | Swing swingEffect
  | Nova novaEffect
  | Spin spinAttackState
  | WindPush windPushEffect
  | FrostRing frostRingEffect
  | LightningArc lightningArcEffect
  | Meteor meteorEffect
  | Pulse pulseEffect

definition Projectile_update :: "real \<Rightarrow> projectile \<Rightarrow> projectile" where
  "Projectile_update dt e =
     (let e1 = e\<lparr>pr_x := pr_x e + pr_vx e * dt, pr_y := pr_y e + pr_vy e * dt,
                 pr_lifetime := pr_lifetime e - dt\<rparr>
      in if pr_lifetime e1 \<le> 0 then e1\<lparr>pr_alive := False\<rparr> else e1)"

definition SwingEffect_update :: "real \<Rightarrow> swingEffect \<Rightarrow> swingEffect" where
  "SwingEffect_update dt e =
     (let e1 = e\<lparr>sw_timer := sw_timer e - dt\<rparr>
      in if sw_timer e1 \<le> 0 then e1\<lparr>sw_alive := False\<rparr> else e1)"

definition NovaEffect_update :: "real \<Rightarrow> novaEffect \<Rightarrow> novaEffect" where
  "NovaEffect_update dt e =
     (let e1 = e\<lparr>nv_radius := nv_radius e + nv_expandSpeed e * dt\<rparr>
      in if nv_radius e1 \<ge> nv_maxRadius e1 then e1\<lparr>nv_alive := False\<rparr> else e1)"

definition SpinAttackState_update :: "real \<Rightarrow> spinAttackState \<Rightarrow> spinAttackState" where
  "SpinAttackState_update dt e =
     (let e1 = e\<lparr>sp_angle := sp_angle e + sp_rotationSpeed e * dt,
                 sp_timer := sp_timer e - dt\<rparr>;
          e2 = (if sp_timer e1 \<le> 0 then e1\<lparr>sp_alive := False\<rparr> else e1)
      in e2\<lparr>sp_hitTimers := (\<lambda>key. map_option (\<lambda>t. t - dt) (sp_hitTimers e2 key))\<rparr>)"

definition WindPushEffect_update :: "real \<Rightarrow> windPushEffect \<Rightarrow> windPushEffect" where
  "WindPushEffect_update dt e =
     (let e1 = e\<lparr>wp_timer := wp_timer e - dt\<rparr>;
          e2 = e1\<lparr>wp_currentRange := wp_currentRange e1 + (wp_range e1 / wp_duration e1) * dt\<rparr>
      in if wp_timer e2 \<le> 0 then e2\<lparr>wp_alive := False\<rparr> else e2)"

definition FrostRingEffect_update :: "real \<Rightarrow> frostRingEffect \<Rightarrow> frostRingEffect" where
  "FrostRingEffect_update dt e =
     (let e1 = e\<lparr>fr_radius := fr_radius e + fr_expandSpeed e * dt\<rparr>
      in if fr_radius e1 \<ge> fr_maxRadius e1 then e1\<lparr>fr_alive := False\<rparr> else e1)"

definition LightningArcEffect_update :: "real \<Rightarrow> lightningArcEffect \<Rightarrow> lightningArcEffect" where
  "LightningArcEffect_update dt e =
     (let e1 = e\<lparr>la_timer := la_timer e - dt\<rparr>
      in if la_timer e1 \<le> 0 then e1\<lparr>la_alive := False\<rparr> else e1)"

definition MeteorEffect_update :: "real \<Rightarrow> meteorEffect \<Rightarrow> meteorEffect" where
  "MeteorEffect_update dt e =
     (if mt_phase e = Warning
      then let e1 = e\<lparr>mt_timer := mt_timer e - dt\<rparr>
           in if mt_timer e1 \<le> 0
              then e1\<lparr>mt_phase := Impact, mt_timer := mt_impactTimer e1\<rparr> else e1
      else let e1 = e\<lparr>mt_timer := mt_timer e - dt\<rparr>
           in if mt_timer e1 \<le> 0 then e1\<lparr>mt_alive := False\<rparr> else e1)"

definition PulseEffect_update :: "real \<Rightarrow> pulseEffect \<Rightarrow> pulseEffect" where
  "PulseEffect_update dt e =
     (let e1 = e\<lparr>pu_radius := pu_radius e + pu_expandSpeed e * dt\<rparr>
      in if pu_radius e1 \<ge> pu_maxRadius e1 then e1\<lparr>pu_alive := False\<rparr> else e1)"

fun effect_update :: "real \<Rightarrow> effect \<Rightarrow> effect" where
  \<comment> \<open>the dynamic dispatch of \<open>e.update(dt)\<close>\<close>
  "effect_update dt (Projectile e) = Projectile (Projectile_update dt e)"
| "effect_update dt (FairyBolt e) = FairyBolt (Projectile_update dt e)"
| "effect_update dt (Swing e) = Swing (SwingEffect_update dt e)"
| "effect_update dt (Nova e) = Nova (NovaEffect_update dt e)"
| "effect_update dt (Spin e) = Spin (SpinAttackState_update dt e)"
| "effect_update dt (WindPush e) = WindPush (WindPushEffect_update dt e)"
| "effect_update dt (FrostRing e) = FrostRing (FrostRingEffect_update dt e)"
| "effect_update dt (LightningArc e) = LightningArc (LightningArcEffect_update dt e)"
| "effect_update dt (Meteor e) = Meteor (MeteorEffect_update dt e)"
| "effect_update dt (Pulse e) = Pulse (PulseEffect_update dt e)"

fun effect_alive :: "effect \<Rightarrow> bool" where
  \<comment> \<open>the field \<open>alive\<close>, which every effect class has\<close>
  "effect_alive (Projectile e) = pr_alive e"
| "effect_alive (FairyBolt e) = pr_alive e"
| "effect_alive (Swing e) = sw_alive e"
| "effect_alive (Nova e) = nv_alive e"
| "effect_alive (Spin e) = sp_alive e"
| "effect_alive (WindPush e) = wp_alive e"
| "effect_alive (FrostRing e) = fr_alive e"
| "effect_alive (LightningArc e) = la_alive e"
| "effect_alive (Meteor e) = mt_alive e"
| "effect_alive (Pulse e) = pu_alive e"

section \<open>weapons.js: hit detection and the engine\<close>

text \<open>
  \<open>Math.atan2(y, x)\<close> on the reals, and the two loops that bring an angle difference
  back toward \<open>[-pi, pi]\<close>.
\<close>

definition atan2 :: "real \<Rightarrow> real \<Rightarrow> real" where
  "atan2 y x =
     (if x > 0 then arctan (y / x)
      else if x < 0 then (if y \<ge> 0 then arctan (y / x) + pi else arctan (y / x) - pi)
      else if y > 0 then pi / 2
      else if y < 0 then - pi / 2
      else 0)"

function wrapDown :: "real \<Rightarrow> real" where
  \<comment> \<open>\<open>while (angleDiff > Math.PI) angleDiff -= Math.PI * 2\<close>\<close>
  "wrapDown a = (if a > pi then wrapDown (a - pi * 2) else a)"
  by pat_completeness auto
termination
proof (relation "measure (\<lambda>a. nat \<lceil>(a - pi) / (pi * 2)\<rceil>)")
  show "wf (measure (\<lambda>a. nat \<lceil>(a - pi) / (pi * 2)\<rceil>))" by simp
next
  fix a :: real
  assume a: "pi < a"
  have eq: "(a - pi * 2 - pi) / (pi * 2) = (a - pi) / (pi * 2) - 1"
    by (simp add: field_simps)
  have pos: "0 < (a - pi) / (pi * 2)" using a by simp
  then have "0 < \<lceil>(a - pi) / (pi * 2)\<rceil>" by linarith
  then show "(a - pi * 2, a) \<in> measure (\<lambda>a. nat \<lceil>(a - pi) / (pi * 2)\<rceil>)"
    unfolding in_measure eq by linarith
qed

function wrapUp :: "real \<Rightarrow> real" where
  \<comment> \<open>\<open>while (angleDiff < -Math.PI) angleDiff += Math.PI * 2\<close>\<close>
  "wrapUp a = (if a < - pi then wrapUp (a + pi * 2) else a)"
  by pat_completeness auto
termination
proof (relation "measure (\<lambda>a. nat \<lceil>(- pi - a) / (pi * 2)\<rceil>)")
  show "wf (measure (\<lambda>a. nat \<lceil>(- pi - a) / (pi * 2)\<rceil>))" by simp
next
  fix a :: real
  assume a: "a < - pi"
  have eq: "(- pi - (a + pi * 2)) / (pi * 2) = (- pi - a) / (pi * 2) - 1"
    by (simp add: field_simps)
  have pos: "0 < (- pi - a) / (pi * 2)" using a by simp
  then have "0 < \<lceil>(- pi - a) / (pi * 2)\<rceil>" by linarith
  then show "(a + pi * 2, a) \<in> measure (\<lambda>a. nat \<lceil>(- pi - a) / (pi * 2)\<rceil>)"
    unfolding in_measure eq by linarith
qed

definition angleDiff :: "real \<Rightarrow> real \<Rightarrow> real \<Rightarrow> real" where
  \<comment> \<open>the wrapped difference between the bearing of \<open>(dx, dy)\<close> and \<open>dir\<close>\<close>
  "angleDiff dx dy dir = wrapUp (wrapDown (atan2 dy dx - dir))"

text \<open>
  \<open>for (const enemy of enemies) { ... }\<close> with a body that may write the effect and the
  enemy: the body maps effect and enemy to the two after it; \<open>continue\<close> is a body that
  returns both as they are.
\<close>

fun forEnemies :: "('a \<Rightarrow> enemy \<Rightarrow> 'a \<times> enemy) \<Rightarrow> 'a \<Rightarrow> enemy list \<Rightarrow> 'a \<times> enemy list" where
  "forEnemies body eff [] = (eff, [])"
| "forEnemies body eff (e # es) =
     (let (eff1, e1) = body eff e;
          (eff2, es2) = forEnemies body eff1 es
      in (eff2, e1 # es2))"

fun projectileLoop :: "projectile \<Rightarrow> enemy list \<Rightarrow> projectile \<times> enemy list" where
  \<comment> \<open>the loop of \<open>_checkProjectileHit\<close>, which ends with \<open>break\<close> at the first hit\<close>
  "projectileLoop proj [] = (proj, [])"
| "projectileLoop proj (e # es) =
     (if e_dead e \<or> e_id e \<in> pr_hitEnemies proj
      then let (proj', es') = projectileLoop proj es in (proj', e # es')
      else if distance (pr_x proj) (pr_y proj) (e_x e) (e_y e) < pr_radius proj + e_radius e
      then (proj\<lparr>pr_hitEnemies := insert (e_id e) (pr_hitEnemies proj), pr_alive := False\<rparr>,
            Enemy_takeDamage e (pr_damage proj) # es)
      else let (proj', es') = projectileLoop proj es in (proj', e # es'))"

definition checkProjectileHit :: "projectile \<Rightarrow> enemy list \<Rightarrow> projectile \<times> enemy list" where
  "checkProjectileHit proj enemies =
     (if \<not> pr_alive proj then (proj, enemies) else projectileLoop proj enemies)"

definition swingBody :: "swingEffect \<Rightarrow> enemy \<Rightarrow> swingEffect \<times> enemy" where
  "swingBody swing e =
     (if e_dead e \<or> e_id e \<in> sw_hitEnemies swing then (swing, e)
      else let dx = e_x e - sw_x swing; dy = e_y e - sw_y swing;
               dist = sqrt (dx * dx + dy * dy)
           in if dist > sw_range swing + e_radius e then (swing, e)
              else if \<bar>angleDiff dx dy (sw_dir swing)\<bar> \<le> sw_arc swing / 2
              then (swing\<lparr>sw_hitEnemies := insert (e_id e) (sw_hitEnemies swing)\<rparr>,
                    Enemy_takeDamage e (sw_damage swing))
              else (swing, e))"

definition checkSwingHit :: "swingEffect \<Rightarrow> enemy list \<Rightarrow> swingEffect \<times> enemy list" where
  "checkSwingHit swing enemies =
     (if \<not> sw_alive swing then (swing, enemies) else forEnemies swingBody swing enemies)"

definition novaBody :: "novaEffect \<Rightarrow> enemy \<Rightarrow> novaEffect \<times> enemy" where
  "novaBody nova e =
     (if e_dead e \<or> e_id e \<in> nv_hitEnemies nova then (nova, e)
      else let dist = distance (nv_x nova) (nv_y nova) (e_x e) (e_y e)
           in if dist < nv_radius nova + e_radius e \<and> dist > nv_radius nova - 25
              then (nova\<lparr>nv_hitEnemies := insert (e_id e) (nv_hitEnemies nova)\<rparr>,
                    Enemy_takeDamage e (nv_damage nova))
              else (nova, e))"

definition checkNovaHit :: "novaEffect \<Rightarrow> enemy list \<Rightarrow> novaEffect \<times> enemy list" where
  "checkNovaHit nova enemies =
     (if \<not> nv_alive nova then (nova, enemies) else forEnemies novaBody nova enemies)"

definition unitOr1 :: "real \<Rightarrow> real" where
  \<comment> \<open>\<open>Math.sqrt(...) || 1\<close>\<close>
  "unitOr1 d = (if d = 0 then 1 else d)"

definition spinBody :: "real \<Rightarrow> real \<Rightarrow> spinAttackState \<Rightarrow> enemy \<Rightarrow> spinAttackState \<times> enemy" where
  \<comment> \<open>the inner loop body of \<open>_checkSpinHit\<close> for the blade at \<open>(bx, by)\<close>;
      \<open>!hitTimers[key] || hitTimers[key] <= 0\<close> holds for a missing key and for a timer
      that is not positive\<close>
  "spinBody bx by spin e =
     (if e_dead e then (spin, e)
      else if distance bx by (e_x e) (e_y e) < sp_bladeRadius spin + e_radius e
      then let ready = (case sp_hitTimers spin (e_id e) of None \<Rightarrow> True | Some t \<Rightarrow> t \<le> 0)
           in if ready
              then let e1 = Enemy_takeDamage e (sp_baseDamage spin);
                       spin1 = spin\<lparr>sp_hitTimers := (sp_hitTimers spin)(e_id e \<mapsto> 0.3)\<rparr>
                   in if sp_knockback spin1 \<noteq> 0
                      then let dx = e_x e1 - sp_ownerX spin1; dy = e_y e1 - sp_ownerY spin1;
                               d = unitOr1 (sqrt (dx * dx + dy * dy))
                           in (spin1, applyKnockback e1 (dx / d) (dy / d) (sp_knockback spin1))
                      else (spin1, e1)
              else (spin, e)
      else (spin, e))"

definition spinBlade :: "spinAttackState \<times> enemy list \<Rightarrow> nat \<Rightarrow> spinAttackState \<times> enemy list" where
  \<comment> \<open>one round of the outer loop of \<open>_checkSpinHit\<close>, for blade \<open>i\<close>\<close>
  "spinBlade s i =
     (case s of (spin, enemies) \<Rightarrow>
        let angle = sp_angle spin + (real i * pi * 2 / real (sp_bladeCount spin));
            bx = sp_ownerX spin + cos angle * sp_orbitRadius spin;
            by = sp_ownerY spin + sin angle * sp_orbitRadius spin
        in forEnemies (spinBody bx by) spin enemies)"

definition checkSpinHit :: "spinAttackState \<Rightarrow> enemy list \<Rightarrow> spinAttackState \<times> enemy list" where
  "checkSpinHit spin enemies =
     (if \<not> sp_alive spin then (spin, enemies)
      else foldl spinBlade (spin, enemies) [0..<sp_bladeCount spin])"

definition windPushBody :: "windPushEffect \<Rightarrow> enemy \<Rightarrow> windPushEffect \<times> enemy" where
  "windPushBody wind e =
     (if e_dead e then (wind, e)
      else let dx = e_x e - wp_x wind; dy = e_y e - wp_y wind;
               dist = sqrt (dx * dx + dy * dy)
           in if dist > wp_currentRange wind + e_radius e then (wind, e)
              else if \<bar>angleDiff dx dy (wp_dir wind)\<bar> \<le> wp_arc wind / 2
              then let (wind1, e1) =
                         (if e_id e \<notin> wp_hitEnemies wind
                          then (wind\<lparr>wp_hitEnemies := insert (e_id e) (wp_hitEnemies wind)\<rparr>,
                                Enemy_takeDamage e (wp_damage wind))
                          else (wind, e));
                       n = (if dist > 0 then \<lparr>vec_x = dx / dist, vec_y = dy / dist\<rparr>
                            else \<lparr>vec_x = 1, vec_y = 0\<rparr>)
                   in (wind1, applyKnockback e1 (vec_x n) (vec_y n) (wp_pushForce wind1))
              else (wind, e))"

definition checkWindPushHit :: "windPushEffect \<Rightarrow> enemy list \<Rightarrow> windPushEffect \<times> enemy list" where
  "checkWindPushHit wind enemies =
     (if \<not> wp_alive wind then (wind, enemies) else forEnemies windPushBody wind enemies)"

definition frostRingBody :: "frostRingEffect \<Rightarrow> enemy \<Rightarrow> frostRingEffect \<times> enemy" where
  "frostRingBody frost e =
     (if e_dead e \<or> e_id e \<in> fr_hitEnemies frost then (frost, e)
      else let dist = distance (fr_x frost) (fr_y frost) (e_x e) (e_y e)
           in if dist < fr_radius frost + e_radius e \<and> dist > fr_radius frost - 25
              then let e1 = Enemy_takeDamage e (fr_damage frost);
                       frost1 = frost\<lparr>fr_hitEnemies := insert (e_id e) (fr_hitEnemies frost)\<rparr>
                   in (frost1, applySlow e1 (fr_slowFactor frost1) (fr_slowDuration frost1))
              else (frost, e))"

definition checkFrostRingHit ::
  "frostRingEffect \<Rightarrow> enemy list \<Rightarrow> frostRingEffect \<times> enemy list" where
  "checkFrostRingHit frost enemies =
     (if \<not> fr_alive frost then (frost, enemies) else forEnemies frostRingBody frost enemies)"

definition meteorBody :: "meteorEffect \<Rightarrow> enemy \<Rightarrow> meteorEffect \<times> enemy" where
  "meteorBody meteor e =
     (if e_dead e \<or> e_id e \<in> mt_hitEnemies meteor then (meteor, e)
      else let dist = distance (mt_x meteor) (mt_y meteor) (e_x e) (e_y e)
           in if dist < mt_radius meteor + e_radius e
              then (meteor\<lparr>mt_hitEnemies := insert (e_id e) (mt_hitEnemies meteor)\<rparr>,
                    Enemy_takeDamage e (mt_damage meteor))
              else (meteor, e))"

definition checkMeteorHit :: "meteorEffect \<Rightarrow> enemy list \<Rightarrow> meteorEffect \<times> enemy list" where
  "checkMeteorHit meteor enemies =
     (if mt_phase meteor \<noteq> Impact then (meteor, enemies)
      else forEnemies meteorBody meteor enemies)"

definition pulseBody :: "pulseEffect \<Rightarrow> enemy \<Rightarrow> pulseEffect \<times> enemy" where
  "pulseBody pulse e =
     (if e_dead e \<or> e_id e \<in> pu_hitEnemies pulse then (pulse, e)
      else let dist = distance (pu_x pulse) (pu_y pulse) (e_x e) (e_y e)
           in if dist < pu_radius pulse + e_radius e \<and> dist > pu_radius pulse - 25
              then let e1 = Enemy_takeDamage e (pu_damage pulse);
                       pulse1 = pulse\<lparr>pu_hitEnemies := insert (e_id e) (pu_hitEnemies pulse)\<rparr>
                   in if pu_knockback pulse1 \<noteq> 0
                      then let dx = e_x e1 - pu_x pulse1; dy = e_y e1 - pu_y pulse1;
                               d = unitOr1 (sqrt (dx * dx + dy * dy))
                           in (pulse1, applyKnockback e1 (dx / d) (dy / d) (pu_knockback pulse1))
                      else (pulse1, e1)
              else (pulse, e))"

definition checkPulseHit :: "pulseEffect \<Rightarrow> enemy list \<Rightarrow> pulseEffect \<times> enemy list" where
  "checkPulseHit pulse enemies =
     (if \<not> pu_alive pulse then (pulse, enemies) else forEnemies pulseBody pulse enemies)"

fun checkHit :: "effect \<Rightarrow> enemy list \<Rightarrow> effect \<times> enemy list" where
  \<comment> \<open>the \<open>switch (effect.type)\<close> of \<open>_checkHits\<close>; it has no case for a lightning arc\<close>
  "checkHit (Projectile e) enemies = map_prod Projectile id (checkProjectileHit e enemies)"
| "checkHit (FairyBolt e) enemies = map_prod FairyBolt id (checkProjectileHit e enemies)"
| "checkHit (Swing e) enemies = map_prod Swing id (checkSwingHit e enemies)"
| "checkHit (Nova e) enemies = map_prod Nova id (checkNovaHit e enemies)"
| "checkHit (Spin e) enemies = map_prod Spin id (checkSpinHit e enemies)"
| "checkHit (WindPush e) enemies = map_prod WindPush id (checkWindPushHit e enemies)"
| "checkHit (FrostRing e) enemies = map_prod FrostRing id (checkFrostRingHit e enemies)"
| "checkHit (LightningArc e) enemies = (LightningArc e, enemies)"
| "checkHit (Meteor e) enemies = map_prod Meteor id (checkMeteorHit e enemies)"
| "checkHit (Pulse e) enemies = map_prod Pulse id (checkPulseHit e enemies)"

fun checkHits :: "effect list \<Rightarrow> enemy list \<Rightarrow> effect list \<times> enemy list" where
  \<comment> \<open>\<open>for (const effect of this.effects)\<close>: the effects in order, on one roster\<close>
  "checkHits [] enemies = ([], enemies)"
| "checkHits (f # fs) enemies =
     (let (f', enemies1) = checkHit f enemies;
          (fs', enemies2) = checkHits fs enemies1
      in (f' # fs', enemies2))"

record effectEngine =
  en_effects :: "effect list"

definition EffectEngine_new :: effectEngine where
  "EffectEngine_new = \<lparr>en_effects = []\<rparr>"

definition addEffect :: "effect \<Rightarrow> effectEngine \<Rightarrow> effectEngine" where
  "addEffect f eng = eng\<lparr>en_effects := en_effects eng @ [f]\<rparr>"

definition advanceEffect :: "real \<Rightarrow> player \<Rightarrow> effect \<Rightarrow> effect" where
  \<comment> \<open>the body of the first loop of \<open>update\<close>: a spin is moved to its owner, the player
      the engine was built with, and then every effect is updated\<close>
  "advanceEffect dt pl f =
     effect_update dt
       (case f of Spin s \<Rightarrow> Spin (s\<lparr>sp_ownerX := p_x pl, sp_ownerY := p_y pl\<rparr>) | _ \<Rightarrow> f)"

definition EffectEngine_update ::
  "real \<Rightarrow> player \<Rightarrow> effectEngine \<Rightarrow> enemy list \<Rightarrow> effectEngine \<times> enemy list" where
  "EffectEngine_update dt pl eng enemies =
     (let advanced = map (advanceEffect dt pl) (en_effects eng);
          kept = filter effect_alive advanced;
          (checked, enemies') = checkHits kept enemies
      in (eng\<lparr>en_effects := checked\<rparr>, enemies'))"

text \<open>
  The order the spec gives for one frame, for comparison: advance every effect, run the
  hit-tests of all of them, then drop the effects whose alive flag is false.
\<close>

definition Advance_spec ::
  "real \<Rightarrow> player \<Rightarrow> effectEngine \<Rightarrow> enemy list \<Rightarrow> effectEngine \<times> enemy list" where
  "Advance_spec dt pl eng enemies =
     (let advanced = map (advanceEffect dt pl) (en_effects eng);
          (checked, enemies') = checkHits advanced enemies
      in (eng\<lparr>en_effects := filter effect_alive checked\<rparr>, enemies'))"

text \<open>
  A run of frames of the engine alone, on a roster nothing else moves or writes.
\<close>

fun engineRun ::
  "player \<Rightarrow> effectEngine \<times> enemy list \<Rightarrow> real list \<Rightarrow> effectEngine \<times> enemy list" where
  "engineRun pl s [] = s"
| "engineRun pl s (dt # dts) = engineRun pl (EffectEngine_update dt pl (fst s) (snd s)) dts"

section \<open>The ability sets\<close>

text \<open>
  Of the three ability classes the casts are embedded, with the cooldown fields they
  read and write; each works on the ability set, the player and the effect engine it
  refers to. The constants are those of \<open>FIGHTER_ABILITIES\<close>, \<open>MAGE_ABILITIES\<close> and
  \<open>CELESTIAL_ABILITIES\<close>.
\<close>

subsection \<open>FighterAbilities.js\<close>

definition wind_mpCost :: real where "wind_mpCost = 1"
definition wind_damage :: real where "wind_damage = 8"
definition wind_pushForce :: real where "wind_pushForce = 300"
definition wind_range :: real where "wind_range = 100"
definition wind_arc :: real where "wind_arc = pi / 3"
definition wind_duration :: real where "wind_duration = 0.4"
definition spin_radius :: real where "spin_radius = 70"
definition spin_damage :: real where "spin_damage = 15"
definition spin_knockback :: real where "spin_knockback = 250"
definition spin_cooldown :: real where "spin_cooldown = 4.0"
definition spin_duration :: real where "spin_duration = 0.3"

record fighterAbilities =
  fa_charging :: bool
  fa_chargeTime :: real
  fa_chargeTier :: nat
  fa_spinCooldown :: real

definition FighterAbilities_new :: fighterAbilities where
  "FighterAbilities_new =
     \<lparr>fa_charging = False, fa_chargeTime = 0, fa_chargeTier = 0, fa_spinCooldown = 0\<rparr>"

definition castWind ::
  "fighterAbilities \<times> player \<times> effectEngine \<Rightarrow> fighterAbilities \<times> player \<times> effectEngine" where
  "castWind s =
     (case s of (fa, p, eng) \<Rightarrow>
        if \<not> canSpendMp p wind_mpCost then s
        else let p1 = fst (spendMp p wind_mpCost);
                 angle = atan2 (vec_y (p_attackDir p1)) (vec_x (p_attackDir p1));
                 dmg = wind_damage * damage (p_stats p1)
             in (fa, p1,
                 addEffect (WindPush (WindPushEffect_new (p_x p1) (p_y p1) angle
                     (wind_range * weaponSize (p_stats p1)) wind_arc dmg wind_pushForce
                     wind_duration)) eng))"

definition castSpin ::
  "fighterAbilities \<times> player \<times> effectEngine \<Rightarrow> fighterAbilities \<times> player \<times> effectEngine" where
  "castSpin s =
     (case s of (fa, p, eng) \<Rightarrow>
        if fa_spinCooldown fa > 0 then s
        else let fa1 = fa\<lparr>fa_spinCooldown := spin_cooldown\<rparr>;
                 dmg = spin_damage * damage (p_stats p);
                 radius = spin_radius * weaponSize (p_stats p)
             in (fa1, p,
                 addEffect (Spin (SpinAttackState_new dmg radius 16 spin_duration 4
                     spin_knockback)) eng))"

subsection \<open>MageAbilities.js\<close>

definition fireBurst_damage :: real where "fireBurst_damage = 35"
definition fireBurst_radius :: real where "fireBurst_radius = 60"
definition fireBurst_expandSpeed :: real where "fireBurst_expandSpeed = 350"
definition fireBurst_cooldown :: real where "fireBurst_cooldown = 1.5"
definition fireBurst_range :: real where "fireBurst_range = 150"
definition frostRing_damage :: real where "frostRing_damage = 15"
definition frostRing_radius :: real where "frostRing_radius = 120"
definition frostRing_expandSpeed :: real where "frostRing_expandSpeed = 250"
definition frostRing_slowFactor :: real where "frostRing_slowFactor = 0.5"
definition frostRing_slowDuration :: real where "frostRing_slowDuration = 3.0"
definition frostRing_cooldown :: real where "frostRing_cooldown = 5.0"
definition frostRing_mpCost :: real where "frostRing_mpCost = 1"
definition lightningArc_damage :: real where "lightningArc_damage = 30"
definition lightningArc_chainCount :: int where "lightningArc_chainCount = 3"
definition lightningArc_damageDecay :: real where "lightningArc_damageDecay = 0.7"
definition lightningArc_range :: real where "lightningArc_range = 200"
definition lightningArc_cooldown :: real where "lightningArc_cooldown = 3.0"
definition meteor_damage :: real where "meteor_damage = 80"
definition meteor_radius :: real where "meteor_radius = 80"
definition meteor_delay :: real where "meteor_delay = 1.5"
definition meteor_holdTime :: real where "meteor_holdTime = 1.5"
definition meteor_cooldown :: real where "meteor_cooldown = 8.0"
definition meteor_mpCost :: real where "meteor_mpCost = 2"

record mageAbilities =
  ma_fireBurstCooldown :: real
  ma_frostRingCooldown :: real
  ma_lightningCooldown :: real
  ma_meteorCooldown :: real
  ma_holdTime :: real
  ma_holdingAttack :: bool
  ma_meteorCast :: bool

definition MageAbilities_new :: mageAbilities where
  "MageAbilities_new =
     \<lparr>ma_fireBurstCooldown = 0, ma_frostRingCooldown = 0, ma_lightningCooldown = 0,
      ma_meteorCooldown = 0, ma_holdTime = 0, ma_holdingAttack = False,
      ma_meteorCast = False\<rparr>"

definition castFireBurst ::
  "mageAbilities \<times> player \<times> effectEngine \<Rightarrow> mageAbilities \<times> player \<times> effectEngine" where
  "castFireBurst s =
     (case s of (ma, p, eng) \<Rightarrow>
        if ma_fireBurstCooldown ma > 0 then s
        else let ma1 = ma\<lparr>ma_fireBurstCooldown := fireBurst_cooldown\<rparr>;
                 tx = p_x p + vec_x (p_attackDir p) * fireBurst_range;
                 ty = p_y p + vec_y (p_attackDir p) * fireBurst_range;
                 dmg = fireBurst_damage * damage (p_stats p);
                 radius = fireBurst_radius * weaponSize (p_stats p)
             in (ma1, p,
                 addEffect (Nova (NovaEffect_new tx ty dmg radius fireBurst_expandSpeed)) eng))"

definition castFrostRing ::
  "mageAbilities \<times> player \<times> effectEngine \<Rightarrow> mageAbilities \<times> player \<times> effectEngine" where
  "castFrostRing s =
     (case s of (ma, p, eng) \<Rightarrow>
        if ma_frostRingCooldown ma > 0 then s
        else if \<not> canSpendMp p frostRing_mpCost then s
        else let p1 = fst (spendMp p frostRing_mpCost);
                 ma1 = ma\<lparr>ma_frostRingCooldown := frostRing_cooldown\<rparr>;
                 dmg = frostRing_damage * damage (p_stats p1);
                 radius = frostRing_radius * weaponSize (p_stats p1)
             in (ma1, p1,
                 addEffect (FrostRing (FrostRingEffect_new (p_x p1) (p_y p1) dmg radius
                     frostRing_expandSpeed frostRing_slowFactor frostRing_slowDuration)) eng))"

text \<open>
  The lightning cast reads the roster that \<open>update\<close> stored in \<open>this._enemies\<close>
  (\<open>None\<close> before the first update, read as the empty array); the constructor of the
  effect writes the enemies of that roster, so the cast returns the roster as well.
\<close>

definition castLightningArc ::
  "mageAbilities \<times> player \<times> effectEngine \<Rightarrow> enemy list option
   \<Rightarrow> (mageAbilities \<times> player \<times> effectEngine) \<times> enemy list" where
  "castLightningArc s stored =
     (case s of (ma, p, eng) \<Rightarrow>
        let enemies = (case stored of None \<Rightarrow> [] | Some es \<Rightarrow> es)
        in if ma_lightningCooldown ma > 0 then (s, enemies)
           else let ma1 = ma\<lparr>ma_lightningCooldown := lightningArc_cooldown\<rparr>;
                    dmg = lightningArc_damage * damage (p_stats p);
                    (arc, enemies') =
                      LightningArcEffect_new (p_x p) (p_y p) dmg lightningArc_chainCount
                        lightningArc_damageDecay lightningArc_range enemies
                in ((ma1, p, addEffect (LightningArc arc) eng), enemies'))"

definition castMeteor ::
  "mageAbilities \<times> player \<times> effectEngine \<Rightarrow> mageAbilities \<times> player \<times> effectEngine" where
  "castMeteor s =
     (case s of (ma, p, eng) \<Rightarrow>
        if ma_meteorCooldown ma > 0 then s
        else if \<not> canSpendMp p meteor_mpCost then s
        else let p1 = fst (spendMp p meteor_mpCost);
                 ma1 = ma\<lparr>ma_meteorCast := True, ma_meteorCooldown := meteor_cooldown\<rparr>;
                 tx = p_x p1 + vec_x (p_attackDir p1) * 150;
                 ty = p_y p1 + vec_y (p_attackDir p1) * 150;
                 dmg = meteor_damage * damage (p_stats p1);
                 radius = meteor_radius * weaponSize (p_stats p1)
             in (ma1, p1,
                 addEffect (Meteor (MeteorEffect_new tx ty dmg radius meteor_delay)) eng))"

subsection \<open>CelestialAbilities.js\<close>

definition pulse_damage :: real where "pulse_damage = 25"
definition pulse_radius :: real where "pulse_radius = 100"
definition pulse_expandSpeed :: real where "pulse_expandSpeed = 300"
definition pulse_knockback :: real where "pulse_knockback = 150"
definition pulse_cooldown :: real where "pulse_cooldown = 2.0"
definition minorHeal_healPercent :: real where "minorHeal_healPercent = 0.20"
definition minorHeal_mpCost :: real where "minorHeal_mpCost = 2"
definition minorHeal_cooldown :: real where "minorHeal_cooldown = 6.0"

record celestialAbilities =
  ca_pulseCooldown :: real
  ca_healCooldown :: real
  ca_dashCooldown :: real

definition CelestialAbilities_new :: celestialAbilities where
  \<comment> \<open>without the fairy companion, which no cast reads\<close>
  "CelestialAbilities_new = \<lparr>ca_pulseCooldown = 0, ca_healCooldown = 0, ca_dashCooldown = 0\<rparr>"

definition castPulse ::
  "celestialAbilities \<times> player \<times> effectEngine \<Rightarrow> celestialAbilities \<times> player \<times> effectEngine" where
  "castPulse s =
     (case s of (ca, p, eng) \<Rightarrow>
        if ca_pulseCooldown ca > 0 then s
        else let ca1 = ca\<lparr>ca_pulseCooldown := pulse_cooldown\<rparr>;
                 dmg = pulse_damage * damage (p_stats p);
                 radius = pulse_radius * weaponSize (p_stats p)
             in (ca1, p,
                 addEffect (Pulse (PulseEffect_new (p_x p) (p_y p) dmg radius
                     pulse_expandSpeed pulse_knockback)) eng))"

definition castMinorHeal ::
  "celestialAbilities \<times> player \<times> effectEngine \<Rightarrow> celestialAbilities \<times> player \<times> effectEngine" where
  "castMinorHeal s =
     (case s of (ca, p, eng) \<Rightarrow>
        if ca_healCooldown ca > 0 then s
        else if \<not> canSpendMp p minorHeal_mpCost then s
        else let p1 = fst (spendMp p minorHeal_mpCost);
                 ca1 = ca\<lparr>ca_healCooldown := minorHeal_cooldown\<rparr>;
                 healAmt = maxHp (p_stats p1) * minorHeal_healPercent
             in (ca1, p1\<lparr>p_hp := min (p_hp p1 + healAmt) (maxHp (p_stats p1))\<rparr>, eng))"

section \<open>The chain as the spec describes it\<close>

text \<open>
  The spec's words for the lightning chain, for comparison with \<open>_buildChain\<close>: starting
  from the cast origin, repeatedly select the nearest not-yet-hit live enemy within
  range, apply damage immediately, decay the damage, and continue up to a maximum number
  of hops or until no further enemy is in range. \<open>chainSpec n\<close> relates the state before
  a chain of at most \<open>n\<close> hops to the segments recorded and the roster after it.
\<close>

definition chainCandidate :: "real \<Rightarrow> real \<Rightarrow> real \<Rightarrow> nat set \<Rightarrow> enemy \<Rightarrow> bool" where
  \<comment> \<open>a live enemy, not yet hit, within range of \<open>(cx, cy)\<close>\<close>
  "chainCandidate cx cy rng hitSet e =
     (\<not> e_dead e \<and> e_id e \<notin> hitSet \<and> distance cx cy (e_x e) (e_y e) < rng)"

definition isNearest :: "real \<Rightarrow> real \<Rightarrow> real \<Rightarrow> nat set \<Rightarrow> enemy list \<Rightarrow> nat \<Rightarrow> bool" where
  \<comment> \<open>the enemy at index \<open>k\<close> is a candidate, and no candidate is nearer\<close>
  "isNearest cx cy rng hitSet enemies k =
     (k < length enemies \<and> chainCandidate cx cy rng hitSet (enemies ! k)
      \<and> (\<forall>e\<in>set enemies. chainCandidate cx cy rng hitSet e \<longrightarrow>
            distance cx cy (e_x (enemies ! k)) (e_y (enemies ! k))
              \<le> distance cx cy (e_x e) (e_y e)))"

inductive chainSpec ::
  "nat \<Rightarrow> real \<Rightarrow> real \<Rightarrow> real \<Rightarrow> real \<Rightarrow> real \<Rightarrow> nat set \<Rightarrow> enemy list
   \<Rightarrow> chainSegment list \<Rightarrow> enemy list \<Rightarrow> bool" where
  stop_at_max:
    "chainSpec 0 cx cy dmg decay rng hitSet enemies [] enemies"
| stop_no_target:
    "\<forall>e\<in>set enemies. \<not> chainCandidate cx cy rng hitSet e \<Longrightarrow>
     chainSpec (Suc n) cx cy dmg decay rng hitSet enemies [] enemies"
| hop:
    "isNearest cx cy rng hitSet enemies k \<Longrightarrow>
     chainSpec n (e_x (enemies ! k)) (e_y (enemies ! k)) (dmg * decay) decay rng
       (insert (e_id (enemies ! k)) hitSet)
       (enemies[k := Enemy_takeDamage (enemies ! k) dmg]) segs enemies' \<Longrightarrow>
     chainSpec (Suc n) cx cy dmg decay rng hitSet enemies
       (\<lparr>ch_x1 = cx, ch_y1 = cy, ch_x2 = e_x (enemies ! k), ch_y2 = e_y (enemies ! k),
         ch_damage = dmg\<rparr> # segs) enemies'"

section \<open>The expanding rings, seen alike\<close>

text \<open>
  Nova, frost ring and pulse are three classes with the same geometry. \<open>ringView\<close> reads
  origin, maximum radius, expansion speed, current radius, hit set and alive flag off an
  effect of one of the three; \<open>ringHit\<close> is the condition under which their hit-tests
  damage an enemy: alive, not in the hit set, and in the annulus
  \<open>radius - 25 < distance < radius + enemy radius\<close>.
\<close>

fun ringView :: "effect \<Rightarrow> (real \<times> real \<times> real \<times> real \<times> real \<times> nat set \<times> bool) option" where
  "ringView (Nova n) =
     Some (nv_x n, nv_y n, nv_maxRadius n, nv_expandSpeed n, nv_radius n, nv_hitEnemies n,
           nv_alive n)"
| "ringView (FrostRing n) =
     Some (fr_x n, fr_y n, fr_maxRadius n, fr_expandSpeed n, fr_radius n, fr_hitEnemies n,
           fr_alive n)"
| "ringView (Pulse n) =
     Some (pu_x n, pu_y n, pu_maxRadius n, pu_expandSpeed n, pu_radius n, pu_hitEnemies n,
           pu_alive n)"
| "ringView _ = None"

definition ringHit :: "real \<Rightarrow> real \<Rightarrow> real \<Rightarrow> nat set \<Rightarrow> enemy \<Rightarrow> bool" where
  "ringHit x y r hitSet e =
     (\<not> e_dead e \<and> e_id e \<notin> hitSet
      \<and> distance x y (e_x e) (e_y e) < r + e_radius e
      \<and> distance x y (e_x e) (e_y e) > r - 25)"

definition damagedOnce :: "enemy \<Rightarrow> enemy \<Rightarrow> bool" where
  \<comment> \<open>\<open>e'\<close> is \<open>e\<close> after one more invocation of \<open>takeDamage\<close>, where it stood\<close>
  "damagedOnce e e' =
     (e_dmgCalls e' = Suc (e_dmgCalls e) \<and> e_id e' = e_id e \<and> e_x e' = e_x e
      \<and> e_y e' = e_y e \<and> e_radius e' = e_radius e)"

text \<open>What each of the three hit-tests does to an enemy it hits.\<close>

definition novaHit :: "novaEffect \<Rightarrow> enemy \<Rightarrow> enemy" where
  "novaHit n e = Enemy_takeDamage e (nv_damage n)"

definition frostHit :: "frostRingEffect \<Rightarrow> enemy \<Rightarrow> enemy" where
  "frostHit n e = applySlow (Enemy_takeDamage e (fr_damage n)) (fr_slowFactor n) (fr_slowDuration n)"

definition pulseHit :: "pulseEffect \<Rightarrow> enemy \<Rightarrow> enemy" where
  "pulseHit n e =
     (let e1 = Enemy_takeDamage e (pu_damage n)
      in if pu_knockback n \<noteq> 0
         then let dx = e_x e1 - pu_x n; dy = e_y e1 - pu_y n;
                  d = unitOr1 (sqrt (dx * dx + dy * dy))
              in applyKnockback e1 (dx / d) (dy / d) (pu_knockback n)
         else e1)"

section \<open>Concrete inputs\<close>

text \<open>Objects built by the constructors, used where a statement is run on an input.\<close>

definition shambler0 :: enemy where
  "shambler0 = Enemy_new 0 ENEMY_TYPES_shambler 500 500 1 0 0 0 0"

definition fighterAt :: "real \<Rightarrow> real \<Rightarrow> player" where
  "fighterAt x y = (Player_new CHARACTERS_fighter)\<lparr>p_x := x, p_y := y\<rparr>"

definition shamblerAttacking :: enemy where
  \<comment> \<open>the shambler in the attack state, with 0.01 s of its 0.1 s left\<close>
  "shamblerAttacking = shambler0\<lparr>e_meleeState := Attack, e_meleeTimer := 0.01\<rparr>"

definition windupFrames :: "(real \<times> player) list" where
  \<comment> \<open>frames of 0.03 s with the player standing 60 units right of the shambler:
      the fourteen it takes the windup of 0.4 s to run out\<close>
  "windupFrames = replicate 14 (0.03, fighterAt 560 500)"

definition attackFrames :: "(real \<times> player) list" where
  \<comment> \<open>the four it takes the attack of 0.1 s\<close>
  "attackFrames = replicate 4 (0.03, fighterAt 560 500)"

definition recoveryFrames :: "(real \<times> player) list" where
  \<comment> \<open>the seventeen it takes the recovery of 0.5 s\<close>
  "recoveryFrames = replicate 17 (0.03, fighterAt 560 500)"

definition cycleFrames :: "(real \<times> player) list" where
  \<comment> \<open>one cycle: the frame that starts the windup, and the three phases\<close>
  "cycleFrames =
     (0.03, fighterAt 560 500) # windupFrames @ attackFrames @ recoveryFrames"

definition east :: vec2 where
  "east = \<lparr>vec_x = 1, vec_y = 0\<rparr>"

definition zeroVec :: vec2 where
  "zeroVec = \<lparr>vec_x = 0, vec_y = 0\<rparr>"

definition hitFighter :: player where
  \<comment> \<open>a fighter 0.1 s after an enemy hit: 0.2 s of the 0.3 s i-frames are left\<close>
  "hitFighter = (Player_new CHARACTERS_fighter)\<lparr>p_invulnTimer := 0.2\<rparr>"

definition pitFalling :: "player \<Rightarrow> stateMachine" where
  \<comment> \<open>a pit-fall entered from the ground, with 0.01 s of the fade left\<close>
  "pitFalling p = (enterFalling True (PlayerStateMachine_new p))\<lparr>sm_gapFallTimer := 0.01\<rparr>"

definition highFall :: "player \<Rightarrow> stateMachine" where
  \<comment> \<open>a fall that started at height 180, one unit above the ground at terminal velocity\<close>
  "highFall p = (PlayerStateMachine_new p)
     \<lparr>sm_state := Falling, sm_z := 1, sm_vz := - 600, sm_fallStartZ := 180\<rparr>"

definition lastMeteor :: meteorEffect where
  \<comment> \<open>a meteor in its impact phase with 0.01 s to live and nobody hit yet\<close>
  "lastMeteor = (MeteorEffect_new 500 500 80 80 1.5)\<lparr>mt_phase := Impact, mt_timer := 0.01\<rparr>"

definition fireBurstAt :: "real \<Rightarrow> real \<Rightarrow> novaEffect" where
  \<comment> \<open>the nova of the mage's fire burst, at damage and weapon size 1\<close>
  "fireBurstAt x y = NovaEffect_new x y fireBurst_damage fireBurst_radius fireBurst_expandSpeed"

definition shamblerAt :: "nat \<Rightarrow> real \<Rightarrow> real \<Rightarrow> enemy" where
  "shamblerAt ident x y = Enemy_new ident ENEMY_TYPES_shambler x y 1 0 0 0 0"

definition fourInARow :: "enemy list" where
  \<comment> \<open>four shamblers 50 apart, the first 50 right of \<open>(500, 500)\<close>\<close>
  "fourInARow = [shamblerAt 0 550 500, shamblerAt 1 600 500, shamblerAt 2 650 500,
     shamblerAt 3 700 500]"

definition nineFrames :: "real list" where
  \<comment> \<open>nine frames of 16 ms: 0.144 s, in which a fire burst grows from 10 past its 60\<close>
  "nineFrames = [0.016, 0.016, 0.016, 0.016, 0.016, 0.016, 0.016, 0.016, 0.016]"

definition northPath :: world where
  \<comment> \<open>the tutorial gap on the north path of world.js and the vine above it\<close>
  "northPath =
     [\<lparr>o_type = Gap, o_x = 1470, o_y = 900, o_w = 40, o_h = 50, o_grabHeight = 0\<rparr>,
      \<lparr>o_type = Vine, o_x = 1465, o_y = 895, o_w = 50, o_h = 60, o_grabHeight = 30\<rparr>]"

definition testBolt :: projectile where
  \<comment> \<open>the projectile of the repository's tests, 10 units left of \<open>shambler0\<close>\<close>
  "testBolt = Projectile_new 490 500 100 0 10 5 2.0"

definition mage0 :: player where
  "mage0 = Player_new CHARACTERS_mage"

definition pitRun :: "smEvent list" where
  \<comment> \<open>a walk to \<open>(1400, 925)\<close>, a step onto the gap of \<open>northPath\<close>, and twelve frames
      of 0.04 s of the fade that the player's update then starts\<close>
  "pitRun =
     [PlayerSet (fighterAt 1400 925), Frame 0.04 east False (Some northPath) 0,
      PlayerSet (fighterAt 1490 925), FallEntered True,
      Frame 0.04 east False (Some northPath) 0, Frame 0.04 east False (Some northPath) 0,
      Frame 0.04 east False (Some northPath) 0, Frame 0.04 east False (Some northPath) 0,
      Frame 0.04 east False (Some northPath) 0, Frame 0.04 east False (Some northPath) 0,
      Frame 0.04 east False (Some northPath) 0, Frame 0.04 east False (Some northPath) 0,
      Frame 0.04 east False (Some northPath) 0, Frame 0.04 east False (Some northPath) 0,
      Frame 0.04 east False (Some northPath) 0, Frame 0.04 east False (Some northPath) 0]"

section \<open>Player.takeDamage\<close>

lemma Player_takeDamage_invuln:
  "0 < p_invulnTimer p \<Longrightarrow>
   Player_takeDamage p amount = p\<lparr>p_dmgCalls := Suc (p_dmgCalls p)\<rparr>"
  by (simp add: Player_takeDamage_def)

lemma Player_takeDamage_vulnerable:
  "\<not> 0 < p_invulnTimer p \<Longrightarrow>
   Player_takeDamage p amount =
     p\<lparr>p_hp := max 0 (p_hp p - amount * (1 - defense (p_stats p))),
       p_invulnTimer := 0.3, p_dmgCalls := Suc (p_dmgCalls p)\<rparr>"
  by (simp add: Player_takeDamage_def Let_def max_def)

lemma Player_takeDamage_hp_nonneg:
  "0 \<le> p_hp p \<Longrightarrow> 0 \<le> p_hp (Player_takeDamage p amount)"
  by (simp add: Player_takeDamage_def Let_def)

text \<open>
  Claim C10. For every call \<open>takeDamage(amount)\<close> on a player: while the invulnerability
  timer is positive the call changes nothing of the player (only the invocation is
  counted); otherwise hp goes down by \<open>amount * (1 - defense)\<close>, is clamped below at 0,
  and the invulnerability timer is set to a fresh window of 0.3. Hence hp that is not
  negative stays so, and no damage is taken during i-frames.
\<close>

theorem C10_takeDamage:
  "(0 < p_invulnTimer p \<longrightarrow>
      Player_takeDamage p amount = p\<lparr>p_dmgCalls := Suc (p_dmgCalls p)\<rparr>
      \<and> p_hp (Player_takeDamage p amount) = p_hp p)
   \<and> (\<not> 0 < p_invulnTimer p \<longrightarrow>
      Player_takeDamage p amount =
        p\<lparr>p_hp := max 0 (p_hp p - amount * (1 - defense (p_stats p))),
          p_invulnTimer := 0.3, p_dmgCalls := Suc (p_dmgCalls p)\<rparr>
      \<and> 0 \<le> p_hp (Player_takeDamage p amount))
   \<and> (0 \<le> p_hp p \<longrightarrow> 0 \<le> p_hp (Player_takeDamage p amount))"
  using Player_takeDamage_invuln [of p amount] Player_takeDamage_vulnerable [of p amount]
    Player_takeDamage_hp_nonneg [of p amount]
  by simp

theorem C10_takeDamage_witness:
  "p_hp (Player_takeDamage (Player_new CHARACTERS_fighter) 50) = 70
   \<and> p_invulnTimer (Player_takeDamage (Player_new CHARACTERS_fighter) 50) = 0.3
   \<and> p_hp (Player_takeDamage (Player_new CHARACTERS_fighter) 500) = 0
   \<and> p_hp (Player_takeDamage
        ((Player_new CHARACTERS_fighter)\<lparr>p_invulnTimer := 0.2\<rparr>) 50) = 120"
  using C10_takeDamage [of "Player_new CHARACTERS_fighter" 50]
    C10_takeDamage [of "Player_new CHARACTERS_fighter" 500]
    C10_takeDamage [of "(Player_new CHARACTERS_fighter)\<lparr>p_invulnTimer := 0.2\<rparr>" 50]
  by (simp add: Player_new_def CHARACTERS_fighter_def)

section \<open>Knockback\<close>

lemma chaseStep_keeps:
  "e_knockbackVx (chaseStep k v e p) = e_knockbackVx e"
  "e_knockbackVy (chaseStep k v e p) = e_knockbackVy e"
  "e_dead (chaseStep k v e p) = e_dead e"
  by (simp_all add: chaseStep_def Let_def)

lemma updateMelee_keeps:
  "e_knockbackVx (fst (updateMelee dt e p)) = e_knockbackVx e"
  "e_knockbackVy (fst (updateMelee dt e p)) = e_knockbackVy e"
  "e_dead (fst (updateMelee dt e p)) = e_dead e"
  by (simp_all add: updateMelee_def Let_def chaseStep_keeps split: meleeState.splits)

lemma updateRanged_keeps:
  "e_knockbackVx (updateRanged dt e p rnd) = e_knockbackVx e"
  "e_knockbackVy (updateRanged dt e p rnd) = e_knockbackVy e"
  "e_dead (updateRanged dt e p rnd) = e_dead e"
  by (simp_all add: updateRanged_def Let_def chaseStep_keeps)

lemma dispatch_keeps:
  "e_knockbackVx (fst (dispatch dt e p rnd)) = e_knockbackVx e"
  "e_knockbackVy (fst (dispatch dt e p rnd)) = e_knockbackVy e"
  "e_dead (fst (dispatch dt e p rnd)) = e_dead e"
  by (simp_all add: dispatch_def updateMelee_keeps updateRanged_keeps updateSwarm_def
      chaseStep_keeps split: behavior.splits)

lemma knockbackDecay_vx:
  "e_knockbackVx (knockbackDecay dt e) =
     (if \<bar>e_knockbackVx e * 0.05 powr dt\<bar> < 1 then 0 else e_knockbackVx e * 0.05 powr dt)"
  by (simp add: knockbackDecay_def Let_def)

lemma knockbackDecay_vy:
  "e_knockbackVy (knockbackDecay dt e) =
     (if \<bar>e_knockbackVy e * 0.05 powr dt\<bar> < 1 then 0 else e_knockbackVy e * 0.05 powr dt)"
  by (simp add: knockbackDecay_def Let_def)

lemma slowTick_keeps:
  "e_knockbackVx (slowTick dt e) = e_knockbackVx e"
  "e_knockbackVy (slowTick dt e) = e_knockbackVy e"
  "e_dead (slowTick dt e) = e_dead e"
  by (simp_all add: slowTick_def Let_def)

lemma knockbackDecay_dead: "e_dead (knockbackDecay dt e) = e_dead e"
  by (simp add: knockbackDecay_def Let_def)

lemma Enemy_update_dead: "e_dead (fst (Enemy_update dt e p rnd)) = e_dead e"
  by (simp add: Enemy_update_def Let_def split_beta dispatch_keeps knockbackDecay_dead
      slowTick_keeps)

lemma Enemy_update_vx:
  "\<not> e_dead e \<Longrightarrow> e_knockbackVx (fst (Enemy_update dt e p rnd)) =
     (if \<bar>e_knockbackVx e * 0.05 powr dt\<bar> < 1 then 0 else e_knockbackVx e * 0.05 powr dt)"
  by (simp add: Enemy_update_def Let_def split_beta dispatch_keeps knockbackDecay_vx
      slowTick_keeps)

lemma Enemy_update_vy:
  "\<not> e_dead e \<Longrightarrow> e_knockbackVy (fst (Enemy_update dt e p rnd)) =
     (if \<bar>e_knockbackVy e * 0.05 powr dt\<bar> < 1 then 0 else e_knockbackVy e * 0.05 powr dt)"
  by (simp add: Enemy_update_def Let_def split_beta dispatch_keeps knockbackDecay_vy
      slowTick_keeps)

lemma decay_le_one: "0 \<le> t \<Longrightarrow> (0.05::real) powr t \<le> 1"
  using powr_mono' [of 0 t "0.05"] by simp

lemma Enemy_updates_vx:
  "\<not> e_dead e \<Longrightarrow> \<forall>f\<in>set fs. 0 \<le> fst f \<Longrightarrow>
   1 \<le> \<bar>e_knockbackVx e\<bar> * 0.05 powr (sum_list (map fst fs)) \<Longrightarrow>
   e_knockbackVx (Enemy_updates e fs) = e_knockbackVx e * 0.05 powr (sum_list (map fst fs))"
proof (induction fs arbitrary: e)
  case Nil
  then show ?case by simp
next
  case (Cons f fs)
  obtain dt p rnd where f: "f = (dt, p, rnd)" by (cases f) auto
  let ?T = "sum_list (map fst fs)"
  let ?e' = "fst (Enemy_update dt e p rnd)"
  have dt: "0 \<le> dt"
    using Cons.prems(2) f by simp
  have T: "0 \<le> ?T"
    using Cons.prems(2) by (intro sum_list_nonneg) auto
  have big: "1 \<le> \<bar>e_knockbackVx e\<bar> * 0.05 powr dt * 0.05 powr ?T"
    using Cons.prems(3) f by (simp add: powr_add mult.assoc)
  have "\<bar>e_knockbackVx e\<bar> * 0.05 powr dt * 0.05 powr ?T \<le> \<bar>e_knockbackVx e\<bar> * 0.05 powr dt"
    using decay_le_one [OF T] by (simp add: mult_left_le)
  with big have nosnap: "1 \<le> \<bar>e_knockbackVx e * 0.05 powr dt\<bar>"
    by (simp add: abs_mult)
  have step: "e_knockbackVx ?e' = e_knockbackVx e * 0.05 powr dt"
    using Enemy_update_vx [OF Cons.prems(1), of dt p rnd] nosnap by simp
  have "e_knockbackVx (Enemy_updates ?e' fs) = e_knockbackVx ?e' * 0.05 powr ?T"
  proof (rule Cons.IH)
    show "\<not> e_dead ?e'" using Cons.prems(1) by (simp add: Enemy_update_dead)
    show "\<forall>f\<in>set fs. 0 \<le> fst f" using Cons.prems(2) by simp
    show "1 \<le> \<bar>e_knockbackVx ?e'\<bar> * 0.05 powr ?T"
      using big by (simp add: step abs_mult)
  qed
  then show ?case by (simp add: f step powr_add mult.assoc)
qed

lemma Enemy_updates_vy:
  "\<not> e_dead e \<Longrightarrow> \<forall>f\<in>set fs. 0 \<le> fst f \<Longrightarrow>
   1 \<le> \<bar>e_knockbackVy e\<bar> * 0.05 powr (sum_list (map fst fs)) \<Longrightarrow>
   e_knockbackVy (Enemy_updates e fs) = e_knockbackVy e * 0.05 powr (sum_list (map fst fs))"
proof (induction fs arbitrary: e)
  case Nil
  then show ?case by simp
next
  case (Cons f fs)
  obtain dt p rnd where f: "f = (dt, p, rnd)" by (cases f) auto
  let ?T = "sum_list (map fst fs)"
  let ?e' = "fst (Enemy_update dt e p rnd)"
  have dt: "0 \<le> dt"
    using Cons.prems(2) f by simp
  have T: "0 \<le> ?T"
    using Cons.prems(2) by (intro sum_list_nonneg) auto
  have big: "1 \<le> \<bar>e_knockbackVy e\<bar> * 0.05 powr dt * 0.05 powr ?T"
    using Cons.prems(3) f by (simp add: powr_add mult.assoc)
  have "\<bar>e_knockbackVy e\<bar> * 0.05 powr dt * 0.05 powr ?T \<le> \<bar>e_knockbackVy e\<bar> * 0.05 powr dt"
    using decay_le_one [OF T] by (simp add: mult_left_le)
  with big have nosnap: "1 \<le> \<bar>e_knockbackVy e * 0.05 powr dt\<bar>"
    by (simp add: abs_mult)
  have step: "e_knockbackVy ?e' = e_knockbackVy e * 0.05 powr dt"
    using Enemy_update_vy [OF Cons.prems(1), of dt p rnd] nosnap by simp
  have "e_knockbackVy (Enemy_updates ?e' fs) = e_knockbackVy ?e' * 0.05 powr ?T"
  proof (rule Cons.IH)
    show "\<not> e_dead ?e'" using Cons.prems(1) by (simp add: Enemy_update_dead)
    show "\<forall>f\<in>set fs. 0 \<le> fst f" using Cons.prems(2) by simp
    show "1 \<le> \<bar>e_knockbackVy ?e'\<bar> * 0.05 powr ?T"
      using big by (simp add: step abs_mult)
  qed
  then show ?case by (simp add: f step powr_add mult.assoc)
qed

text \<open>
  Claim C9. \<open>applyKnockback\<close> adds the impulse to the knockback velocity the enemy
  already has. One update of a live enemy multiplies each component by \<open>0.05 powr dt\<close>
  and sets it to exactly 0 when the magnitude of the product is below 1. Over a run of
  frames with steps \<open>dt \<ge> 0\<close> of total time \<open>T\<close>, a component whose magnitude is
  still at least 1 after the decay \<open>0.05 powr T\<close> ends as its start value times
  \<open>0.05 powr T\<close>, whatever the sizes of the steps.
\<close>

theorem C9_knockback:
  "applyKnockback e dx dy force =
     e\<lparr>e_knockbackVx := e_knockbackVx e + dx * force,
       e_knockbackVy := e_knockbackVy e + dy * force\<rparr>
   \<and> (\<not> e_dead e \<longrightarrow>
        e_knockbackVx (fst (Enemy_update dt e p rnd)) =
          (if \<bar>e_knockbackVx e * 0.05 powr dt\<bar> < 1 then 0
           else e_knockbackVx e * 0.05 powr dt)
      \<and> e_knockbackVy (fst (Enemy_update dt e p rnd)) =
          (if \<bar>e_knockbackVy e * 0.05 powr dt\<bar> < 1 then 0
           else e_knockbackVy e * 0.05 powr dt))
   \<and> (\<not> e_dead e \<and> (\<forall>f\<in>set fs. 0 \<le> fst f) \<longrightarrow>
        (1 \<le> \<bar>e_knockbackVx e\<bar> * 0.05 powr (sum_list (map fst fs)) \<longrightarrow>
           e_knockbackVx (Enemy_updates e fs) =
             e_knockbackVx e * 0.05 powr (sum_list (map fst fs)))
      \<and> (1 \<le> \<bar>e_knockbackVy e\<bar> * 0.05 powr (sum_list (map fst fs)) \<longrightarrow>
           e_knockbackVy (Enemy_updates e fs) =
             e_knockbackVy e * 0.05 powr (sum_list (map fst fs))))"
  using Enemy_update_vx [of e dt p rnd] Enemy_update_vy [of e dt p rnd]
    Enemy_updates_vx [of e fs] Enemy_updates_vy [of e fs]
  by (simp add: applyKnockback_def)

theorem C9_knockback_witness:
  "e_knockbackVx (applyKnockback (applyKnockback shambler0 1 0 100) 1 0 200) = 300
   \<and> e_knockbackVx (Enemy_updates (applyKnockback shambler0 1 0 300)
        [(0.5, Player_new CHARACTERS_fighter, 0), (0.5, Player_new CHARACTERS_fighter, 0)])
      = 15
   \<and> e_knockbackVx (Enemy_updates (applyKnockback shambler0 1 0 300)
        [(0.25, Player_new CHARACTERS_fighter, 0), (0.75, Player_new CHARACTERS_fighter, 0)])
      = 15
   \<and> e_knockbackVx (fst (Enemy_update 1 (applyKnockback shambler0 1 0 10)
        (Player_new CHARACTERS_fighter) 0)) = 0"
  using C9_knockback [of "applyKnockback shambler0 1 0 100" 1 0 200]
    C9_knockback [of "applyKnockback shambler0 1 0 300" 0 0 0 0 "Player_new CHARACTERS_fighter" 0
      "[(0.5, Player_new CHARACTERS_fighter, 0), (0.5, Player_new CHARACTERS_fighter, 0)]"]
    C9_knockback [of "applyKnockback shambler0 1 0 300" 0 0 0 0 "Player_new CHARACTERS_fighter" 0
      "[(0.25, Player_new CHARACTERS_fighter, 0), (0.75, Player_new CHARACTERS_fighter, 0)]"]
    C9_knockback [of "applyKnockback shambler0 1 0 10" 0 0 0 1 "Player_new CHARACTERS_fighter" 0]
  by (simp add: applyKnockback_def shambler0_def Enemy_new_def)

section \<open>Melee behaviour\<close>

lemma chaseStep_meleeState: "e_meleeState (chaseStep k v e p) = e_meleeState e"
  by (simp add: chaseStep_def Let_def)

lemma updateMelee_phase:
  "e_meleeState (fst (updateMelee dt e p)) = e_meleeState e
   \<or> e_meleeState (fst (updateMelee dt e p)) = nextPhase (e_meleeState e)"
  by (cases "e_meleeState e")
     (simp_all add: updateMelee_def Let_def nextPhase_def chaseStep_meleeState)

lemma updateMelee_no_call:
  "e_meleeState e \<noteq> Attack \<Longrightarrow> snd (updateMelee dt e p) = p"
  by (cases "e_meleeState e") (simp_all add: updateMelee_def Let_def)

lemma updateMelee_attack:
  "e_meleeState e = Attack \<Longrightarrow>
   snd (updateMelee dt e p) =
     (if meleeHits dt e p then Player_takeDamage p (e_damage e) else p)"
  by (simp add: updateMelee_def Let_def meleeHits_def)

lemma updateMelee_hit_recovery:
  "meleeHits dt e p \<Longrightarrow> e_meleeState (fst (updateMelee dt e p)) = Recovery"
  by (simp add: updateMelee_def Let_def meleeHits_def)

lemma Player_takeDamage_calls:
  "p_dmgCalls (Player_takeDamage p a) = Suc (p_dmgCalls p)"
  by (simp add: Player_takeDamage_def Let_def)

lemma updateMelee_calls:
  "p_dmgCalls (snd (updateMelee dt e p)) - p_dmgCalls p = (if meleeHits dt e p then 1 else 0)"
proof (cases "e_meleeState e = Attack")
  case True
  then show ?thesis by (simp add: updateMelee_attack Player_takeDamage_calls)
next
  case False
  then show ?thesis by (simp add: updateMelee_no_call meleeHits_def)
qed

lemma meleeRun_calls: "snd (meleeRun e fs) = attackHits e fs"
proof (induction fs arbitrary: e)
  case Nil
  then show ?case by simp
next
  case (Cons f fs)
  obtain dt p where f: "f = (dt, p)" by (cases f)
  show ?case
    using Cons.IH [of "fst (updateMelee dt e p)"] updateMelee_calls [of dt e p]
    by (simp add: f split_beta)
qed

lemma distance_axis: "distance ax ay bx ay = \<bar>ax - bx\<bar>"
  by (simp add: distance_def)

lemma updateMelee_chase:
  assumes "e_meleeState e = Chase"
  shows "updateMelee dt e p =
     (if inReach e p
      then if max 0 (e_attackCooldownTimer e - dt) \<le> 0
           then e\<lparr>e_attackCooldownTimer := max 0 (e_attackCooldownTimer e - dt),
                  e_meleeState := Windup, e_meleeTimer := e_windupTime e\<rparr>
           else e\<lparr>e_attackCooldownTimer := max 0 (e_attackCooldownTimer e - dt)\<rparr>
      else chaseStep 0.3 (e_speed e * e_slowFactor e * dt)
             (e\<lparr>e_attackCooldownTimer := max 0 (e_attackCooldownTimer e - dt)\<rparr>) p,
      p)"
  using assms by (simp add: updateMelee_def Let_def inReach_def)

lemma updateMelee_windup:
  assumes "e_meleeState e = Windup"
  shows "updateMelee dt e p =
     (if e_meleeTimer e - dt \<le> 0
      then e\<lparr>e_attackCooldownTimer := max 0 (e_attackCooldownTimer e - dt),
             e_meleeState := Attack, e_meleeTimer := 0.1\<rparr>
      else e\<lparr>e_attackCooldownTimer := max 0 (e_attackCooldownTimer e - dt),
             e_meleeTimer := e_meleeTimer e - dt\<rparr>,
      p)"
  using assms by (simp add: updateMelee_def Let_def)

lemma updateMelee_attack_step:
  assumes "e_meleeState e = Attack"
  shows "updateMelee dt e p =
     (if e_meleeTimer e - dt \<le> 0
      then (e\<lparr>e_meleeState := Recovery, e_meleeTimer := e_recoveryTime e,
              e_attackCooldownTimer := e_attackCooldown e\<rparr>,
            if distance (e_x e) (e_y e) (p_x p) (p_y p)
                 < e_attackRange e + p_radius p + e_radius e + 10
            then Player_takeDamage p (e_damage e) else p)
      else (e\<lparr>e_attackCooldownTimer := max 0 (e_attackCooldownTimer e - dt),
              e_meleeTimer := e_meleeTimer e - dt\<rparr>, p))"
  using assms by (simp add: updateMelee_def Let_def)

lemma updateMelee_recovery:
  assumes "e_meleeState e = Recovery"
  shows "updateMelee dt e p =
     (if e_meleeTimer e - dt \<le> 0
      then e\<lparr>e_attackCooldownTimer := max 0 (e_attackCooldownTimer e - dt),
             e_meleeState := Chase, e_meleeTimer := e_meleeTimer e - dt\<rparr>
      else e\<lparr>e_attackCooldownTimer := max 0 (e_attackCooldownTimer e - dt),
             e_meleeTimer := e_meleeTimer e - dt\<rparr>,
      p)"
  using assms by (simp add: updateMelee_def Let_def)

lemma meleeRun_append:
  "meleeRun e (fs @ gs) =
     (fst (meleeRun (fst (meleeRun e fs)) gs),
      snd (meleeRun e fs) + snd (meleeRun (fst (meleeRun e fs)) gs))"
proof (induction fs arbitrary: e)
  case Nil
  then show ?case by simp
next
  case (Cons f fs)
  obtain dt p where f: "f = (dt, p)" by (cases f)
  show ?case by (simp add: f split_beta Cons.IH)
qed

lemma meleeRun_single:
  "meleeRun e [(dt, p)] =
     (fst (updateMelee dt e p), p_dmgCalls (snd (updateMelee dt e p)) - p_dmgCalls p)"
  by (simp add: split_beta)

lemma elapsed_nonneg:
  assumes "list_all (\<lambda>f. 0 \<le> fst f) fs"
  shows "0 \<le> elapsed fs"
  unfolding elapsed_def using assms
  by (intro sum_list_nonneg) (auto simp: list_all_iff)

lemma timed_wait:
  assumes "e_meleeState e \<noteq> Chase" "list_all (\<lambda>f. 0 \<le> fst f) fs"
    and "elapsed fs < e_meleeTimer e"
  shows "\<exists>c. meleeRun e fs =
     (e\<lparr>e_meleeTimer := e_meleeTimer e - elapsed fs, e_attackCooldownTimer := c\<rparr>, 0)"
  using assms
proof (induction fs arbitrary: e)
  case Nil
  have "meleeRun e [] =
     (e\<lparr>e_meleeTimer := e_meleeTimer e - elapsed [],
        e_attackCooldownTimer := e_attackCooldownTimer e\<rparr>, 0)"
    by (simp add: elapsed_def)
  then show ?case by blast
next
  case (Cons f fs)
  obtain dt p where f: "f = (dt, p)" by (cases f)
  have dt: "0 \<le> dt" and rest: "list_all (\<lambda>f. 0 \<le> fst f) fs"
    using Cons.prems(2) f by simp_all
  have tot: "elapsed (f # fs) = dt + elapsed fs" by (simp add: elapsed_def f)
  have pos: "\<not> e_meleeTimer e - dt \<le> 0"
    using Cons.prems(3) elapsed_nonneg [OF rest] tot by simp
  define e1 where "e1 = e\<lparr>e_attackCooldownTimer := max 0 (e_attackCooldownTimer e - dt),
      e_meleeTimer := e_meleeTimer e - dt\<rparr>"
  have step: "updateMelee dt e p = (e1, p)"
    using Cons.prems(1) pos
    by (cases "e_meleeState e") (simp_all add: updateMelee_def Let_def e1_def)
  have e1: "e_meleeState e1 \<noteq> Chase" "elapsed fs < e_meleeTimer e1"
    using Cons.prems(1,3) tot by (simp_all add: e1_def)
  from Cons.IH [OF e1(1) rest e1(2)] obtain c where
    "meleeRun e1 fs =
       (e1\<lparr>e_meleeTimer := e_meleeTimer e1 - elapsed fs, e_attackCooldownTimer := c\<rparr>, 0)"
    by blast
  then have "meleeRun e (f # fs) =
     (e\<lparr>e_meleeTimer := e_meleeTimer e - elapsed (f # fs), e_attackCooldownTimer := c\<rparr>, 0)"
    by (simp add: f step e1_def diff_diff_eq elapsed_def)
  then show ?case by blast
qed

lemma runsOut_last:
  assumes "runsOut t fs"
  obtains dt p where "fs = butlast fs @ [(dt, p)]" "list_all (\<lambda>f. 0 \<le> fst f) (butlast fs)"
    "elapsed (butlast fs) < t" "t - elapsed (butlast fs) - dt \<le> 0"
proof -
  from assms have ne: "fs \<noteq> []" and all: "list_all (\<lambda>f. 0 \<le> fst f) fs"
    and b: "elapsed (butlast fs) < t" and a: "t \<le> elapsed fs"
    by (simp_all add: runsOut_def)
  obtain dt p where l: "last fs = (dt, p)" by (cases "last fs")
  have fs: "fs = butlast fs @ [(dt, p)]" using ne l by (metis append_butlast_last_id)
  have "elapsed fs = elapsed (butlast fs @ [(dt, p)])" using fs by simp
  then have e: "elapsed fs = elapsed (butlast fs) + dt" by (simp add: elapsed_def)
  have bl: "list_all (\<lambda>f. 0 \<le> fst f) (butlast fs)"
    using all by (auto simp: list_all_iff dest: in_set_butlastD)
  show ?thesis using that [OF fs bl b] a e by simp
qed

lemma timed_phase:
  assumes "e_meleeState e \<noteq> Chase" "runsOut (e_meleeTimer e) fs"
  obtains c dt p where "fs = butlast fs @ [(dt, p)]"
    "meleeRun e (butlast fs) =
       (e\<lparr>e_meleeTimer := e_meleeTimer e - elapsed (butlast fs),
          e_attackCooldownTimer := c\<rparr>, 0)"
    "e_meleeTimer e - elapsed (butlast fs) - dt \<le> 0"
    "meleeRun e fs =
       (fst (updateMelee dt (e\<lparr>e_meleeTimer := e_meleeTimer e - elapsed (butlast fs),
               e_attackCooldownTimer := c\<rparr>) p),
        p_dmgCalls (snd (updateMelee dt (e\<lparr>e_meleeTimer := e_meleeTimer e
               - elapsed (butlast fs), e_attackCooldownTimer := c\<rparr>) p)) - p_dmgCalls p)"
proof -
  from runsOut_last [OF assms(2)] obtain dt p where fs: "fs = butlast fs @ [(dt, p)]"
    and bl: "list_all (\<lambda>f. 0 \<le> fst f) (butlast fs)"
    and b: "elapsed (butlast fs) < e_meleeTimer e"
    and a: "e_meleeTimer e - elapsed (butlast fs) - dt \<le> 0"
    by blast
  from timed_wait [OF assms(1) bl b] obtain c where
    w: "meleeRun e (butlast fs) =
       (e\<lparr>e_meleeTimer := e_meleeTimer e - elapsed (butlast fs),
          e_attackCooldownTimer := c\<rparr>, 0)"
    by blast
  have "meleeRun e fs = meleeRun e (butlast fs @ [(dt, p)])" using fs by simp
  then have r: "meleeRun e fs =
       (fst (updateMelee dt (e\<lparr>e_meleeTimer := e_meleeTimer e - elapsed (butlast fs),
               e_attackCooldownTimer := c\<rparr>) p),
        p_dmgCalls (snd (updateMelee dt (e\<lparr>e_meleeTimer := e_meleeTimer e
               - elapsed (butlast fs), e_attackCooldownTimer := c\<rparr>) p)) - p_dmgCalls p)"
    unfolding meleeRun_append w fst_conv snd_conv meleeRun_single by simp
  show ?thesis by (rule that [OF fs w a r])
qed

lemma windup_phase:
  assumes "e_meleeState e = Windup" "runsOut (e_meleeTimer e) ws"
  shows "\<exists>c. meleeRun e ws =
       (e\<lparr>e_meleeState := Attack, e_meleeTimer := 0.1, e_attackCooldownTimer := c\<rparr>, 0)"
    and "e_meleeState (fst (meleeRun e (butlast ws))) = Windup"
    and "snd (meleeRun e (butlast ws)) = 0"
proof -
  have ne: "e_meleeState e \<noteq> Chase" using assms(1) by simp
  from timed_phase [OF ne assms(2)] obtain c dt p where
    w: "meleeRun e (butlast ws) =
       (e\<lparr>e_meleeTimer := e_meleeTimer e - elapsed (butlast ws),
          e_attackCooldownTimer := c\<rparr>, 0)"
    and a: "e_meleeTimer e - elapsed (butlast ws) - dt \<le> 0"
    and r: "meleeRun e ws =
       (fst (updateMelee dt (e\<lparr>e_meleeTimer := e_meleeTimer e - elapsed (butlast ws),
               e_attackCooldownTimer := c\<rparr>) p),
        p_dmgCalls (snd (updateMelee dt (e\<lparr>e_meleeTimer := e_meleeTimer e
               - elapsed (butlast ws), e_attackCooldownTimer := c\<rparr>) p)) - p_dmgCalls p)"
    by blast
  have "meleeRun e ws =
       (e\<lparr>e_meleeState := Attack, e_meleeTimer := 0.1,
          e_attackCooldownTimer := max 0 (c - dt)\<rparr>, 0)"
    unfolding r using assms(1) a by (simp add: updateMelee_windup)
  then show "\<exists>c. meleeRun e ws =
       (e\<lparr>e_meleeState := Attack, e_meleeTimer := 0.1, e_attackCooldownTimer := c\<rparr>, 0)"
    by blast
  show "e_meleeState (fst (meleeRun e (butlast ws))) = Windup"
    "snd (meleeRun e (butlast ws)) = 0"
    unfolding w using assms(1) by simp_all
qed

lemma attack_phase:
  assumes "e_meleeState e = Attack" "runsOut (e_meleeTimer e) as"
  shows "meleeRun e as =
       (e\<lparr>e_meleeState := Recovery, e_meleeTimer := e_recoveryTime e,
          e_attackCooldownTimer := e_attackCooldown e\<rparr>,
        if distance (e_x e) (e_y e) (p_x (snd (last as))) (p_y (snd (last as)))
             < e_attackRange e + p_radius (snd (last as)) + e_radius e + 10
        then 1 else 0)"
    and "e_meleeState (fst (meleeRun e (butlast as))) = Attack"
    and "snd (meleeRun e (butlast as)) = 0"
proof -
  have ne: "e_meleeState e \<noteq> Chase" using assms(1) by simp
  from timed_phase [OF ne assms(2)] obtain c dt p where
    fs: "as = butlast as @ [(dt, p)]"
    and w: "meleeRun e (butlast as) =
       (e\<lparr>e_meleeTimer := e_meleeTimer e - elapsed (butlast as),
          e_attackCooldownTimer := c\<rparr>, 0)"
    and a: "e_meleeTimer e - elapsed (butlast as) - dt \<le> 0"
    and r: "meleeRun e as =
       (fst (updateMelee dt (e\<lparr>e_meleeTimer := e_meleeTimer e - elapsed (butlast as),
               e_attackCooldownTimer := c\<rparr>) p),
        p_dmgCalls (snd (updateMelee dt (e\<lparr>e_meleeTimer := e_meleeTimer e
               - elapsed (butlast as), e_attackCooldownTimer := c\<rparr>) p)) - p_dmgCalls p)"
    by blast
  have l: "snd (last as) = p" by (subst fs) simp
  show "meleeRun e as =
       (e\<lparr>e_meleeState := Recovery, e_meleeTimer := e_recoveryTime e,
          e_attackCooldownTimer := e_attackCooldown e\<rparr>,
        if distance (e_x e) (e_y e) (p_x (snd (last as))) (p_y (snd (last as)))
             < e_attackRange e + p_radius (snd (last as)) + e_radius e + 10
        then 1 else 0)"
    unfolding r l using assms(1) a
    by (simp add: updateMelee_attack_step Player_takeDamage_calls)
  show "e_meleeState (fst (meleeRun e (butlast as))) = Attack"
    "snd (meleeRun e (butlast as)) = 0"
    unfolding w using assms(1) by simp_all
qed

lemma recovery_phase:
  assumes "e_meleeState e = Recovery" "runsOut (e_meleeTimer e) rs"
  shows "\<exists>t c. meleeRun e rs =
       (e\<lparr>e_meleeState := Chase, e_meleeTimer := t, e_attackCooldownTimer := c\<rparr>, 0)"
    and "e_meleeState (fst (meleeRun e (butlast rs))) = Recovery"
    and "snd (meleeRun e (butlast rs)) = 0"
proof -
  have ne: "e_meleeState e \<noteq> Chase" using assms(1) by simp
  from timed_phase [OF ne assms(2)] obtain c dt p where
    w: "meleeRun e (butlast rs) =
       (e\<lparr>e_meleeTimer := e_meleeTimer e - elapsed (butlast rs),
          e_attackCooldownTimer := c\<rparr>, 0)"
    and a: "e_meleeTimer e - elapsed (butlast rs) - dt \<le> 0"
    and r: "meleeRun e rs =
       (fst (updateMelee dt (e\<lparr>e_meleeTimer := e_meleeTimer e - elapsed (butlast rs),
               e_attackCooldownTimer := c\<rparr>) p),
        p_dmgCalls (snd (updateMelee dt (e\<lparr>e_meleeTimer := e_meleeTimer e
               - elapsed (butlast rs), e_attackCooldownTimer := c\<rparr>) p)) - p_dmgCalls p)"
    by blast
  have "meleeRun e rs =
       (e\<lparr>e_meleeState := Chase, e_meleeTimer := e_meleeTimer e - elapsed (butlast rs) - dt,
          e_attackCooldownTimer := max 0 (c - dt)\<rparr>, 0)"
    unfolding r using assms(1) a by (simp add: updateMelee_recovery)
  then show "\<exists>t c. meleeRun e rs =
       (e\<lparr>e_meleeState := Chase, e_meleeTimer := t, e_attackCooldownTimer := c\<rparr>, 0)"
    by blast
  show "e_meleeState (fst (meleeRun e (butlast rs))) = Recovery"
    "snd (meleeRun e (butlast rs)) = 0"
    unfolding w using assms(1) by simp_all
qed

lemma melee_cycle:
  assumes "e_meleeState e = Chase" "inReach e p0" "e_attackCooldownTimer e - dt0 \<le> 0"
    and "runsOut (e_windupTime e) ws" "runsOut 0.1 as" "runsOut (e_recoveryTime e) rs"
  shows "e_meleeState (fst (meleeRun e [(dt0, p0)])) = Windup
     \<and> e_meleeState (fst (meleeRun e ((dt0, p0) # butlast ws))) = Windup
     \<and> e_meleeState (fst (meleeRun e ((dt0, p0) # ws))) = Attack
     \<and> e_meleeState (fst (meleeRun e ((dt0, p0) # ws @ butlast as))) = Attack
     \<and> e_meleeState (fst (meleeRun e ((dt0, p0) # ws @ as))) = Recovery
     \<and> e_meleeState (fst (meleeRun e ((dt0, p0) # ws @ as @ butlast rs))) = Recovery
     \<and> e_meleeState (fst (meleeRun e ((dt0, p0) # ws @ as @ rs))) = Chase
     \<and> snd (meleeRun e ((dt0, p0) # ws @ butlast as)) = 0
     \<and> snd (meleeRun e ((dt0, p0) # ws @ as)) =
         (if distance (e_x e) (e_y e) (p_x (snd (last as))) (p_y (snd (last as)))
               < e_attackRange e + p_radius (snd (last as)) + e_radius e + 10
          then 1 else 0)
     \<and> snd (meleeRun e ((dt0, p0) # ws @ as @ rs)) =
         (if distance (e_x e) (e_y e) (p_x (snd (last as))) (p_y (snd (last as)))
               < e_attackRange e + p_radius (snd (last as)) + e_radius e + 10
          then 1 else 0)"
proof -
  define n :: nat where
    "n = (if distance (e_x e) (e_y e) (p_x (snd (last as))) (p_y (snd (last as)))
               < e_attackRange e + p_radius (snd (last as)) + e_radius e + 10
          then 1 else 0)"
  define e1 where "e1 = e\<lparr>e_attackCooldownTimer := max 0 (e_attackCooldownTimer e - dt0),
      e_meleeState := Windup, e_meleeTimer := e_windupTime e\<rparr>"
  have first: "updateMelee dt0 e p0 = (e1, p0)"
    using assms(1-3) by (simp add: updateMelee_chase e1_def)
  have cons: "meleeRun e ((dt0, p0) # fs) = meleeRun e1 fs" for fs
    by (simp add: first split_beta)
  have s1: "e_meleeState e1 = Windup" "runsOut (e_meleeTimer e1) ws"
    using assms(4) by (simp_all add: e1_def)
  from windup_phase [OF s1] obtain c2 where
    w: "meleeRun e1 ws =
       (e1\<lparr>e_meleeState := Attack, e_meleeTimer := 0.1, e_attackCooldownTimer := c2\<rparr>, 0)"
    and wb: "e_meleeState (fst (meleeRun e1 (butlast ws))) = Windup"
    by blast
  define e2 where
    "e2 = e1\<lparr>e_meleeState := Attack, e_meleeTimer := 0.1, e_attackCooldownTimer := c2\<rparr>"
  have s2: "e_meleeState e2 = Attack" "runsOut (e_meleeTimer e2) as"
    using assms(5) by (simp_all add: e2_def)
  have geo: "e_x e2 = e_x e" "e_y e2 = e_y e" "e_attackRange e2 = e_attackRange e"
    "e_radius e2 = e_radius e" "e_recoveryTime e2 = e_recoveryTime e"
    by (simp_all add: e2_def e1_def)
  define e3 where "e3 = e2\<lparr>e_meleeState := Recovery, e_meleeTimer := e_recoveryTime e2,
      e_attackCooldownTimer := e_attackCooldown e2\<rparr>"
  have a: "meleeRun e2 as = (e3, n)"
    and ab: "e_meleeState (fst (meleeRun e2 (butlast as))) = Attack"
      "snd (meleeRun e2 (butlast as)) = 0"
    using attack_phase [OF s2] by (simp_all add: geo n_def e3_def)
  have s3: "e_meleeState e3 = Recovery" "runsOut (e_meleeTimer e3) rs"
    using assms(6) by (simp_all add: e3_def geo)
  from recovery_phase [OF s3] obtain t4 c4 where
    r: "meleeRun e3 rs =
       (e3\<lparr>e_meleeState := Chase, e_meleeTimer := t4, e_attackCooldownTimer := c4\<rparr>, 0)"
    and rb: "e_meleeState (fst (meleeRun e3 (butlast rs))) = Recovery"
      "snd (meleeRun e3 (butlast rs)) = 0"
    by blast
  have w': "meleeRun e1 ws = (e2, 0)" using w by (simp add: e2_def)
  have c1: "e_meleeState (fst (meleeRun e [(dt0, p0)])) = Windup"
    unfolding cons by (simp add: s1)
  have c2: "e_meleeState (fst (meleeRun e ((dt0, p0) # butlast ws))) = Windup"
    unfolding cons by (rule wb)
  have c3: "e_meleeState (fst (meleeRun e ((dt0, p0) # ws))) = Attack"
    unfolding cons w' by (simp add: s2)
  have c4: "e_meleeState (fst (meleeRun e ((dt0, p0) # ws @ butlast as))) = Attack"
    and c8: "snd (meleeRun e ((dt0, p0) # ws @ butlast as)) = 0"
    unfolding cons meleeRun_append w' fst_conv snd_conv by (simp_all add: ab)
  have c5: "e_meleeState (fst (meleeRun e ((dt0, p0) # ws @ as))) = Recovery"
    and c9: "snd (meleeRun e ((dt0, p0) # ws @ as)) = n"
    unfolding cons meleeRun_append w' a fst_conv snd_conv by (simp_all add: s3)
  have c6: "e_meleeState (fst (meleeRun e ((dt0, p0) # ws @ as @ butlast rs))) = Recovery"
    unfolding cons meleeRun_append w' a fst_conv snd_conv by (rule rb)
  have c7: "e_meleeState (fst (meleeRun e ((dt0, p0) # ws @ as @ rs))) = Chase"
    and c10: "snd (meleeRun e ((dt0, p0) # ws @ as @ rs)) = n"
    unfolding cons meleeRun_append w' a r fst_conv snd_conv by simp_all
  show ?thesis
    unfolding n_def [symmetric]
    by (rule conjI [OF c1 conjI [OF c2 conjI [OF c3 conjI [OF c4 conjI [OF c5
        conjI [OF c6 conjI [OF c7 conjI [OF c8 conjI [OF c9 c10]]]]]]]]])
qed

text \<open>
  Claim C5. One frame of the melee behaviour keeps the phase or moves it one step along
  chase, windup, attack, recovery, chase. It leaves the player untouched in the chase,
  windup and recovery states; in the attack state it invokes \<open>player.takeDamage\<close> once,
  with the enemy's damage, exactly when the attack timer runs out in that frame and the
  player is closer than attack range + radii + 10, and such a frame puts the enemy into
  recovery. So over any run of frames the number of invocations is the number of frames
  that end an attack phase with the player inside that range: one per cycle.

  The frame, state by state. In chase, with the player in range and the cooldown run
  out, the enemy enters windup with the timer at its windup time; in range with the
  cooldown still running it waits; out of range it advances. In windup the timer runs
  down, and when it runs out the enemy enters attack with the timer at 0.1. In attack
  the timer runs down, and when it runs out the enemy enters recovery with the timer at
  its recovery time and the cooldown at its attack cooldown. In recovery the timer runs
  down, and when it runs out the enemy is back in chase.

  The cycle. From chase, a frame with the player in range and the cooldown run out,
  then the frames it takes the windup time, then 0.1 s, then the recovery time to run
  out: the enemy is in windup until the last frame of the first group, in attack until
  the last frame of the second, in recovery until the last frame of the third, and
  then in chase. No invocation is made before the last frame of the attack; that frame
  makes one if its player is closer than attack range + radii + 10 and none otherwise;
  and no other is made in the cycle.
\<close>

theorem C5_melee_cycle:
  "(e_meleeState (fst (updateMelee dt e p)) = e_meleeState e
      \<or> e_meleeState (fst (updateMelee dt e p)) = nextPhase (e_meleeState e))
   \<and> (e_meleeState e \<noteq> Attack \<longrightarrow> snd (updateMelee dt e p) = p)
   \<and> (e_meleeState e = Attack \<longrightarrow>
        snd (updateMelee dt e p) =
          (if meleeHits dt e p then Player_takeDamage p (e_damage e) else p))
   \<and> (meleeHits dt e p \<longrightarrow> e_meleeState (fst (updateMelee dt e p)) = Recovery)
   \<and> p_dmgCalls (snd (updateMelee dt e p)) - p_dmgCalls p
        = (if meleeHits dt e p then 1 else 0)
   \<and> snd (meleeRun e fs) = attackHits e fs
   \<and> (e_meleeState e = Chase \<longrightarrow>
        fst (updateMelee dt e p) =
          (if inReach e p
           then if max 0 (e_attackCooldownTimer e - dt) \<le> 0
                then e\<lparr>e_attackCooldownTimer := max 0 (e_attackCooldownTimer e - dt),
                       e_meleeState := Windup, e_meleeTimer := e_windupTime e\<rparr>
                else e\<lparr>e_attackCooldownTimer := max 0 (e_attackCooldownTimer e - dt)\<rparr>
           else chaseStep 0.3 (e_speed e * e_slowFactor e * dt)
                  (e\<lparr>e_attackCooldownTimer := max 0 (e_attackCooldownTimer e - dt)\<rparr>) p))
   \<and> (e_meleeState e = Windup \<longrightarrow>
        fst (updateMelee dt e p) =
          (if e_meleeTimer e - dt \<le> 0
           then e\<lparr>e_attackCooldownTimer := max 0 (e_attackCooldownTimer e - dt),
                  e_meleeState := Attack, e_meleeTimer := 0.1\<rparr>
           else e\<lparr>e_attackCooldownTimer := max 0 (e_attackCooldownTimer e - dt),
                  e_meleeTimer := e_meleeTimer e - dt\<rparr>))
   \<and> (e_meleeState e = Attack \<longrightarrow>
        fst (updateMelee dt e p) =
          (if e_meleeTimer e - dt \<le> 0
           then e\<lparr>e_meleeState := Recovery, e_meleeTimer := e_recoveryTime e,
                  e_attackCooldownTimer := e_attackCooldown e\<rparr>
           else e\<lparr>e_attackCooldownTimer := max 0 (e_attackCooldownTimer e - dt),
                  e_meleeTimer := e_meleeTimer e - dt\<rparr>))
   \<and> (e_meleeState e = Recovery \<longrightarrow>
        fst (updateMelee dt e p) =
          (if e_meleeTimer e - dt \<le> 0
           then e\<lparr>e_attackCooldownTimer := max 0 (e_attackCooldownTimer e - dt),
                  e_meleeState := Chase, e_meleeTimer := e_meleeTimer e - dt\<rparr>
           else e\<lparr>e_attackCooldownTimer := max 0 (e_attackCooldownTimer e - dt),
                  e_meleeTimer := e_meleeTimer e - dt\<rparr>))
   \<and> (e_meleeState e = Chase \<and> inReach e p \<and> e_attackCooldownTimer e - dt \<le> 0
        \<and> runsOut (e_windupTime e) ws \<and> runsOut 0.1 as \<and> runsOut (e_recoveryTime e) rs \<longrightarrow>
        e_meleeState (fst (meleeRun e [(dt, p)])) = Windup
      \<and> e_meleeState (fst (meleeRun e ((dt, p) # butlast ws))) = Windup
      \<and> e_meleeState (fst (meleeRun e ((dt, p) # ws))) = Attack
      \<and> e_meleeState (fst (meleeRun e ((dt, p) # ws @ butlast as))) = Attack
      \<and> e_meleeState (fst (meleeRun e ((dt, p) # ws @ as))) = Recovery
      \<and> e_meleeState (fst (meleeRun e ((dt, p) # ws @ as @ butlast rs))) = Recovery
      \<and> e_meleeState (fst (meleeRun e ((dt, p) # ws @ as @ rs))) = Chase
      \<and> snd (meleeRun e ((dt, p) # ws @ butlast as)) = 0
      \<and> snd (meleeRun e ((dt, p) # ws @ as)) =
          (if distance (e_x e) (e_y e) (p_x (snd (last as))) (p_y (snd (last as)))
                < e_attackRange e + p_radius (snd (last as)) + e_radius e + 10
           then 1 else 0)
      \<and> snd (meleeRun e ((dt, p) # ws @ as @ rs)) =
          (if distance (e_x e) (e_y e) (p_x (snd (last as))) (p_y (snd (last as)))
                < e_attackRange e + p_radius (snd (last as)) + e_radius e + 10
           then 1 else 0))"
proof -
  have frame: "(e_meleeState (fst (updateMelee dt e p)) = e_meleeState e
      \<or> e_meleeState (fst (updateMelee dt e p)) = nextPhase (e_meleeState e))
   \<and> (e_meleeState e \<noteq> Attack \<longrightarrow> snd (updateMelee dt e p) = p)
   \<and> (e_meleeState e = Attack \<longrightarrow>
        snd (updateMelee dt e p) =
          (if meleeHits dt e p then Player_takeDamage p (e_damage e) else p))
   \<and> (meleeHits dt e p \<longrightarrow> e_meleeState (fst (updateMelee dt e p)) = Recovery)
   \<and> p_dmgCalls (snd (updateMelee dt e p)) - p_dmgCalls p
        = (if meleeHits dt e p then 1 else 0)
   \<and> snd (meleeRun e fs) = attackHits e fs"
    using updateMelee_phase [of dt e p] updateMelee_no_call [of e dt p]
      updateMelee_attack [of e dt p] updateMelee_hit_recovery [of dt e p]
      updateMelee_calls [of dt e p] meleeRun_calls [of e fs]
    by simp
  have chase: "e_meleeState e = Chase \<longrightarrow>
        fst (updateMelee dt e p) =
          (if inReach e p
           then if max 0 (e_attackCooldownTimer e - dt) \<le> 0
                then e\<lparr>e_attackCooldownTimer := max 0 (e_attackCooldownTimer e - dt),
                       e_meleeState := Windup, e_meleeTimer := e_windupTime e\<rparr>
                else e\<lparr>e_attackCooldownTimer := max 0 (e_attackCooldownTimer e - dt)\<rparr>
           else chaseStep 0.3 (e_speed e * e_slowFactor e * dt)
                  (e\<lparr>e_attackCooldownTimer := max 0 (e_attackCooldownTimer e - dt)\<rparr>) p)"
    by (simp add: updateMelee_chase)
  have windup: "e_meleeState e = Windup \<longrightarrow>
        fst (updateMelee dt e p) =
          (if e_meleeTimer e - dt \<le> 0
           then e\<lparr>e_attackCooldownTimer := max 0 (e_attackCooldownTimer e - dt),
                  e_meleeState := Attack, e_meleeTimer := 0.1\<rparr>
           else e\<lparr>e_attackCooldownTimer := max 0 (e_attackCooldownTimer e - dt),
                  e_meleeTimer := e_meleeTimer e - dt\<rparr>)"
    by (simp add: updateMelee_windup)
  have attack: "e_meleeState e = Attack \<longrightarrow>
        fst (updateMelee dt e p) =
          (if e_meleeTimer e - dt \<le> 0
           then e\<lparr>e_meleeState := Recovery, e_meleeTimer := e_recoveryTime e,
                  e_attackCooldownTimer := e_attackCooldown e\<rparr>
           else e\<lparr>e_attackCooldownTimer := max 0 (e_attackCooldownTimer e - dt),
                  e_meleeTimer := e_meleeTimer e - dt\<rparr>)"
    by (simp add: updateMelee_attack_step)
  have recovery: "e_meleeState e = Recovery \<longrightarrow>
        fst (updateMelee dt e p) =
          (if e_meleeTimer e - dt \<le> 0
           then e\<lparr>e_attackCooldownTimer := max 0 (e_attackCooldownTimer e - dt),
                  e_meleeState := Chase, e_meleeTimer := e_meleeTimer e - dt\<rparr>
           else e\<lparr>e_attackCooldownTimer := max 0 (e_attackCooldownTimer e - dt),
                  e_meleeTimer := e_meleeTimer e - dt\<rparr>)"
    by (simp add: updateMelee_recovery)
  have cycle: "e_meleeState e = Chase \<and> inReach e p \<and> e_attackCooldownTimer e - dt \<le> 0
        \<and> runsOut (e_windupTime e) ws \<and> runsOut 0.1 as \<and> runsOut (e_recoveryTime e) rs \<longrightarrow>
        e_meleeState (fst (meleeRun e [(dt, p)])) = Windup
      \<and> e_meleeState (fst (meleeRun e ((dt, p) # butlast ws))) = Windup
      \<and> e_meleeState (fst (meleeRun e ((dt, p) # ws))) = Attack
      \<and> e_meleeState (fst (meleeRun e ((dt, p) # ws @ butlast as))) = Attack
      \<and> e_meleeState (fst (meleeRun e ((dt, p) # ws @ as))) = Recovery
      \<and> e_meleeState (fst (meleeRun e ((dt, p) # ws @ as @ butlast rs))) = Recovery
      \<and> e_meleeState (fst (meleeRun e ((dt, p) # ws @ as @ rs))) = Chase
      \<and> snd (meleeRun e ((dt, p) # ws @ butlast as)) = 0
      \<and> snd (meleeRun e ((dt, p) # ws @ as)) =
          (if distance (e_x e) (e_y e) (p_x (snd (last as))) (p_y (snd (last as)))
                < e_attackRange e + p_radius (snd (last as)) + e_radius e + 10
           then 1 else 0)
      \<and> snd (meleeRun e ((dt, p) # ws @ as @ rs)) =
          (if distance (e_x e) (e_y e) (p_x (snd (last as))) (p_y (snd (last as)))
                < e_attackRange e + p_radius (snd (last as)) + e_radius e + 10
           then 1 else 0)"
  proof
    assume h: "e_meleeState e = Chase \<and> inReach e p \<and> e_attackCooldownTimer e - dt \<le> 0
        \<and> runsOut (e_windupTime e) ws \<and> runsOut 0.1 as \<and> runsOut (e_recoveryTime e) rs"
    show "e_meleeState (fst (meleeRun e [(dt, p)])) = Windup
      \<and> e_meleeState (fst (meleeRun e ((dt, p) # butlast ws))) = Windup
      \<and> e_meleeState (fst (meleeRun e ((dt, p) # ws))) = Attack
      \<and> e_meleeState (fst (meleeRun e ((dt, p) # ws @ butlast as))) = Attack
      \<and> e_meleeState (fst (meleeRun e ((dt, p) # ws @ as))) = Recovery
      \<and> e_meleeState (fst (meleeRun e ((dt, p) # ws @ as @ butlast rs))) = Recovery
      \<and> e_meleeState (fst (meleeRun e ((dt, p) # ws @ as @ rs))) = Chase
      \<and> snd (meleeRun e ((dt, p) # ws @ butlast as)) = 0
      \<and> snd (meleeRun e ((dt, p) # ws @ as)) =
          (if distance (e_x e) (e_y e) (p_x (snd (last as))) (p_y (snd (last as)))
                < e_attackRange e + p_radius (snd (last as)) + e_radius e + 10
           then 1 else 0)
      \<and> snd (meleeRun e ((dt, p) # ws @ as @ rs)) =
          (if distance (e_x e) (e_y e) (p_x (snd (last as))) (p_y (snd (last as)))
                < e_attackRange e + p_radius (snd (last as)) + e_radius e + 10
           then 1 else 0)"
      using h by (intro melee_cycle) simp_all
  qed
  show ?thesis
    by (rule conjI [OF frame [THEN conjunct1] conjI [OF frame [THEN conjunct2, THEN conjunct1]
        conjI [OF frame [THEN conjunct2, THEN conjunct2, THEN conjunct1]
        conjI [OF frame [THEN conjunct2, THEN conjunct2, THEN conjunct2, THEN conjunct1]
        conjI [OF frame [THEN conjunct2, THEN conjunct2, THEN conjunct2, THEN conjunct2,
          THEN conjunct1]
        conjI [OF frame [THEN conjunct2, THEN conjunct2, THEN conjunct2, THEN conjunct2,
          THEN conjunct2]
        conjI [OF chase conjI [OF windup conjI [OF attack conjI [OF recovery cycle]]]]]]]]]])
qed

theorem C5_melee_cycle_witness:
  "snd (updateMelee 0.03 shambler0 (fighterAt 560 500)) = fighterAt 560 500
   \<and> meleeHits 0.03 shamblerAttacking (fighterAt 560 500)
   \<and> snd (updateMelee 0.03 shamblerAttacking (fighterAt 560 500))
        = Player_takeDamage (fighterAt 560 500) 15
   \<and> e_meleeState (fst (updateMelee 0.03 shamblerAttacking (fighterAt 560 500))) = Recovery
   \<and> e_meleeState (fst (meleeRun shambler0 cycleFrames)) = Chase
   \<and> snd (meleeRun shambler0 cycleFrames) = 1
   \<and> e_meleeState (fst (meleeRun shambler0 [(0.03, fighterAt 560 500)])) = Windup
   \<and> e_meleeState (fst (meleeRun shambler0 ((0.03, fighterAt 560 500) # windupFrames)))
        = Attack
   \<and> e_meleeState (fst (meleeRun shambler0
        ((0.03, fighterAt 560 500) # windupFrames @ attackFrames))) = Recovery
   \<and> snd (meleeRun shambler0
        ((0.03, fighterAt 560 500) # windupFrames @ butlast attackFrames)) = 0
   \<and> snd (meleeRun shambler0
        ((0.03, fighterAt 560 500) # windupFrames @ attackFrames)) = 1"
proof -
  have hit: "meleeHits 0.03 shamblerAttacking (fighterAt 560 500)"
    by (simp add: meleeHits_def shamblerAttacking_def shambler0_def Enemy_new_def
        ENEMY_TYPES_shambler_def js_or_def fighterAt_def Player_new_def
        CHARACTERS_fighter_def distance_axis PLAYER_RADIUS_def)
  have chase: "e_meleeState shambler0 \<noteq> Attack" "e_meleeState shambler0 = Chase"
    by (simp_all add: shambler0_def Enemy_new_def)
  have att: "e_meleeState shamblerAttacking = Attack"
       "e_damage shamblerAttacking = 15"
    by (simp_all add: shamblerAttacking_def shambler0_def Enemy_new_def
        ENEMY_TYPES_shambler_def)
  have single: "snd (updateMelee 0.03 shambler0 (fighterAt 560 500)) = fighterAt 560 500"
    "snd (updateMelee 0.03 shamblerAttacking (fighterAt 560 500))
        = Player_takeDamage (fighterAt 560 500) 15"
    "e_meleeState (fst (updateMelee 0.03 shamblerAttacking (fighterAt 560 500))) = Recovery"
    using C5_melee_cycle [where dt = "0.03" and e = shambler0 and p = "fighterAt 560 500",
        THEN conjunct2, THEN conjunct1]
      C5_melee_cycle [where dt = "0.03" and e = shamblerAttacking
        and p = "fighterAt 560 500", THEN conjunct2, THEN conjunct2, THEN conjunct1]
      C5_melee_cycle [where dt = "0.03" and e = shamblerAttacking
        and p = "fighterAt 560 500", THEN conjunct2, THEN conjunct2, THEN conjunct2,
        THEN conjunct1]
      hit chase att
    by simp_all
  have vals: "e_x shambler0 = 500" "e_y shambler0 = 500" "e_attackRange shambler0 = 50"
    "e_radius shambler0 = 12" "e_windupTime shambler0 = 0.4"
    "e_recoveryTime shambler0 = 0.5" "e_attackCooldownTimer shambler0 = 0"
    "p_x (fighterAt 560 500) = 560" "p_y (fighterAt 560 500) = 500"
    "p_radius (fighterAt 560 500) = 14"
    by (simp_all add: shambler0_def Enemy_new_def ENEMY_TYPES_shambler_def js_or_def
        fighterAt_def Player_new_def PLAYER_RADIUS_def)
  have reach: "inReach shambler0 (fighterAt 560 500)"
    by (simp add: inReach_def vals distance_axis)
  have cool: "e_attackCooldownTimer shambler0 - 0.03 \<le> 0"
    by (simp add: vals)
  have w: "runsOut (e_windupTime shambler0) windupFrames"
    by (simp add: runsOut_def elapsed_def windupFrames_def vals numeral_eq_Suc)
  have a: "runsOut 0.1 attackFrames"
    by (simp add: runsOut_def elapsed_def attackFrames_def numeral_eq_Suc)
  have r: "runsOut (e_recoveryTime shambler0) recoveryFrames"
    by (simp add: runsOut_def elapsed_def recoveryFrames_def vals numeral_eq_Suc)
  have l: "snd (last attackFrames) = fighterAt 560 500"
    by (simp add: attackFrames_def numeral_eq_Suc)
  have near: "distance (e_x shambler0) (e_y shambler0) (p_x (fighterAt 560 500))
      (p_y (fighterAt 560 500))
      < e_attackRange shambler0 + p_radius (fighterAt 560 500) + e_radius shambler0 + 10"
    by (simp add: vals distance_axis)
  have hyp: "e_meleeState shambler0 = Chase \<and> inReach shambler0 (fighterAt 560 500)
      \<and> e_attackCooldownTimer shambler0 - 0.03 \<le> 0
      \<and> runsOut (e_windupTime shambler0) windupFrames \<and> runsOut 0.1 attackFrames
      \<and> runsOut (e_recoveryTime shambler0) recoveryFrames"
    using chase(2) reach cool w a r by blast
  note c = C5_melee_cycle [where dt = "0.03" and e = shambler0 and p = "fighterAt 560 500"
      and ws = windupFrames and as = attackFrames and rs = recoveryFrames,
      THEN conjunct2, THEN conjunct2, THEN conjunct2, THEN conjunct2, THEN conjunct2,
      THEN conjunct2, THEN conjunct2, THEN conjunct2, THEN conjunct2, THEN conjunct2,
      THEN mp, OF hyp]
  have c1: "e_meleeState (fst (meleeRun shambler0 [(0.03, fighterAt 560 500)])) = Windup"
    by (rule c [THEN conjunct1])
  have c3: "e_meleeState (fst (meleeRun shambler0 ((0.03, fighterAt 560 500) # windupFrames)))
        = Attack"
    by (rule c [THEN conjunct2, THEN conjunct2, THEN conjunct1])
  have c5: "e_meleeState (fst (meleeRun shambler0
        ((0.03, fighterAt 560 500) # windupFrames @ attackFrames))) = Recovery"
    by (rule c [THEN conjunct2, THEN conjunct2, THEN conjunct2, THEN conjunct2,
        THEN conjunct1])
  have c7: "e_meleeState (fst (meleeRun shambler0 cycleFrames)) = Chase"
    unfolding cycleFrames_def
    by (rule c [THEN conjunct2, THEN conjunct2, THEN conjunct2, THEN conjunct2,
        THEN conjunct2, THEN conjunct2, THEN conjunct1])
  have c8: "snd (meleeRun shambler0
        ((0.03, fighterAt 560 500) # windupFrames @ butlast attackFrames)) = 0"
    by (rule c [THEN conjunct2, THEN conjunct2, THEN conjunct2, THEN conjunct2,
        THEN conjunct2, THEN conjunct2, THEN conjunct2, THEN conjunct1])
  have c9: "snd (meleeRun shambler0
        ((0.03, fighterAt 560 500) # windupFrames @ attackFrames)) = 1"
    using c [THEN conjunct2, THEN conjunct2, THEN conjunct2, THEN conjunct2,
        THEN conjunct2, THEN conjunct2, THEN conjunct2, THEN conjunct2, THEN conjunct1]
      near
    unfolding l by simp
  have c10: "snd (meleeRun shambler0 cycleFrames) = 1"
    using c [THEN conjunct2, THEN conjunct2, THEN conjunct2, THEN conjunct2,
        THEN conjunct2, THEN conjunct2, THEN conjunct2, THEN conjunct2, THEN conjunct2]
      near
    unfolding l cycleFrames_def by simp
  show ?thesis using single hit c7 c10 c1 c3 c5 c8 c9 by blast
qed

section \<open>Dodge system\<close>

lemma execute_blocked:
  "d_cooldown d > 0 \<or> d_active d \<or> d_backstepActive d \<Longrightarrow> execute (d, p) m f = (d, p)"
  by (simp add: execute_def)

lemma trigger_cooldown:
  "0 < d_cooldown (fst (triggerRoll dir s))"
  "0 < d_cooldown (fst (triggerBlink dir s))"
  "0 < d_cooldown (fst (triggerBackstep dir s))"
  by (simp_all add: triggerRoll_def triggerBlink_def triggerBackstep_def Let_def split_beta
      DODGE_roll_cooldown_def DODGE_blink_cooldown_def BACK_JUMP_cooldown_def)

lemma execute_same_or_cooling:
  "execute s m f = s \<or> 0 < d_cooldown (fst (execute s m f))"
  by (cases s) (simp add: execute_def Let_def trigger_cooldown)

lemma execute_twice:
  assumes "execute s m f \<noteq> s"
  shows "execute (execute s m f) m' f' = execute s m f"
proof -
  from assms execute_same_or_cooling [of s m f]
  have "0 < d_cooldown (fst (execute s m f))" by blast
  then show ?thesis
    using execute_blocked [of "fst (execute s m f)" "snd (execute s m f)" m' f'] by simp
qed

lemma normalize_zero_iff:
  "vec_x (normalize x y) = 0 \<and> vec_y (normalize x y) = 0 \<longleftrightarrow> x = 0 \<and> y = 0"
proof -
  have "sqrt (x * x + y * y) = 0 \<longleftrightarrow> x = 0 \<and> y = 0"
    by (simp add: sum_squares_eq_zero_iff)
  then show ?thesis by (auto simp: normalize_def Let_def)
qed

lemma execute_starts:
  assumes "isReady d" "vec_x m \<noteq> 0 \<or> vec_y m \<noteq> 0 \<or> vec_x f \<noteq> 0 \<or> vec_y f \<noteq> 0"
  shows "execute (d, p) m f =
     (if vec_x m \<noteq> 0 \<or> vec_y m \<noteq> 0
      then if d_evadeType d = Blink then triggerBlink (normalize (vec_x m) (vec_y m)) (d, p)
           else triggerRoll (normalize (vec_x m) (vec_y m)) (d, p)
      else triggerBackstep \<lparr>vec_x = - vec_x (normalize (vec_x f) (vec_y f)),
                             vec_y = - vec_y (normalize (vec_x f) (vec_y f))\<rparr> (d, p))"
  using assms normalize_zero_iff [of "vec_x m" "vec_y m"] normalize_zero_iff [of "vec_x f" "vec_y f"]
  by (auto simp: execute_def isReady_def Let_def)

lemma execute_starts_changes:
  assumes "isReady d" "vec_x m \<noteq> 0 \<or> vec_y m \<noteq> 0 \<or> vec_x f \<noteq> 0 \<or> vec_y f \<noteq> 0"
  shows "execute (d, p) m f \<noteq> (d, p)"
proof
  assume eq: "execute (d, p) m f = (d, p)"
  have "0 < d_cooldown (fst (execute (d, p) m f))"
    unfolding execute_starts [OF assms] by (simp add: trigger_cooldown)
  with eq assms(1) show False by (simp add: isReady_def)
qed

lemma execute_exclusive:
  "\<not> (d_active (fst s) \<and> d_backstepActive (fst s)) \<Longrightarrow>
   \<not> (d_active (fst (execute s m f)) \<and> d_backstepActive (fst (execute s m f)))"
  by (cases s) (simp add: execute_def Let_def triggerRoll_def triggerBlink_def
      triggerBackstep_def)

lemma update_exclusive:
  "\<not> (d_active (fst s) \<and> d_backstepActive (fst s)) \<Longrightarrow>
   \<not> (d_active (fst (DodgeSystem_update dt s))
      \<and> d_backstepActive (fst (DodgeSystem_update dt s)))"
  by (cases s) (auto simp: DodgeSystem_update_def Let_def split_beta)

lemma dodgeStep_exclusive:
  "\<not> (d_active (fst s) \<and> d_backstepActive (fst s)) \<Longrightarrow>
   \<not> (d_active (fst (dodgeStep s ev)) \<and> d_backstepActive (fst (dodgeStep s ev)))"
  using execute_exclusive update_exclusive by (cases ev) simp_all

lemma dodgeRun_exclusive:
  "\<not> (d_active (fst s) \<and> d_backstepActive (fst s)) \<Longrightarrow>
   \<not> (d_active (fst (dodgeRun s evs)) \<and> d_backstepActive (fst (dodgeRun s evs)))"
  unfolding dodgeRun_def
proof (induction evs arbitrary: s)
  case Nil
  then show ?case by simp
next
  case (Cons ev evs)
  show ?case
    using Cons.IH [OF dodgeStep_exclusive [OF Cons.prems, of ev]] by simp
qed

lemma roll_fields:
  "triggerRoll dir (d, p) =
     (d\<lparr>d_direction := dir, d_active := True, d_timer := 0.25, d_cooldown := 1.5,
        d_maxCooldown := 1.5\<rparr>,
      p\<lparr>p_invulnTimer := max (p_invulnTimer p) 0.25\<rparr>)"
  by (simp add: triggerRoll_def DODGE_roll_duration_def DODGE_roll_cooldown_def
      DODGE_roll_iframes_def)

lemma blink_fields:
  "triggerBlink dir (d, p) =
     (d\<lparr>d_blinkEffects := d_blinkEffects d @
          [\<lparr>b_x = p_x p, b_y = p_y p, b_timer = 0.35, b_maxTimer = 0.35,
            b_radius = p_radius p\<rparr>,
           \<lparr>b_x = clamp (p_x p + vec_x dir * 120) (p_radius p) (3000 - p_radius p),
            b_y = clamp (p_y p + vec_y dir * 120) (p_radius p) (3000 - p_radius p),
            b_timer = 0.35, b_maxTimer = 0.35, b_radius = 4\<rparr>],
        d_cooldown := 2, d_maxCooldown := 2\<rparr>,
      p\<lparr>p_x := clamp (p_x p + vec_x dir * 120) (p_radius p) (3000 - p_radius p),
        p_y := clamp (p_y p + vec_y dir * 120) (p_radius p) (3000 - p_radius p),
        p_invulnTimer := max (p_invulnTimer p) 0.15\<rparr>)"
  by (simp add: triggerBlink_def Let_def DODGE_blink_distance_def DODGE_blink_cooldown_def
      DODGE_blink_iframes_def DODGE_blink_effectDuration_def WORLD_WIDTH_def WORLD_HEIGHT_def)

lemma backstep_fields:
  "triggerBackstep dir (d, p) =
     (d\<lparr>d_backstepDir := \<lparr>vec_x = vec_x dir, vec_y = vec_y dir\<rparr>, d_backstepActive := True,
        d_backstepTimer := 0.12, d_cooldown := 2, d_maxCooldown := 2\<rparr>,
      p\<lparr>p_invulnTimer := max (p_invulnTimer p) 0.15\<rparr>)"
  by (simp add: triggerBackstep_def BACK_JUMP_duration_def BACK_JUMP_cooldown_def
      BACK_JUMP_iframes_def)

lemma execute_roll:
  assumes "isReady d" "vec_x m \<noteq> 0 \<or> vec_y m \<noteq> 0" "d_evadeType d \<noteq> Blink"
  shows "execute (d, p) m f =
     (d\<lparr>d_direction := normalize (vec_x m) (vec_y m), d_active := True, d_timer := 0.25,
        d_cooldown := 1.5, d_maxCooldown := 1.5\<rparr>,
      p\<lparr>p_invulnTimer := max (p_invulnTimer p) 0.25\<rparr>)"
proof -
  have "execute (d, p) m f = triggerRoll (normalize (vec_x m) (vec_y m)) (d, p)"
    using execute_starts [of d m f p] assms by auto
  then show ?thesis by (simp only: roll_fields)
qed

lemma execute_blink:
  assumes "isReady d" "vec_x m \<noteq> 0 \<or> vec_y m \<noteq> 0" "d_evadeType d = Blink"
  shows "execute (d, p) m f =
     (d\<lparr>d_blinkEffects := d_blinkEffects d @
          [\<lparr>b_x = p_x p, b_y = p_y p, b_timer = 0.35, b_maxTimer = 0.35,
            b_radius = p_radius p\<rparr>,
           \<lparr>b_x = clamp (p_x p + vec_x (normalize (vec_x m) (vec_y m)) * 120) (p_radius p)
                    (3000 - p_radius p),
            b_y = clamp (p_y p + vec_y (normalize (vec_x m) (vec_y m)) * 120) (p_radius p)
                    (3000 - p_radius p),
            b_timer = 0.35, b_maxTimer = 0.35, b_radius = 4\<rparr>],
        d_cooldown := 2, d_maxCooldown := 2\<rparr>,
      p\<lparr>p_x := clamp (p_x p + vec_x (normalize (vec_x m) (vec_y m)) * 120) (p_radius p)
                 (3000 - p_radius p),
        p_y := clamp (p_y p + vec_y (normalize (vec_x m) (vec_y m)) * 120) (p_radius p)
                 (3000 - p_radius p),
        p_invulnTimer := max (p_invulnTimer p) 0.15\<rparr>)"
proof -
  have "execute (d, p) m f = triggerBlink (normalize (vec_x m) (vec_y m)) (d, p)"
    using execute_starts [of d m f p] assms by auto
  then show ?thesis by (simp only: blink_fields)
qed

lemma execute_backstep:
  assumes "isReady d" "vec_x m = 0 \<and> vec_y m = 0" "vec_x f \<noteq> 0 \<or> vec_y f \<noteq> 0"
  shows "execute (d, p) m f =
     (d\<lparr>d_backstepDir := \<lparr>vec_x = - vec_x (normalize (vec_x f) (vec_y f)),
                           vec_y = - vec_y (normalize (vec_x f) (vec_y f))\<rparr>,
        d_backstepActive := True, d_backstepTimer := 0.12, d_cooldown := 2,
        d_maxCooldown := 2\<rparr>,
      p\<lparr>p_invulnTimer := max (p_invulnTimer p) 0.15\<rparr>)"
proof -
  have "execute (d, p) m f = triggerBackstep
      \<lparr>vec_x = - vec_x (normalize (vec_x f) (vec_y f)),
       vec_y = - vec_y (normalize (vec_x f) (vec_y f))\<rparr> (d, p)"
    using execute_starts [of d m f p] assms by auto
  then show ?thesis by (simp only: backstep_fields vec2.simps)
qed

lemma execute_no_direction:
  assumes "vec_x m = 0 \<and> vec_y m = 0 \<and> vec_x f = 0 \<and> vec_y f = 0"
  shows "execute (d, p) m f = (d, p)"
  using assms by (simp add: execute_def Let_def normalize_def)

lemma update_rolling:
  assumes "d_active d" "\<not> d_backstepActive d"
  shows "snd (DodgeSystem_update dt (d, p)) =
     p\<lparr>p_x := p_x p + vec_x (d_direction d) * 500 * dt,
       p_y := p_y p + vec_y (d_direction d) * 500 * dt\<rparr>"
  using assms by (simp add: DodgeSystem_update_def Let_def split_beta DODGE_roll_speed_def)

lemma update_backstepping:
  assumes "\<not> d_active d" "d_backstepActive d"
  shows "snd (DodgeSystem_update dt (d, p)) =
     p\<lparr>p_x := p_x p + vec_x (d_backstepDir d) * 600 * dt,
       p_y := p_y p + vec_y (d_backstepDir d) * 600 * dt\<rparr>"
  using assms by (simp add: DodgeSystem_update_def Let_def split_beta BACK_JUMP_speed_def)

lemma update_at_rest:
  assumes "\<not> d_active d" "\<not> d_backstepActive d"
  shows "snd (DodgeSystem_update dt (d, p)) = p"
  using assms by (simp add: DodgeSystem_update_def Let_def split_beta)

text \<open>
  Claim C6. \<open>execute\<close> changes nothing while the shared cooldown is positive or a roll
  or a backstep is in progress. On a ready system with a direction to go (move input, or
  else a facing), the call starts exactly one motion (blink or roll along the move input,
  else a backstep against the facing) with its invulnerability window, and a second call
  right after it, with any arguments, changes nothing. From the constructor on, whatever
  the calls of \<open>execute\<close> and \<open>update\<close> and the writes to the player, roll-active and
  backstep-active are never both true.

  What a start is, field by field. A roll sets roll-active, the direction to the
  normalised move input, the timer to 0.25, the cooldown to 1.5 and the player's
  invulnerability timer to the larger of its value and 0.25. A blink moves the player
  120 units along the normalised move input, clamped to the world, records the two ring
  effects, sets the cooldown to 2 and the invulnerability timer to the larger of its
  value and 0.15. A backstep sets backstep-active, the direction against the normalised
  facing, the timer to 0.12, the cooldown to 2 and the invulnerability timer to the
  larger of its value and 0.15. Nothing else is written; with neither a move input nor
  a facing the call changes nothing. In \<open>update\<close> the player moves along the roll
  direction at speed 500 while roll-active, along the backstep direction at speed 600
  while backstep-active, and is not written otherwise.
\<close>

theorem C6_dodge_execute:
  "(d_cooldown d > 0 \<or> d_active d \<or> d_backstepActive d \<longrightarrow> execute (d, p) m f = (d, p))
   \<and> (isReady d \<and> (vec_x m \<noteq> 0 \<or> vec_y m \<noteq> 0 \<or> vec_x f \<noteq> 0 \<or> vec_y f \<noteq> 0) \<longrightarrow>
        execute (d, p) m f \<noteq> (d, p)
      \<and> execute (d, p) m f =
          (if vec_x m \<noteq> 0 \<or> vec_y m \<noteq> 0
           then if d_evadeType d = Blink
                then triggerBlink (normalize (vec_x m) (vec_y m)) (d, p)
                else triggerRoll (normalize (vec_x m) (vec_y m)) (d, p)
           else triggerBackstep
                  \<lparr>vec_x = - vec_x (normalize (vec_x f) (vec_y f)),
                   vec_y = - vec_y (normalize (vec_x f) (vec_y f))\<rparr> (d, p))
      \<and> execute (execute (d, p) m f) m' f' = execute (d, p) m f)
   \<and> \<not> (d_active (fst (dodgeRun (DodgeSystem_new et, p) evs))
        \<and> d_backstepActive (fst (dodgeRun (DodgeSystem_new et, p) evs)))
   \<and> (isReady d \<and> (vec_x m \<noteq> 0 \<or> vec_y m \<noteq> 0) \<and> d_evadeType d \<noteq> Blink \<longrightarrow>
        execute (d, p) m f =
          (d\<lparr>d_direction := normalize (vec_x m) (vec_y m), d_active := True,
             d_timer := 0.25, d_cooldown := 1.5, d_maxCooldown := 1.5\<rparr>,
           p\<lparr>p_invulnTimer := max (p_invulnTimer p) 0.25\<rparr>))
   \<and> (isReady d \<and> (vec_x m \<noteq> 0 \<or> vec_y m \<noteq> 0) \<and> d_evadeType d = Blink \<longrightarrow>
        execute (d, p) m f =
          (d\<lparr>d_blinkEffects := d_blinkEffects d @
               [\<lparr>b_x = p_x p, b_y = p_y p, b_timer = 0.35, b_maxTimer = 0.35,
                 b_radius = p_radius p\<rparr>,
                \<lparr>b_x = clamp (p_x p + vec_x (normalize (vec_x m) (vec_y m)) * 120)
                         (p_radius p) (3000 - p_radius p),
                 b_y = clamp (p_y p + vec_y (normalize (vec_x m) (vec_y m)) * 120)
                         (p_radius p) (3000 - p_radius p),
                 b_timer = 0.35, b_maxTimer = 0.35, b_radius = 4\<rparr>],
             d_cooldown := 2, d_maxCooldown := 2\<rparr>,
           p\<lparr>p_x := clamp (p_x p + vec_x (normalize (vec_x m) (vec_y m)) * 120)
                      (p_radius p) (3000 - p_radius p),
             p_y := clamp (p_y p + vec_y (normalize (vec_x m) (vec_y m)) * 120)
                      (p_radius p) (3000 - p_radius p),
             p_invulnTimer := max (p_invulnTimer p) 0.15\<rparr>))
   \<and> (isReady d \<and> (vec_x m = 0 \<and> vec_y m = 0) \<and> (vec_x f \<noteq> 0 \<or> vec_y f \<noteq> 0) \<longrightarrow>
        execute (d, p) m f =
          (d\<lparr>d_backstepDir := \<lparr>vec_x = - vec_x (normalize (vec_x f) (vec_y f)),
                                vec_y = - vec_y (normalize (vec_x f) (vec_y f))\<rparr>,
             d_backstepActive := True, d_backstepTimer := 0.12, d_cooldown := 2,
             d_maxCooldown := 2\<rparr>,
           p\<lparr>p_invulnTimer := max (p_invulnTimer p) 0.15\<rparr>))
   \<and> (vec_x m = 0 \<and> vec_y m = 0 \<and> vec_x f = 0 \<and> vec_y f = 0 \<longrightarrow>
        execute (d, p) m f = (d, p))
   \<and> (d_active d \<and> \<not> d_backstepActive d \<longrightarrow>
        snd (DodgeSystem_update dt (d, p)) =
          p\<lparr>p_x := p_x p + vec_x (d_direction d) * 500 * dt,
            p_y := p_y p + vec_y (d_direction d) * 500 * dt\<rparr>)
   \<and> (\<not> d_active d \<and> d_backstepActive d \<longrightarrow>
        snd (DodgeSystem_update dt (d, p)) =
          p\<lparr>p_x := p_x p + vec_x (d_backstepDir d) * 600 * dt,
            p_y := p_y p + vec_y (d_backstepDir d) * 600 * dt\<rparr>)
   \<and> (\<not> d_active d \<and> \<not> d_backstepActive d \<longrightarrow> snd (DodgeSystem_update dt (d, p)) = p)"
proof (intro conjI impI)
  assume "d_cooldown d > 0 \<or> d_active d \<or> d_backstepActive d"
  then show "execute (d, p) m f = (d, p)" by (rule execute_blocked)
next
  assume a: "isReady d \<and> (vec_x m \<noteq> 0 \<or> vec_y m \<noteq> 0 \<or> vec_x f \<noteq> 0 \<or> vec_y f \<noteq> 0)"
  then show ne: "execute (d, p) m f \<noteq> (d, p)"
    using execute_starts_changes [of d m f p] by blast
  from a show "execute (d, p) m f =
          (if vec_x m \<noteq> 0 \<or> vec_y m \<noteq> 0
           then if d_evadeType d = Blink
                then triggerBlink (normalize (vec_x m) (vec_y m)) (d, p)
                else triggerRoll (normalize (vec_x m) (vec_y m)) (d, p)
           else triggerBackstep
                  \<lparr>vec_x = - vec_x (normalize (vec_x f) (vec_y f)),
                   vec_y = - vec_y (normalize (vec_x f) (vec_y f))\<rparr> (d, p))"
    using execute_starts [of d m f p] by blast
  from ne show "execute (execute (d, p) m f) m' f' = execute (d, p) m f"
    by (rule execute_twice)
next
  have "\<not> (d_active (fst (DodgeSystem_new et, p))
        \<and> d_backstepActive (fst (DodgeSystem_new et, p)))"
    by (simp add: DodgeSystem_new_def)
  then show "\<not> (d_active (fst (dodgeRun (DodgeSystem_new et, p) evs))
        \<and> d_backstepActive (fst (dodgeRun (DodgeSystem_new et, p) evs)))"
    by (rule dodgeRun_exclusive)
next
  assume "isReady d \<and> (vec_x m \<noteq> 0 \<or> vec_y m \<noteq> 0) \<and> d_evadeType d \<noteq> Blink"
  then show "execute (d, p) m f =
          (d\<lparr>d_direction := normalize (vec_x m) (vec_y m), d_active := True,
             d_timer := 0.25, d_cooldown := 1.5, d_maxCooldown := 1.5\<rparr>,
           p\<lparr>p_invulnTimer := max (p_invulnTimer p) 0.25\<rparr>)"
    by (intro execute_roll) simp_all
next
  assume "isReady d \<and> (vec_x m \<noteq> 0 \<or> vec_y m \<noteq> 0) \<and> d_evadeType d = Blink"
  then show "execute (d, p) m f =
          (d\<lparr>d_blinkEffects := d_blinkEffects d @
               [\<lparr>b_x = p_x p, b_y = p_y p, b_timer = 0.35, b_maxTimer = 0.35,
                 b_radius = p_radius p\<rparr>,
                \<lparr>b_x = clamp (p_x p + vec_x (normalize (vec_x m) (vec_y m)) * 120)
                         (p_radius p) (3000 - p_radius p),
                 b_y = clamp (p_y p + vec_y (normalize (vec_x m) (vec_y m)) * 120)
                         (p_radius p) (3000 - p_radius p),
                 b_timer = 0.35, b_maxTimer = 0.35, b_radius = 4\<rparr>],
             d_cooldown := 2, d_maxCooldown := 2\<rparr>,
           p\<lparr>p_x := clamp (p_x p + vec_x (normalize (vec_x m) (vec_y m)) * 120)
                      (p_radius p) (3000 - p_radius p),
             p_y := clamp (p_y p + vec_y (normalize (vec_x m) (vec_y m)) * 120)
                      (p_radius p) (3000 - p_radius p),
             p_invulnTimer := max (p_invulnTimer p) 0.15\<rparr>)"
    by (intro execute_blink) simp_all
next
  assume "isReady d \<and> (vec_x m = 0 \<and> vec_y m = 0) \<and> (vec_x f \<noteq> 0 \<or> vec_y f \<noteq> 0)"
  then show "execute (d, p) m f =
          (d\<lparr>d_backstepDir := \<lparr>vec_x = - vec_x (normalize (vec_x f) (vec_y f)),
                                vec_y = - vec_y (normalize (vec_x f) (vec_y f))\<rparr>,
             d_backstepActive := True, d_backstepTimer := 0.12, d_cooldown := 2,
             d_maxCooldown := 2\<rparr>,
           p\<lparr>p_invulnTimer := max (p_invulnTimer p) 0.15\<rparr>)"
    by (intro execute_backstep) simp_all
next
  assume "vec_x m = 0 \<and> vec_y m = 0 \<and> vec_x f = 0 \<and> vec_y f = 0"
  then show "execute (d, p) m f = (d, p)" by (rule execute_no_direction)
next
  assume "d_active d \<and> \<not> d_backstepActive d"
  then show "snd (DodgeSystem_update dt (d, p)) =
          p\<lparr>p_x := p_x p + vec_x (d_direction d) * 500 * dt,
            p_y := p_y p + vec_y (d_direction d) * 500 * dt\<rparr>"
    by (intro update_rolling) simp_all
next
  assume "\<not> d_active d \<and> d_backstepActive d"
  then show "snd (DodgeSystem_update dt (d, p)) =
          p\<lparr>p_x := p_x p + vec_x (d_backstepDir d) * 600 * dt,
            p_y := p_y p + vec_y (d_backstepDir d) * 600 * dt\<rparr>"
    by (intro update_backstepping) simp_all
next
  assume "\<not> d_active d \<and> \<not> d_backstepActive d"
  then show "snd (DodgeSystem_update dt (d, p)) = p"
    by (intro update_at_rest) simp_all
qed

theorem C6_dodge_execute_witness:
  "execute (execute (DodgeSystem_new Roll, Player_new CHARACTERS_fighter) east east) east east
     = execute (DodgeSystem_new Roll, Player_new CHARACTERS_fighter) east east
   \<and> d_active (fst (execute (DodgeSystem_new Roll, Player_new CHARACTERS_fighter) east east))
   \<and> d_cooldown (fst (execute (DodgeSystem_new Roll, Player_new CHARACTERS_fighter) east east))
       = 1.5
   \<and> p_invulnTimer (snd (execute (DodgeSystem_new Roll, Player_new CHARACTERS_fighter)
       east east)) = 0.25
   \<and> execute ((DodgeSystem_new Roll)\<lparr>d_cooldown := 1\<rparr>, Player_new CHARACTERS_fighter)
       east east
     = ((DodgeSystem_new Roll)\<lparr>d_cooldown := 1\<rparr>, Player_new CHARACTERS_fighter)
   \<and> execute (DodgeSystem_new Roll, Player_new CHARACTERS_fighter) east east
     = ((DodgeSystem_new Roll)\<lparr>d_direction := east, d_active := True, d_timer := 0.25,
          d_cooldown := 1.5, d_maxCooldown := 1.5\<rparr>,
        (Player_new CHARACTERS_fighter)\<lparr>p_invulnTimer := 0.25\<rparr>)
   \<and> snd (DodgeSystem_update 0.016
        (execute (DodgeSystem_new Roll, Player_new CHARACTERS_fighter) east east))
     = (Player_new CHARACTERS_fighter)\<lparr>p_x := 1508, p_invulnTimer := 0.25\<rparr>
   \<and> execute (DodgeSystem_new Blink, mage0) east east
     = ((DodgeSystem_new Blink)\<lparr>d_blinkEffects :=
            [\<lparr>b_x = 1500, b_y = 1500, b_timer = 0.35, b_maxTimer = 0.35, b_radius = 14\<rparr>,
             \<lparr>b_x = 1620, b_y = 1500, b_timer = 0.35, b_maxTimer = 0.35, b_radius = 4\<rparr>],
          d_cooldown := 2, d_maxCooldown := 2\<rparr>,
        mage0\<lparr>p_x := 1620, p_invulnTimer := 0.15\<rparr>)
   \<and> execute (DodgeSystem_new Roll, Player_new CHARACTERS_fighter) zeroVec east
     = ((DodgeSystem_new Roll)\<lparr>d_backstepDir := \<lparr>vec_x = - 1, vec_y = 0\<rparr>,
          d_backstepActive := True, d_backstepTimer := 0.12, d_cooldown := 2,
          d_maxCooldown := 2\<rparr>,
        (Player_new CHARACTERS_fighter)\<lparr>p_invulnTimer := 0.15\<rparr>)"
proof -
  have ready: "isReady (DodgeSystem_new Roll)" "isReady (DodgeSystem_new Blink)"
    by (simp_all add: isReady_def DodgeSystem_new_def)
  have dir: "vec_x east \<noteq> 0" "normalize (vec_x east) (vec_y east) = east"
    "vec_x zeroVec = 0 \<and> vec_y zeroVec = 0"
    by (simp_all add: east_def zeroVec_def normalize_def)
  have roll: "d_evadeType (DodgeSystem_new Roll) \<noteq> Blink"
    "d_evadeType (DodgeSystem_new Blink) = Blink"
    by (simp_all add: DodgeSystem_new_def)
  have cool: "d_cooldown ((DodgeSystem_new Roll)\<lparr>d_cooldown := 1\<rparr>) > 0"
    by simp
  note r = C6_dodge_execute [where d = "DodgeSystem_new Roll"
      and p = "Player_new CHARACTERS_fighter" and m = east and f = east and m' = east
      and f' = east and et = Roll and evs = "[]" and dt = "0.016"]
  have once: "execute (DodgeSystem_new Roll, Player_new CHARACTERS_fighter) east east
        = triggerRoll east (DodgeSystem_new Roll, Player_new CHARACTERS_fighter)"
    and twice: "execute (execute (DodgeSystem_new Roll, Player_new CHARACTERS_fighter)
          east east) east east
        = execute (DodgeSystem_new Roll, Player_new CHARACTERS_fighter) east east"
    using r [THEN conjunct2, THEN conjunct1] ready dir roll
    by metis+
  have blocked: "execute ((DodgeSystem_new Roll)\<lparr>d_cooldown := 1\<rparr>,
        Player_new CHARACTERS_fighter) east east
      = ((DodgeSystem_new Roll)\<lparr>d_cooldown := 1\<rparr>, Player_new CHARACTERS_fighter)"
    using C6_dodge_execute [where d = "(DodgeSystem_new Roll)\<lparr>d_cooldown := 1\<rparr>"
        and p = "Player_new CHARACTERS_fighter" and m = east and f = east,
        THEN conjunct1] cool
    by blast
  have inv: "p_invulnTimer (Player_new CHARACTERS_fighter) = 0" "p_invulnTimer mage0 = 0"
    "p_x (Player_new CHARACTERS_fighter) = 1500" "p_y (Player_new CHARACTERS_fighter) = 1500"
    "p_x mage0 = 1500" "p_y mage0 = 1500" "p_radius mage0 = 14"
    by (simp_all add: Player_new_def mage0_def WORLD_WIDTH_def WORLD_HEIGHT_def
        PLAYER_RADIUS_def)
  have rolled: "execute (DodgeSystem_new Roll, Player_new CHARACTERS_fighter) east east
     = ((DodgeSystem_new Roll)\<lparr>d_direction := east, d_active := True, d_timer := 0.25,
          d_cooldown := 1.5, d_maxCooldown := 1.5\<rparr>,
        (Player_new CHARACTERS_fighter)\<lparr>p_invulnTimer := 0.25\<rparr>)"
    using r [THEN conjunct2, THEN conjunct2, THEN conjunct2, THEN conjunct1] ready dir roll
    by (simp add: inv)
  have moving: "snd (DodgeSystem_update 0.016
        ((DodgeSystem_new Roll)\<lparr>d_direction := east, d_active := True, d_timer := 0.25,
          d_cooldown := 1.5, d_maxCooldown := 1.5\<rparr>,
        (Player_new CHARACTERS_fighter)\<lparr>p_invulnTimer := 0.25\<rparr>))
     = (Player_new CHARACTERS_fighter)\<lparr>p_x := 1508, p_invulnTimer := 0.25\<rparr>"
    using C6_dodge_execute [where d = "(DodgeSystem_new Roll)\<lparr>d_direction := east,
          d_active := True, d_timer := 0.25, d_cooldown := 1.5, d_maxCooldown := 1.5\<rparr>"
        and p = "(Player_new CHARACTERS_fighter)\<lparr>p_invulnTimer := 0.25\<rparr>"
        and dt = "0.016",
        THEN conjunct2, THEN conjunct2, THEN conjunct2, THEN conjunct2, THEN conjunct2,
        THEN conjunct2, THEN conjunct2, THEN conjunct1]
    by (simp add: DodgeSystem_new_def east_def inv Player_new_def WORLD_WIDTH_def)
  have blinked: "execute (DodgeSystem_new Blink, mage0) east east
     = ((DodgeSystem_new Blink)\<lparr>d_blinkEffects :=
            [\<lparr>b_x = 1500, b_y = 1500, b_timer = 0.35, b_maxTimer = 0.35, b_radius = 14\<rparr>,
             \<lparr>b_x = 1620, b_y = 1500, b_timer = 0.35, b_maxTimer = 0.35, b_radius = 4\<rparr>],
          d_cooldown := 2, d_maxCooldown := 2\<rparr>,
        mage0\<lparr>p_x := 1620, p_invulnTimer := 0.15\<rparr>)"
    using C6_dodge_execute [where d = "DodgeSystem_new Blink" and p = mage0 and m = east
        and f = east,
        THEN conjunct2, THEN conjunct2, THEN conjunct2, THEN conjunct2, THEN conjunct1]
      ready dir roll
    by (simp add: inv clamp_def east_def DodgeSystem_new_def)
  have stepped: "execute (DodgeSystem_new Roll, Player_new CHARACTERS_fighter) zeroVec east
     = ((DodgeSystem_new Roll)\<lparr>d_backstepDir := \<lparr>vec_x = - 1, vec_y = 0\<rparr>,
          d_backstepActive := True, d_backstepTimer := 0.12, d_cooldown := 2,
          d_maxCooldown := 2\<rparr>,
        (Player_new CHARACTERS_fighter)\<lparr>p_invulnTimer := 0.15\<rparr>)"
    using C6_dodge_execute [where d = "DodgeSystem_new Roll"
        and p = "Player_new CHARACTERS_fighter" and m = zeroVec and f = east,
        THEN conjunct2, THEN conjunct2, THEN conjunct2, THEN conjunct2, THEN conjunct2,
        THEN conjunct1]
      ready dir
    by (simp add: inv east_def)
  have fields: "d_active (fst (execute (DodgeSystem_new Roll, Player_new CHARACTERS_fighter)
        east east))"
    "d_cooldown (fst (execute (DodgeSystem_new Roll, Player_new CHARACTERS_fighter) east east))
       = 1.5"
    "p_invulnTimer (snd (execute (DodgeSystem_new Roll, Player_new CHARACTERS_fighter)
       east east)) = 0.25"
    unfolding rolled by simp_all
  have moved: "snd (DodgeSystem_update 0.016
        (execute (DodgeSystem_new Roll, Player_new CHARACTERS_fighter) east east))
     = (Player_new CHARACTERS_fighter)\<lparr>p_x := 1508, p_invulnTimer := 0.25\<rparr>"
    unfolding rolled by (rule moving)
  show ?thesis
    using twice fields blocked rolled moved blinked stepped by blast
qed

section \<open>Pit-fall\<close>

lemma airborne_prelude:
  assumes "isAirborne sm"
  shows "groundState mv st (trackSafe world (sm, p)) = sm"
  using assms
  by (auto simp: isAirborne_def groundState_def trackSafe_def isGrounded_def
      split: option.splits)

lemma update_gapFall:
  assumes "isAirborne sm" "sm_gapFalling sm"
  shows "PlayerStateMachine_update dt mv st world now (sm, p) = Some (gapFallStep dt (sm, p))"
  using assms airborne_prelude [OF assms(1), of mv st world p]
  by (simp add: PlayerStateMachine_update_def Let_def isAirborne_def)

lemma gapFallStep_done:
  assumes "sm_gapFallTimer sm - dt \<le> 0"
  shows "gapFallStep dt (sm, p) =
     (sm\<lparr>sm_gapFallTimer := sm_gapFallTimer sm - dt, sm_gapFallAlpha := 1, sm_z := 0,
         sm_vz := 0, sm_gapFalling := False, sm_state := Idle\<rparr>,
      (Player_takeDamage (p\<lparr>p_x := sm_lastSafeX sm, p_y := sm_lastSafeY sm\<rparr>) 15)
        \<lparr>p_invulnTimer := 1, p_z := 0\<rparr>)"
  using assms by (simp add: gapFallStep_def Let_def)

lemma Player_takeDamage_fields:
  "p_x (Player_takeDamage p a) = p_x p"
  "p_y (Player_takeDamage p a) = p_y p"
  "p_hp (Player_takeDamage p a) =
     (if 0 < p_invulnTimer p then p_hp p else max 0 (p_hp p - a * (1 - defense (p_stats p))))"
  by (simp_all add: Player_takeDamage_def Let_def max_def)

lemma pit_cost_capped:
  assumes "0 \<le> defense (p_stats p)" "defense (p_stats p) \<le> 1" "0 \<le> p_hp p"
  shows "p_hp p - 15 \<le> p_hp (Player_takeDamage p 15) \<and> p_hp (Player_takeDamage p 15) \<le> p_hp p"
proof -
  have "0 \<le> 15 * (1 - defense (p_stats p))" "15 * (1 - defense (p_stats p)) \<le> 15"
    using assms by simp_all
  then show ?thesis
    using assms(3) unfolding Player_takeDamage_fields max_def by (simp split: if_splits)
qed

lemma trackSafe_rule:
  "trackSafe world (sm, p) =
     (if world \<noteq> None \<and> isGrounded sm
         \<and> checkGap (the world) (p_x p) (p_y p) (p_radius p) = None
      then sm\<lparr>sm_lastSafeX := p_x p, sm_lastSafeY := p_y p\<rparr> else sm)"
  by (auto simp: trackSafe_def split: option.splits)

lemma groundState_safe:
  "sm_lastSafeX (groundState mv st sm) = sm_lastSafeX sm"
  "sm_lastSafeY (groundState mv st sm) = sm_lastSafeY sm"
  by (simp_all add: groundState_def Let_def)

lemma gapFallStep_safe:
  "sm_lastSafeX (fst (gapFallStep dt (sm, p))) = sm_lastSafeX sm"
  "sm_lastSafeY (fst (gapFallStep dt (sm, p))) = sm_lastSafeY sm"
  "p_radius (snd (gapFallStep dt (sm, p))) = p_radius p"
  by (simp_all add: gapFallStep_def Let_def Player_takeDamage_def)

lemma heightPhysics_safe:
  "sm_lastSafeX (heightPhysics dt sm) = sm_lastSafeX sm"
  "sm_lastSafeY (heightPhysics dt sm) = sm_lastSafeY sm"
  by (simp_all add: heightPhysics_def Let_def)

lemma landing_safe:
  "sm_lastSafeX (fst (landing (sm, p))) = sm_lastSafeX sm"
  "sm_lastSafeY (fst (landing (sm, p))) = sm_lastSafeY sm"
  "p_radius (snd (landing (sm, p))) = p_radius p"
  by (simp_all add: landing_def Let_def Player_takeDamage_def)

lemma hangingStep_safe:
  assumes "hangingStep dt now sm = Some sm'"
  shows "sm_lastSafeX sm' = sm_lastSafeX sm \<and> sm_lastSafeY sm' = sm_lastSafeY sm"
  using assms
  by (auto simp: hangingStep_def Let_def split: if_splits option.splits)

lemma frameTail_safe:
  assumes "frameTail dt now (sm, p) = Some (sm', p')"
  shows "sm_lastSafeX sm' = sm_lastSafeX sm \<and> sm_lastSafeY sm' = sm_lastSafeY sm
     \<and> p_radius p' = p_radius p"
proof -
  from assms obtain sm1 where h: "hangingStep dt now sm = Some sm1"
    and s: "squashAndSync dt (sm1, p) = (sm', p')"
    by (auto simp: frameTail_def split: option.splits)
  from s have "sm_lastSafeX sm' = sm_lastSafeX sm1 \<and> sm_lastSafeY sm' = sm_lastSafeY sm1
     \<and> p_radius p' = p_radius p"
    by (auto simp: squashAndSync_def Let_def split: if_splits)
  with hangingStep_safe [OF h] show ?thesis by simp
qed

lemma update_safe:
  assumes "PlayerStateMachine_update dt mv st world now (sm, p) = Some (sm', p')"
  shows "sm_lastSafeX sm' = sm_lastSafeX (trackSafe world (sm, p))
     \<and> sm_lastSafeY sm' = sm_lastSafeY (trackSafe world (sm, p))
     \<and> p_radius p' = p_radius p"
proof -
  define g where "g = groundState mv st (trackSafe world (sm, p))"
  have gs: "sm_lastSafeX g = sm_lastSafeX (trackSafe world (sm, p))"
    "sm_lastSafeY g = sm_lastSafeY (trackSafe world (sm, p))"
    by (simp_all add: g_def groundState_safe)
  consider (fade) "sm_state g = Jumping \<or> sm_state g = Falling" "sm_gapFalling g"
    | (hang) vine where "sm_state g = Jumping \<or> sm_state g = Falling" "\<not> sm_gapFalling g"
        "vineGrab world (heightPhysics dt g, p) = Some vine"
    | (land) "sm_state g = Jumping \<or> sm_state g = Falling" "\<not> sm_gapFalling g"
        "vineGrab world (heightPhysics dt g, p) = None"
    | (ground) "\<not> (sm_state g = Jumping \<or> sm_state g = Falling)"
    by (cases "vineGrab world (heightPhysics dt g, p)") auto
  then show ?thesis
  proof cases
    case fade
    then have "(sm', p') = gapFallStep dt (g, p)"
      using assms by (simp add: PlayerStateMachine_update_def Let_def g_def)
    then have "sm' = fst (gapFallStep dt (g, p))" "p' = snd (gapFallStep dt (g, p))"
      by (metis fst_conv, metis snd_conv)
    then show ?thesis by (simp add: gapFallStep_safe gs)
  next
    case hang
    then have "sm' = enterHanging vine (heightPhysics dt g)" "p' = p"
      using assms by (auto simp: PlayerStateMachine_update_def Let_def g_def)
    then show ?thesis by (simp add: enterHanging_def heightPhysics_safe gs)
  next
    case land
    then have "frameTail dt now (landing (heightPhysics dt g, p)) = Some (sm', p')"
      using assms by (simp add: PlayerStateMachine_update_def Let_def g_def)
    then have "frameTail dt now (fst (landing (heightPhysics dt g, p)),
        snd (landing (heightPhysics dt g, p))) = Some (sm', p')"
      by simp
    from frameTail_safe [OF this] show ?thesis
      by (simp add: landing_safe heightPhysics_safe gs)
  next
    case ground
    then have "frameTail dt now (g, p) = Some (sm', p')"
      using assms by (simp add: PlayerStateMachine_update_def Let_def g_def)
    from frameTail_safe [OF this] show ?thesis by (simp add: gs)
  qed
qed

lemma update_records:
  assumes "PlayerStateMachine_update dt mv st world now (sm, p) = Some (sm', p')"
  shows "(sm_lastSafeX sm', sm_lastSafeY sm') =
     (if world \<noteq> None \<and> isGrounded sm
         \<and> checkGap (the world) (p_x p) (p_y p) (p_radius p) = None
      then (p_x p, p_y p) else (sm_lastSafeX sm, sm_lastSafeY sm))"
  using update_safe [OF assms] by (auto simp: trackSafe_rule)

lemma methods_safe:
  "sm_lastSafeX (fst (requestJump sm)) = sm_lastSafeX sm"
  "sm_lastSafeY (fst (requestJump sm)) = sm_lastSafeY sm"
  "sm_lastSafeX (dismountVine sm) = sm_lastSafeX sm"
  "sm_lastSafeY (dismountVine sm) = sm_lastSafeY sm"
  "sm_lastSafeX (enterFalling isGapFall sm) = sm_lastSafeX sm"
  "sm_lastSafeY (enterFalling isGapFall sm) = sm_lastSafeY sm"
  "sm_lastSafeX (enterHanging vine sm) = sm_lastSafeX sm"
  "sm_lastSafeY (enterHanging vine sm) = sm_lastSafeY sm"
  by (simp_all add: requestJump_def dismountVine_def enterFalling_def enterHanging_def Let_def)

lemma smStep_safe:
  assumes "smStep (sm, p) ev = Some (sm', p')" "eventIn w r ev" "p_radius p = r"
    and "(sm_lastSafeX sm = x0 \<and> sm_lastSafeY sm = y0)
       \<or> checkGap w (sm_lastSafeX sm) (sm_lastSafeY sm) r = None"
  shows "p_radius p' = r
     \<and> ((sm_lastSafeX sm' = x0 \<and> sm_lastSafeY sm' = y0)
        \<or> checkGap w (sm_lastSafeX sm') (sm_lastSafeY sm') r = None)"
proof (cases ev)
  case (Frame dt mv st world now)
  then have u: "PlayerStateMachine_update dt mv st world now (sm, p) = Some (sm', p')"
    using assms(1) by simp
  have w: "world = None \<or> world = Some w" using assms(2) Frame by simp
  have eq: "sm_lastSafeX sm' = sm_lastSafeX (trackSafe world (sm, p))"
    "sm_lastSafeY sm' = sm_lastSafeY (trackSafe world (sm, p))" "p_radius p' = p_radius p"
    using update_safe [OF u] by simp_all
  show ?thesis
    using w assms(3,4) unfolding eq trackSafe_rule by auto
next
  case JumpRequested
  then show ?thesis using assms by (auto simp: methods_safe)
next
  case VineDismounted
  then show ?thesis using assms by (auto simp: methods_safe)
next
  case (FallEntered isGapFall)
  then show ?thesis using assms by (auto simp: methods_safe)
next
  case (HangEntered vine)
  then show ?thesis using assms by (auto simp: methods_safe)
next
  case (PlayerSet q)
  then show ?thesis using assms by auto
qed

lemma smRun_safe:
  assumes "smRun (sm, p) evs = Some (sm', p')" "\<forall>ev\<in>set evs. eventIn w r ev" "p_radius p = r"
    and "(sm_lastSafeX sm = x0 \<and> sm_lastSafeY sm = y0)
       \<or> checkGap w (sm_lastSafeX sm) (sm_lastSafeY sm) r = None"
  shows "p_radius p' = r
     \<and> ((sm_lastSafeX sm' = x0 \<and> sm_lastSafeY sm' = y0)
        \<or> checkGap w (sm_lastSafeX sm') (sm_lastSafeY sm') r = None)"
  using assms
proof (induction evs arbitrary: sm p)
  case Nil
  then show ?case by simp
next
  case (Cons ev evs)
  from Cons.prems(1) obtain sm1 p1 where s: "smStep (sm, p) ev = Some (sm1, p1)"
    and r: "smRun (sm1, p1) evs = Some (sm', p')"
    by (auto split: option.splits)
  have e: "eventIn w r ev" "\<forall>ev\<in>set evs. eventIn w r ev" using Cons.prems(2) by simp_all
  have st: "p_radius p1 = r"
    "(sm_lastSafeX sm1 = x0 \<and> sm_lastSafeY sm1 = y0)
       \<or> checkGap w (sm_lastSafeX sm1) (sm_lastSafeY sm1) r = None"
    using smStep_safe [OF s e(1) Cons.prems(3,4)] by simp_all
  show ?case by (rule Cons.IH [OF r e(2) st])
qed

lemma run_from_new_safe:
  assumes "smRun (PlayerStateMachine_new p0, p0) evs = Some (sm, p)"
    and "\<forall>ev\<in>set evs. eventIn w (p_radius p0) ev"
  shows "(sm_lastSafeX sm = p_x p0 \<and> sm_lastSafeY sm = p_y p0)
     \<or> checkGap w (sm_lastSafeX sm) (sm_lastSafeY sm) (p_radius p) = None"
proof -
  have "(sm_lastSafeX (PlayerStateMachine_new p0) = p_x p0
        \<and> sm_lastSafeY (PlayerStateMachine_new p0) = p_y p0)
     \<or> checkGap w (sm_lastSafeX (PlayerStateMachine_new p0))
         (sm_lastSafeY (PlayerStateMachine_new p0)) (p_radius p0) = None"
    by (simp add: PlayerStateMachine_new_def)
  from smRun_safe [OF assms(1,2) refl this] show ?thesis by auto
qed

text \<open>
  Claim C7, as the spec states it, at a concrete input: a fighter that was hit 0.1 s ago
  (0.2 s of i-frames left) completes a pit-fall. The state returns to idle, and hp is the
  120 it was: no damage penalty has been applied to it.
\<close>

theorem C7_pitfall_counterexample: "sm_gapFalling (pitFalling hitFighter)
   \<and> sm_gapFallTimer (pitFalling hitFighter) - 0.016 \<le> 0
   \<and> p_hp hitFighter = 120
   \<and> sm_state (fst (the (PlayerStateMachine_update 0.016 zeroVec False None 0
        (pitFalling hitFighter, hitFighter)))) = Idle
   \<and> p_hp (snd (the (PlayerStateMachine_update 0.016 zeroVec False None 0
        (pitFalling hitFighter, hitFighter)))) = 120"
  by (simp add: PlayerStateMachine_update_def pitFalling_def hitFighter_def enterFalling_def
      PlayerStateMachine_new_def isAirborne_def trackSafe_def groundState_def isGrounded_def
      gapFallStep_def Let_def Player_takeDamage_def Player_new_def CHARACTERS_fighter_def)

text \<open>
  Claim C7, amended. When the fade timer of a pit-fall runs out in a frame, the player is
  put at the last recorded safe position and \<open>takeDamage(15)\<close> is invoked on it: hp
  goes down by \<open>15 * (1 - defense)\<close>, clamped at 0, unless the player is invulnerable at
  that moment, when hp stays as it is. Then the invulnerability timer is set to 1.0,
  height and vertical velocity to 0, and the state to idle. With defense in \<open>[0, 1]\<close>
  the pit-fall costs at most 15 hp.

  The recorded position is a non-gap grounded one. A call of \<open>update\<close> records the
  player's position exactly when it is given a world, the state at the call is grounded
  and the position overlaps no gap of that world; otherwise it leaves the record as it
  is, and so do \<open>requestJump\<close>, \<open>dismountVine\<close>, \<open>enterFalling\<close> and \<open>enterHanging\<close>.
  So in every state reached from the constructor in a game played in one world by a
  player of one radius, the record is the position at construction or a position that
  overlaps no gap, and that is where the pit-fall puts the player.
\<close>

theorem C7_pitfall_respawn:
  assumes "isAirborne sm" "sm_gapFalling sm" "sm_gapFallTimer sm - dt \<le> 0"
  shows "PlayerStateMachine_update dt mv st world now (sm, p) =
       Some (sm\<lparr>sm_gapFallTimer := sm_gapFallTimer sm - dt, sm_gapFallAlpha := 1,
                 sm_z := 0, sm_vz := 0, sm_gapFalling := False, sm_state := Idle\<rparr>,
             (Player_takeDamage (p\<lparr>p_x := sm_lastSafeX sm, p_y := sm_lastSafeY sm\<rparr>) 15)
               \<lparr>p_invulnTimer := 1, p_z := 0\<rparr>)
     \<and> p_hp (Player_takeDamage (p\<lparr>p_x := sm_lastSafeX sm, p_y := sm_lastSafeY sm\<rparr>) 15) =
         (if 0 < p_invulnTimer p then p_hp p
          else max 0 (p_hp p - 15 * (1 - defense (p_stats p))))
     \<and> (0 \<le> defense (p_stats p) \<and> defense (p_stats p) \<le> 1 \<and> 0 \<le> p_hp p \<longrightarrow>
          p_hp p - 15
            \<le> p_hp (Player_takeDamage (p\<lparr>p_x := sm_lastSafeX sm, p_y := sm_lastSafeY sm\<rparr>) 15)
        \<and> p_hp (Player_takeDamage (p\<lparr>p_x := sm_lastSafeX sm, p_y := sm_lastSafeY sm\<rparr>) 15)
            \<le> p_hp p)
     \<and> p_x (snd (the (PlayerStateMachine_update dt mv st world now (sm, p)))) = sm_lastSafeX sm
     \<and> p_y (snd (the (PlayerStateMachine_update dt mv st world now (sm, p)))) = sm_lastSafeY sm
     \<and> (smRun (PlayerStateMachine_new p0, p0) evs = Some (sm, p)
          \<and> (\<forall>ev\<in>set evs. eventIn w (p_radius p0) ev) \<longrightarrow>
        (sm_lastSafeX sm = p_x p0 \<and> sm_lastSafeY sm = p_y p0)
        \<or> checkGap w (sm_lastSafeX sm) (sm_lastSafeY sm) (p_radius p) = None)
     \<and> trackSafe world1 (sm1, p1) =
         (if world1 \<noteq> None \<and> isGrounded sm1
             \<and> checkGap (the world1) (p_x p1) (p_y p1) (p_radius p1) = None
          then sm1\<lparr>sm_lastSafeX := p_x p1, sm_lastSafeY := p_y p1\<rparr> else sm1)
     \<and> (PlayerStateMachine_update dt1 mv1 st1 world1 now1 (sm1, p1) = Some (sm2, p2) \<longrightarrow>
          (sm_lastSafeX sm2, sm_lastSafeY sm2) =
            (if world1 \<noteq> None \<and> isGrounded sm1
                \<and> checkGap (the world1) (p_x p1) (p_y p1) (p_radius p1) = None
             then (p_x p1, p_y p1) else (sm_lastSafeX sm1, sm_lastSafeY sm1)))
     \<and> (sm_lastSafeX (fst (requestJump sm1)), sm_lastSafeY (fst (requestJump sm1)))
         = (sm_lastSafeX sm1, sm_lastSafeY sm1)
     \<and> (sm_lastSafeX (dismountVine sm1), sm_lastSafeY (dismountVine sm1))
         = (sm_lastSafeX sm1, sm_lastSafeY sm1)
     \<and> (sm_lastSafeX (enterFalling isGapFall sm1), sm_lastSafeY (enterFalling isGapFall sm1))
         = (sm_lastSafeX sm1, sm_lastSafeY sm1)
     \<and> (sm_lastSafeX (enterHanging vine sm1), sm_lastSafeY (enterHanging vine sm1))
         = (sm_lastSafeX sm1, sm_lastSafeY sm1)"
proof -
  have u: "PlayerStateMachine_update dt mv st world now (sm, p) =
       Some (sm\<lparr>sm_gapFallTimer := sm_gapFallTimer sm - dt, sm_gapFallAlpha := 1,
                 sm_z := 0, sm_vz := 0, sm_gapFalling := False, sm_state := Idle\<rparr>,
             (Player_takeDamage (p\<lparr>p_x := sm_lastSafeX sm, p_y := sm_lastSafeY sm\<rparr>) 15)
               \<lparr>p_invulnTimer := 1, p_z := 0\<rparr>)"
    using update_gapFall [OF assms(1,2), of dt mv st world now p]
      gapFallStep_done [OF assms(3), of p]
    by simp
  have hp: "p_hp (Player_takeDamage (p\<lparr>p_x := sm_lastSafeX sm, p_y := sm_lastSafeY sm\<rparr>) 15) =
         (if 0 < p_invulnTimer p then p_hp p
          else max 0 (p_hp p - 15 * (1 - defense (p_stats p))))"
    by (simp add: Player_takeDamage_fields)
  have cap: "0 \<le> defense (p_stats p) \<and> defense (p_stats p) \<le> 1 \<and> 0 \<le> p_hp p \<longrightarrow>
          p_hp p - 15
            \<le> p_hp (Player_takeDamage (p\<lparr>p_x := sm_lastSafeX sm, p_y := sm_lastSafeY sm\<rparr>) 15)
        \<and> p_hp (Player_takeDamage (p\<lparr>p_x := sm_lastSafeX sm, p_y := sm_lastSafeY sm\<rparr>) 15)
            \<le> p_hp p"
    using pit_cost_capped [of "p\<lparr>p_x := sm_lastSafeX sm, p_y := sm_lastSafeY sm\<rparr>"]
    by simp
  have px: "p_x (snd (the (PlayerStateMachine_update dt mv st world now (sm, p))))
      = sm_lastSafeX sm"
    and py: "p_y (snd (the (PlayerStateMachine_update dt mv st world now (sm, p))))
      = sm_lastSafeY sm"
    unfolding u by (simp_all add: Player_takeDamage_fields)
  have run: "smRun (PlayerStateMachine_new p0, p0) evs = Some (sm, p)
          \<and> (\<forall>ev\<in>set evs. eventIn w (p_radius p0) ev) \<longrightarrow>
        (sm_lastSafeX sm = p_x p0 \<and> sm_lastSafeY sm = p_y p0)
        \<or> checkGap w (sm_lastSafeX sm) (sm_lastSafeY sm) (p_radius p) = None"
    using run_from_new_safe [of p0 evs sm p w] by simp
  have rec: "PlayerStateMachine_update dt1 mv1 st1 world1 now1 (sm1, p1) = Some (sm2, p2) \<longrightarrow>
          (sm_lastSafeX sm2, sm_lastSafeY sm2) =
            (if world1 \<noteq> None \<and> isGrounded sm1
                \<and> checkGap (the world1) (p_x p1) (p_y p1) (p_radius p1) = None
             then (p_x p1, p_y p1) else (sm_lastSafeX sm1, sm_lastSafeY sm1))"
    using update_records [of dt1 mv1 st1 world1 now1 sm1 p1 sm2 p2] by blast
  have m: "(sm_lastSafeX (fst (requestJump sm1)), sm_lastSafeY (fst (requestJump sm1)))
         = (sm_lastSafeX sm1, sm_lastSafeY sm1)"
    "(sm_lastSafeX (dismountVine sm1), sm_lastSafeY (dismountVine sm1))
         = (sm_lastSafeX sm1, sm_lastSafeY sm1)"
    "(sm_lastSafeX (enterFalling isGapFall sm1), sm_lastSafeY (enterFalling isGapFall sm1))
         = (sm_lastSafeX sm1, sm_lastSafeY sm1)"
    "(sm_lastSafeX (enterHanging vine sm1), sm_lastSafeY (enterHanging vine sm1))
         = (sm_lastSafeX sm1, sm_lastSafeY sm1)"
    by (simp_all only: methods_safe)
  show ?thesis
    by (rule conjI [OF u conjI [OF hp conjI [OF cap conjI [OF px conjI [OF py
        conjI [OF run conjI [OF trackSafe_rule conjI [OF rec conjI [OF m(1)
        conjI [OF m(2) conjI [OF m(3) m(4)]]]]]]]]]]])
qed

theorem C7_pitfall_respawn_witness:
  "p_hp (snd (the (PlayerStateMachine_update 0.016 zeroVec False None 0
      (pitFalling (fighterAt 700 900), fighterAt 640 900)))) = 105
   \<and> p_x (snd (the (PlayerStateMachine_update 0.016 zeroVec False None 0
      (pitFalling (fighterAt 700 900), fighterAt 640 900)))) = 700
   \<and> p_invulnTimer (snd (the (PlayerStateMachine_update 0.016 zeroVec False None 0
      (pitFalling (fighterAt 700 900), fighterAt 640 900)))) = 1
   \<and> sm_state (fst (the (PlayerStateMachine_update 0.016 zeroVec False None 0
      (pitFalling (fighterAt 700 900), fighterAt 640 900)))) = Idle
   \<and> smRun (PlayerStateMachine_new (fighterAt 1300 925), fighterAt 1300 925) pitRun
       = Some ((pitFalling (fighterAt 1400 925))
                 \<lparr>sm_gapFallTimer := 0.02, sm_gapFallAlpha := 0.04\<rparr>, fighterAt 1490 925)
   \<and> checkGap northPath 1490 925 14 \<noteq> None
   \<and> p_x (snd (the (PlayerStateMachine_update 0.04 east False (Some northPath) 0
        (the (smRun (PlayerStateMachine_new (fighterAt 1300 925), fighterAt 1300 925)
           pitRun))))) = 1400
   \<and> p_y (snd (the (PlayerStateMachine_update 0.04 east False (Some northPath) 0
        (the (smRun (PlayerStateMachine_new (fighterAt 1300 925), fighterAt 1300 925)
           pitRun))))) = 925
   \<and> checkGap northPath 1400 925 14 = None"
proof -
  have h: "isAirborne (pitFalling (fighterAt 700 900))"
    "sm_gapFalling (pitFalling (fighterAt 700 900))"
    "sm_gapFallTimer (pitFalling (fighterAt 700 900)) - 0.016 \<le> 0"
    by (simp_all add: pitFalling_def enterFalling_def PlayerStateMachine_new_def
        isAirborne_def)
  have s: "sm_lastSafeX (pitFalling (fighterAt 700 900)) = 700"
    by (simp add: pitFalling_def enterFalling_def PlayerStateMachine_new_def isAirborne_def
        fighterAt_def)
  have p: "p_invulnTimer (fighterAt 640 900) = 0" "p_hp (fighterAt 640 900) = 120"
    "defense (p_stats (fighterAt 640 900)) = 0"
    by (simp_all add: fighterAt_def Player_new_def CHARACTERS_fighter_def)
  have first: "p_hp (snd (the (PlayerStateMachine_update 0.016 zeroVec False None 0
      (pitFalling (fighterAt 700 900), fighterAt 640 900)))) = 105
   \<and> p_x (snd (the (PlayerStateMachine_update 0.016 zeroVec False None 0
      (pitFalling (fighterAt 700 900), fighterAt 640 900)))) = 700
   \<and> p_invulnTimer (snd (the (PlayerStateMachine_update 0.016 zeroVec False None 0
      (pitFalling (fighterAt 700 900), fighterAt 640 900)))) = 1
   \<and> sm_state (fst (the (PlayerStateMachine_update 0.016 zeroVec False None 0
      (pitFalling (fighterAt 700 900), fighterAt 640 900)))) = Idle"
    using C7_pitfall_respawn [OF h, where mv = zeroVec and st = False and world = None
        and now = 0 and p = "fighterAt 640 900", THEN conjunct1] s p
    by (simp add: Player_takeDamage_fields)
  have pos: "p_x (fighterAt 1400 925) = 1400" "p_y (fighterAt 1400 925) = 925"
    "p_radius (fighterAt 1400 925) = 14" "p_x (fighterAt 1490 925) = 1490"
    "p_y (fighterAt 1490 925) = 925" "p_radius (fighterAt 1490 925) = 14"
    "p_radius (fighterAt 1300 925) = 14" "p_x (fighterAt 1300 925) = 1300"
    by (simp_all add: fighterAt_def Player_new_def PLAYER_RADIUS_def)
  have gaps: "checkGap northPath 1400 925 14 = None" "checkGap northPath 1490 925 14 \<noteq> None"
    by (simp_all add: checkGap_def northPath_def circleRectOverlap_def Let_def)
  have walk: "PlayerStateMachine_update d east False (Some northPath) 0
      (PlayerStateMachine_new (fighterAt 1300 925), fighterAt 1400 925)
    = Some ((PlayerStateMachine_new (fighterAt 1400 925))\<lparr>sm_state := Moving\<rparr>,
            fighterAt 1400 925)" for d
    by (simp add: PlayerStateMachine_update_def trackSafe_rule isGrounded_def pos gaps
        groundState_def east_def frameTail_def hangingStep_def squashAndSync_def Let_def
        PlayerStateMachine_new_def fighterAt_def Player_new_def PLAYER_RADIUS_def)
  have enter: "enterFalling True ((PlayerStateMachine_new (fighterAt 1400 925))
        \<lparr>sm_state := Moving\<rparr>)
      = (pitFalling (fighterAt 1400 925))\<lparr>sm_gapFallTimer := 0.5, sm_gapFallAlpha := 1\<rparr>"
    by (simp add: enterFalling_def pitFalling_def isAirborne_def PlayerStateMachine_new_def)
  have fade: "PlayerStateMachine_update d mv st world now
        ((pitFalling (fighterAt 1400 925))\<lparr>sm_gapFallTimer := t, sm_gapFallAlpha := a\<rparr>,
         fighterAt 1490 925)
      = Some ((pitFalling (fighterAt 1400 925))
                \<lparr>sm_gapFallTimer := t - d, sm_gapFallAlpha := max 0 ((t - d) / 0.5)\<rparr>,
              fighterAt 1490 925)"
    if "t - d > 0" for t a d :: real and mv st world now
  proof -
    have "isAirborne ((pitFalling (fighterAt 1400 925))
        \<lparr>sm_gapFallTimer := t, sm_gapFallAlpha := a\<rparr>)"
      "sm_gapFalling ((pitFalling (fighterAt 1400 925))
        \<lparr>sm_gapFallTimer := t, sm_gapFallAlpha := a\<rparr>)"
      by (simp_all add: pitFalling_def enterFalling_def PlayerStateMachine_new_def
          isAirborne_def)
    from update_gapFall [OF this] that show ?thesis
      by (simp add: gapFallStep_def Let_def pitFalling_def enterFalling_def
          PlayerStateMachine_new_def isAirborne_def fighterAt_def Player_new_def)
  qed
  have run: "smRun (PlayerStateMachine_new (fighterAt 1300 925), fighterAt 1300 925) pitRun
       = Some ((pitFalling (fighterAt 1400 925))
                 \<lparr>sm_gapFallTimer := 0.02, sm_gapFallAlpha := 0.04\<rparr>, fighterAt 1490 925)"
    unfolding pitRun_def by (simp add: walk enter fade)
  have ok: "\<forall>ev\<in>set pitRun. eventIn northPath (p_radius (fighterAt 1300 925)) ev"
    by (simp add: pitRun_def pos)
  have h2: "isAirborne ((pitFalling (fighterAt 1400 925))
        \<lparr>sm_gapFallTimer := 0.02, sm_gapFallAlpha := 0.04\<rparr>)"
    "sm_gapFalling ((pitFalling (fighterAt 1400 925))
        \<lparr>sm_gapFallTimer := 0.02, sm_gapFallAlpha := 0.04\<rparr>)"
    "sm_gapFallTimer ((pitFalling (fighterAt 1400 925))
        \<lparr>sm_gapFallTimer := 0.02, sm_gapFallAlpha := 0.04\<rparr>) - 0.04 \<le> 0"
    by (simp_all add: pitFalling_def enterFalling_def PlayerStateMachine_new_def
        isAirborne_def)
  have safe: "sm_lastSafeX ((pitFalling (fighterAt 1400 925))
        \<lparr>sm_gapFallTimer := 0.02, sm_gapFallAlpha := 0.04\<rparr>) = 1400"
    "sm_lastSafeY ((pitFalling (fighterAt 1400 925))
        \<lparr>sm_gapFallTimer := 0.02, sm_gapFallAlpha := 0.04\<rparr>) = 925"
    by (simp_all add: pitFalling_def enterFalling_def PlayerStateMachine_new_def
        isAirborne_def pos)
  note c = C7_pitfall_respawn [OF h2, where mv = east and st = False
      and world = "Some northPath" and now = 0 and p = "fighterAt 1490 925"
      and ?p0.0 = "fighterAt 1300 925" and evs = pitRun and w = northPath]
  have resp: "p_x (snd (the (PlayerStateMachine_update 0.04 east False (Some northPath) 0
        (the (smRun (PlayerStateMachine_new (fighterAt 1300 925), fighterAt 1300 925)
           pitRun))))) = 1400"
    "p_y (snd (the (PlayerStateMachine_update 0.04 east False (Some northPath) 0
        (the (smRun (PlayerStateMachine_new (fighterAt 1300 925), fighterAt 1300 925)
           pitRun))))) = 925"
    unfolding run option.sel
    using c [THEN conjunct2, THEN conjunct2, THEN conjunct2, THEN conjunct1]
      c [THEN conjunct2, THEN conjunct2, THEN conjunct2, THEN conjunct2, THEN conjunct1]
    by (simp_all only: safe)
  have safe': "sm_lastSafeX (pitFalling (fighterAt 1400 925)) = 1400"
    "sm_lastSafeY (pitFalling (fighterAt 1400 925)) = 925"
    by (simp_all add: pitFalling_def enterFalling_def PlayerStateMachine_new_def
        isAirborne_def pos)
  have nogap: "checkGap northPath 1400 925 14 = None"
    using c [THEN conjunct2, THEN conjunct2, THEN conjunct2, THEN conjunct2, THEN conjunct2,
        THEN conjunct1] run ok
    by (simp add: safe' pos)
  show ?thesis using first run gaps(2) resp nogap by blast
qed

section \<open>Landing\<close>

lemma heightPhysics_fields:
  "sm_state (heightPhysics dt sm) = sm_state sm"
  "sm_gapFalling (heightPhysics dt sm) = sm_gapFalling sm"
  "sm_vz (heightPhysics dt sm) = max (sm_vz sm - JUMP_gravity * dt) (- 600)"
  "sm_z (heightPhysics dt sm) = sm_z sm + max (sm_vz sm - JUMP_gravity * dt) (- 600) * dt"
  by (simp_all add: heightPhysics_def Let_def)

lemma heightPhysics_peak:
  assumes "sm_z (heightPhysics dt sm) \<le> 0"
  shows "(sm_fallStartZ (heightPhysics dt sm) > 80 \<longleftrightarrow> sm_fallStartZ sm > 80)
       \<and> (sm_fallStartZ sm > 80 \<longrightarrow> sm_fallStartZ (heightPhysics dt sm) = sm_fallStartZ sm)"
  using assms by (auto simp: heightPhysics_def Let_def split: if_splits)

lemma update_landing:
  assumes "isAirborne sm" "\<not> sm_gapFalling sm"
    and "vineGrab world (heightPhysics dt sm, p) = None"
    and "sm_z (heightPhysics dt sm) \<le> 0"
  shows "PlayerStateMachine_update dt mv st world now (sm, p) =
     Some ((heightPhysics dt sm)\<lparr>sm_z := 0, sm_vz := 0,
              sm_landSquash := (if JUMP_landSquashDuration - dt < 0 then 0
                                else JUMP_landSquashDuration - dt),
              sm_fallStartZ := 0, sm_state := Idle\<rparr>,
           (if sm_fallStartZ sm > 80
            then Player_takeDamage p ((sm_fallStartZ sm - 80) * 0.3) else p)\<lparr>p_z := 0\<rparr>)"
proof -
  have land: "landing (heightPhysics dt sm, p) =
      ((heightPhysics dt sm)\<lparr>sm_z := 0, sm_vz := 0, sm_landSquash := JUMP_landSquashDuration,
          sm_fallStartZ := 0, sm_state := Idle\<rparr>,
       (if sm_fallStartZ sm > 80
        then Player_takeDamage p ((sm_fallStartZ sm - 80) * 0.3) else p))"
    using assms(4) heightPhysics_peak [OF assms(4)]
    by (auto simp: landing_def Let_def)
  have "PlayerStateMachine_update dt mv st world now (sm, p)
      = frameTail dt now (landing (heightPhysics dt sm, p))"
    using assms(1-3) airborne_prelude [OF assms(1), of mv st world p]
    by (simp add: PlayerStateMachine_update_def Let_def isAirborne_def)
  then show ?thesis
    unfolding land
    by (simp add: frameTail_def hangingStep_def squashAndSync_def Let_def
        JUMP_landSquashDuration_def)
qed

lemma vineGrab_on_ground:
  assumes "\<forall>obs\<in>set w. o_type obs = Vine \<longrightarrow> 0 < o_grabHeight obs" "sm_z sm \<le> 0"
  shows "vineGrab (Some w) (sm, p) = None"
proof -
  have "checkVineGrab w (p_x p) (p_y p) (p_radius p) (sm_z sm) = None"
    unfolding checkVineGrab_def find_None_iff using assms by fastforce
  then show ?thesis by (simp add: vineGrab_def)
qed

lemma landing_calls:
  "p_dmgCalls ((if c then Player_takeDamage p a else p)\<lparr>p_z := z\<rparr>)
     = p_dmgCalls p + (if c then 1 else 0)"
  by (simp add: Player_takeDamage_calls)

text \<open>
  Claim C8. When the height of a jumping or falling player comes to 0 or below in a
  frame (outside a pit-fall fade, and with no vine grabbed in that frame, the two
  branches that end the call before the landing block), height and vertical velocity
  are set to 0 and the state to idle. With a tracked peak (\<open>fallStartZ\<close>) of at most
  80 the player's \<open>takeDamage\<close> is not invoked and the player is as it was; with a
  peak above 80 it is invoked exactly once, with the damage \<open>(peak - 80) * 0.3\<close>,
  which is \<open>100 * 0.3\<close> for a peak of 180. What the invocation does to hp is the rule
  of \<open>takeDamage\<close>. A world whose vines all have a positive grab height, as the vine
  of world.js has, grabs no vine at height 0 or below.
\<close>

theorem C8_landing:
  assumes "isAirborne sm" "\<not> sm_gapFalling sm"
    and "vineGrab world (heightPhysics dt sm, p) = None"
    and "sm_z (heightPhysics dt sm) \<le> 0"
  shows "PlayerStateMachine_update dt mv st world now (sm, p) =
       Some ((heightPhysics dt sm)\<lparr>sm_z := 0, sm_vz := 0,
                sm_landSquash := (if JUMP_landSquashDuration - dt < 0 then 0
                                  else JUMP_landSquashDuration - dt),
                sm_fallStartZ := 0, sm_state := Idle\<rparr>,
             (if sm_fallStartZ sm > 80
              then Player_takeDamage p ((sm_fallStartZ sm - 80) * 0.3) else p)\<lparr>p_z := 0\<rparr>)
     \<and> p_hp (if sm_fallStartZ sm > 80
             then Player_takeDamage p ((sm_fallStartZ sm - 80) * 0.3) else p) =
         (if sm_fallStartZ sm > 80 \<and> \<not> 0 < p_invulnTimer p
          then max 0 (p_hp p - (sm_fallStartZ sm - 80) * 0.3 * (1 - defense (p_stats p)))
          else p_hp p)
     \<and> p_dmgCalls (snd (the (PlayerStateMachine_update dt mv st world now (sm, p))))
         = p_dmgCalls p + (if sm_fallStartZ sm > 80 then 1 else 0)
     \<and> ((\<forall>obs\<in>set w. o_type obs = Vine \<longrightarrow> 0 < o_grabHeight obs) \<longrightarrow>
          vineGrab (Some w) (heightPhysics dt sm, p) = None)"
proof (intro conjI impI)
  show eq: "PlayerStateMachine_update dt mv st world now (sm, p) =
       Some ((heightPhysics dt sm)\<lparr>sm_z := 0, sm_vz := 0,
                sm_landSquash := (if JUMP_landSquashDuration - dt < 0 then 0
                                  else JUMP_landSquashDuration - dt),
                sm_fallStartZ := 0, sm_state := Idle\<rparr>,
             (if sm_fallStartZ sm > 80
              then Player_takeDamage p ((sm_fallStartZ sm - 80) * 0.3) else p)\<lparr>p_z := 0\<rparr>)"
    by (rule update_landing [OF assms])
  show "p_hp (if sm_fallStartZ sm > 80
             then Player_takeDamage p ((sm_fallStartZ sm - 80) * 0.3) else p) =
         (if sm_fallStartZ sm > 80 \<and> \<not> 0 < p_invulnTimer p
          then max 0 (p_hp p - (sm_fallStartZ sm - 80) * 0.3 * (1 - defense (p_stats p)))
          else p_hp p)"
    by (simp add: Player_takeDamage_fields)
  show "p_dmgCalls (snd (the (PlayerStateMachine_update dt mv st world now (sm, p))))
         = p_dmgCalls p + (if sm_fallStartZ sm > 80 then 1 else 0)"
    unfolding eq option.sel snd_conv by (rule landing_calls)
next
  assume "\<forall>obs\<in>set w. o_type obs = Vine \<longrightarrow> 0 < o_grabHeight obs"
  then show "vineGrab (Some w) (heightPhysics dt sm, p) = None"
    using assms(4) by (rule vineGrab_on_ground)
qed

theorem C8_landing_witness:
  "p_hp (snd (the (PlayerStateMachine_update 0.016 zeroVec False None 0
      (highFall (fighterAt 640 900), fighterAt 640 900)))) = 90
   \<and> sm_state (fst (the (PlayerStateMachine_update 0.016 zeroVec False None 0
      (highFall (fighterAt 640 900), fighterAt 640 900)))) = Idle
   \<and> sm_z (fst (the (PlayerStateMachine_update 0.016 zeroVec False None 0
      (highFall (fighterAt 640 900), fighterAt 640 900)))) = 0
   \<and> p_hp (snd (the (PlayerStateMachine_update 0.016 zeroVec False None 0
      ((highFall (fighterAt 640 900))\<lparr>sm_fallStartZ := 80\<rparr>, fighterAt 640 900)))) = 120
   \<and> snd (the (PlayerStateMachine_update 0.016 zeroVec False None 0
      ((highFall (fighterAt 640 900))\<lparr>sm_fallStartZ := 80\<rparr>, fighterAt 640 900)))
      = fighterAt 640 900
   \<and> snd (the (PlayerStateMachine_update 0.016 zeroVec False (Some northPath) 0
      (highFall hitFighter, hitFighter)))
      = (Player_takeDamage hitFighter (100 * 0.3))\<lparr>p_z := 0\<rparr>
   \<and> p_dmgCalls (snd (the (PlayerStateMachine_update 0.016 zeroVec False (Some northPath) 0
      (highFall hitFighter, hitFighter)))) = 1"
proof -
  have h: "isAirborne (highFall (fighterAt 640 900))"
    "\<not> sm_gapFalling (highFall (fighterAt 640 900))"
    "vineGrab None (heightPhysics 0.016 (highFall (fighterAt 640 900)), fighterAt 640 900)
       = None"
    "sm_z (heightPhysics 0.016 (highFall (fighterAt 640 900))) \<le> 0"
    by (simp_all add: highFall_def PlayerStateMachine_new_def isAirborne_def vineGrab_def
        heightPhysics_fields JUMP_gravity_def)
  have h': "isAirborne ((highFall (fighterAt 640 900))\<lparr>sm_fallStartZ := 80\<rparr>)"
    "\<not> sm_gapFalling ((highFall (fighterAt 640 900))\<lparr>sm_fallStartZ := 80\<rparr>)"
    "vineGrab None (heightPhysics 0.016 ((highFall (fighterAt 640 900))\<lparr>sm_fallStartZ := 80\<rparr>),
       fighterAt 640 900) = None"
    "sm_z (heightPhysics 0.016 ((highFall (fighterAt 640 900))\<lparr>sm_fallStartZ := 80\<rparr>)) \<le> 0"
    by (simp_all add: highFall_def PlayerStateMachine_new_def isAirborne_def vineGrab_def
        heightPhysics_fields JUMP_gravity_def)
  have g: "isAirborne (highFall hitFighter)" "\<not> sm_gapFalling (highFall hitFighter)"
    "sm_z (heightPhysics 0.016 (highFall hitFighter)) \<le> 0"
    by (simp_all add: highFall_def PlayerStateMachine_new_def isAirborne_def
        heightPhysics_fields JUMP_gravity_def)
  have vines: "\<forall>obs\<in>set northPath. o_type obs = Vine \<longrightarrow> 0 < o_grabHeight obs"
    by (simp add: northPath_def)
  have nograb: "vineGrab (Some northPath) (heightPhysics 0.016 (highFall hitFighter), hitFighter)
      = None"
    using C8_landing [where world = None and w = northPath and p = hitFighter
        and sm = "highFall hitFighter" and dt = "0.016", THEN conjunct2, THEN conjunct2,
        THEN conjunct2] g vines
    by (simp add: vineGrab_def)
  have s: "sm_fallStartZ (highFall (fighterAt 640 900)) = 180"
    "sm_fallStartZ (highFall hitFighter) = 180"
    by (simp_all add: highFall_def)
  have p: "p_invulnTimer (fighterAt 640 900) = 0" "p_hp (fighterAt 640 900) = 120"
    "defense (p_stats (fighterAt 640 900)) = 0" "p_z (fighterAt 640 900) = 0"
    "p_dmgCalls hitFighter = 0"
    by (simp_all add: fighterAt_def hitFighter_def Player_new_def CHARACTERS_fighter_def)
  note a = C8_landing [where w = "[]", OF h, of zeroVec False 0]
  note b = C8_landing [where w = "[]", OF h', of zeroVec False 0]
  note c = C8_landing [where w = "[]", OF g(1,2) nograb g(3), of zeroVec False 0]
  have a1: "p_hp (snd (the (PlayerStateMachine_update 0.016 zeroVec False None 0
      (highFall (fighterAt 640 900), fighterAt 640 900)))) = 90"
    "sm_state (fst (the (PlayerStateMachine_update 0.016 zeroVec False None 0
      (highFall (fighterAt 640 900), fighterAt 640 900)))) = Idle"
    "sm_z (fst (the (PlayerStateMachine_update 0.016 zeroVec False None 0
      (highFall (fighterAt 640 900), fighterAt 640 900)))) = 0"
    using a [THEN conjunct1] s p by (simp_all add: Player_takeDamage_fields)
  have b1: "p_hp (snd (the (PlayerStateMachine_update 0.016 zeroVec False None 0
      ((highFall (fighterAt 640 900))\<lparr>sm_fallStartZ := 80\<rparr>, fighterAt 640 900)))) = 120"
    "snd (the (PlayerStateMachine_update 0.016 zeroVec False None 0
      ((highFall (fighterAt 640 900))\<lparr>sm_fallStartZ := 80\<rparr>, fighterAt 640 900)))
      = fighterAt 640 900"
    using b [THEN conjunct1] p by simp_all
  have c1: "snd (the (PlayerStateMachine_update 0.016 zeroVec False (Some northPath) 0
      (highFall hitFighter, hitFighter)))
      = (Player_takeDamage hitFighter (100 * 0.3))\<lparr>p_z := 0\<rparr>"
    using c [THEN conjunct1] s by simp
  have c2: "p_dmgCalls (snd (the (PlayerStateMachine_update 0.016 zeroVec False
      (Some northPath) 0 (highFall hitFighter, hitFighter)))) = 1"
    using c [THEN conjunct2, THEN conjunct2, THEN conjunct1] s p by simp
  show ?thesis using a1 b1 c1 c2 by blast
qed

section \<open>Mana costs\<close>

lemma spendMp_mp: "cost \<le> p_mp p \<Longrightarrow> fst (spendMp p cost) = p\<lparr>p_mp := p_mp p - cost\<rparr>"
  by (simp add: spendMp_def)

lemma castWind_cases:
  "(p_mp p < wind_mpCost \<longrightarrow> castWind (fa, p, eng) = (fa, p, eng))
   \<and> (wind_mpCost \<le> p_mp p \<longrightarrow>
        (\<exists>f. castWind (fa, p, eng) = (fa, p\<lparr>p_mp := p_mp p - wind_mpCost\<rparr>, addEffect f eng)))"
  by (auto simp: castWind_def canSpendMp_def spendMp_mp Let_def)

lemma castFrostRing_cases:
  "(p_mp p < frostRing_mpCost \<or> 0 < ma_frostRingCooldown ma \<longrightarrow>
        castFrostRing (ma, p, eng) = (ma, p, eng))
   \<and> (frostRing_mpCost \<le> p_mp p \<and> \<not> 0 < ma_frostRingCooldown ma \<longrightarrow>
        (\<exists>f. castFrostRing (ma, p, eng) =
           (ma\<lparr>ma_frostRingCooldown := frostRing_cooldown\<rparr>,
            p\<lparr>p_mp := p_mp p - frostRing_mpCost\<rparr>, addEffect f eng)))"
  by (auto simp: castFrostRing_def canSpendMp_def spendMp_mp Let_def)

lemma castMeteor_cases:
  "(p_mp p < meteor_mpCost \<or> 0 < ma_meteorCooldown ma \<longrightarrow>
        castMeteor (ma, p, eng) = (ma, p, eng))
   \<and> (meteor_mpCost \<le> p_mp p \<and> \<not> 0 < ma_meteorCooldown ma \<longrightarrow>
        (\<exists>f. castMeteor (ma, p, eng) =
           (ma\<lparr>ma_meteorCast := True, ma_meteorCooldown := meteor_cooldown\<rparr>,
            p\<lparr>p_mp := p_mp p - meteor_mpCost\<rparr>, addEffect f eng)))"
  by (auto simp: castMeteor_def canSpendMp_def spendMp_mp Let_def)

lemma castMinorHeal_cases:
  "(p_mp p < minorHeal_mpCost \<or> 0 < ca_healCooldown ca \<longrightarrow>
        castMinorHeal (ca, p, eng) = (ca, p, eng))
   \<and> (minorHeal_mpCost \<le> p_mp p \<and> \<not> 0 < ca_healCooldown ca \<longrightarrow>
        castMinorHeal (ca, p, eng) =
           (ca\<lparr>ca_healCooldown := minorHeal_cooldown\<rparr>,
            p\<lparr>p_mp := p_mp p - minorHeal_mpCost,
              p_hp := min (p_hp p + maxHp (p_stats p) * minorHeal_healPercent)
                        (maxHp (p_stats p))\<rparr>, eng))"
  by (auto simp: castMinorHeal_def canSpendMp_def spendMp_mp Let_def)

lemma casts_mp_nonneg:
  "0 \<le> p_mp p \<Longrightarrow> 0 \<le> p_mp (fst (snd (castWind (fa, p, eng))))"
  "0 \<le> p_mp p \<Longrightarrow> 0 \<le> p_mp (fst (snd (castFrostRing (ma, p, eng))))"
  "0 \<le> p_mp p \<Longrightarrow> 0 \<le> p_mp (fst (snd (castMeteor (ma, p, eng))))"
  "0 \<le> p_mp p \<Longrightarrow> 0 \<le> p_mp (fst (snd (castMinorHeal (ca, p, eng))))"
  by (simp_all add: castWind_def castFrostRing_def castMeteor_def castMinorHeal_def
      canSpendMp_def spendMp_def Let_def)

text \<open>
  Claim C2, as the spec states it, at a concrete input: a mage with full mana (5) casts
  the frost ring (cost 1) twice in a row. The second cast finds mp = 4, which is at least
  the cost, and deducts nothing: the ring's cooldown is running. One effect has been
  submitted, not two.
\<close>

theorem C2_mana_counterexample:
  "frostRing_mpCost = 1
   \<and> p_mp (fst (snd (castFrostRing
        (MageAbilities_new, Player_new CHARACTERS_mage, EffectEngine_new)))) = 4
   \<and> p_mp (fst (snd (castFrostRing (castFrostRing
        (MageAbilities_new, Player_new CHARACTERS_mage, EffectEngine_new))))) = 4
   \<and> length (en_effects (snd (snd (castFrostRing (castFrostRing
        (MageAbilities_new, Player_new CHARACTERS_mage, EffectEngine_new)))))) = 1"
  by (simp add: castFrostRing_def MageAbilities_new_def Player_new_def canSpendMp_def
      spendMp_def Let_def frostRing_mpCost_def frostRing_cooldown_def MP_CONFIG_maxMp_def
      addEffect_def EffectEngine_new_def)

text \<open>
  Claim C2, amended. Each of the four casts with a mana cost \<open>N\<close> leaves ability set,
  player and engine as they are when mp is below \<open>N\<close> or the ability's own cooldown is
  running (frost ring, meteor, minor heal; the wind spell has no cooldown). When mp is
  at least \<open>N\<close> and no cooldown is running, the cast deducts exactly \<open>N\<close> and submits
  one effect (the heal raises hp instead). Hence mp that is not negative stays so.
\<close>

theorem C2_mana_atomicity:
  "((p_mp p < wind_mpCost \<longrightarrow> castWind (fa, p, eng) = (fa, p, eng))
    \<and> (wind_mpCost \<le> p_mp p \<longrightarrow>
         (\<exists>f. castWind (fa, p, eng) =
            (fa, p\<lparr>p_mp := p_mp p - wind_mpCost\<rparr>, addEffect f eng))))
   \<and> ((p_mp p < frostRing_mpCost \<or> 0 < ma_frostRingCooldown ma \<longrightarrow>
         castFrostRing (ma, p, eng) = (ma, p, eng))
    \<and> (frostRing_mpCost \<le> p_mp p \<and> \<not> 0 < ma_frostRingCooldown ma \<longrightarrow>
         (\<exists>f. castFrostRing (ma, p, eng) =
            (ma\<lparr>ma_frostRingCooldown := frostRing_cooldown\<rparr>,
             p\<lparr>p_mp := p_mp p - frostRing_mpCost\<rparr>, addEffect f eng))))
   \<and> ((p_mp p < meteor_mpCost \<or> 0 < ma_meteorCooldown ma \<longrightarrow>
         castMeteor (ma, p, eng) = (ma, p, eng))
    \<and> (meteor_mpCost \<le> p_mp p \<and> \<not> 0 < ma_meteorCooldown ma \<longrightarrow>
         (\<exists>f. castMeteor (ma, p, eng) =
            (ma\<lparr>ma_meteorCast := True, ma_meteorCooldown := meteor_cooldown\<rparr>,
             p\<lparr>p_mp := p_mp p - meteor_mpCost\<rparr>, addEffect f eng))))
   \<and> ((p_mp p < minorHeal_mpCost \<or> 0 < ca_healCooldown ca \<longrightarrow>
         castMinorHeal (ca, p, eng) = (ca, p, eng))
    \<and> (minorHeal_mpCost \<le> p_mp p \<and> \<not> 0 < ca_healCooldown ca \<longrightarrow>
         castMinorHeal (ca, p, eng) =
            (ca\<lparr>ca_healCooldown := minorHeal_cooldown\<rparr>,
             p\<lparr>p_mp := p_mp p - minorHeal_mpCost,
               p_hp := min (p_hp p + maxHp (p_stats p) * minorHeal_healPercent)
                         (maxHp (p_stats p))\<rparr>, eng)))
   \<and> (0 \<le> p_mp p \<longrightarrow>
         0 \<le> p_mp (fst (snd (castWind (fa, p, eng))))
       \<and> 0 \<le> p_mp (fst (snd (castFrostRing (ma, p, eng))))
       \<and> 0 \<le> p_mp (fst (snd (castMeteor (ma, p, eng))))
       \<and> 0 \<le> p_mp (fst (snd (castMinorHeal (ca, p, eng)))))"
proof -
  have e: "0 \<le> p_mp p \<longrightarrow>
         0 \<le> p_mp (fst (snd (castWind (fa, p, eng))))
       \<and> 0 \<le> p_mp (fst (snd (castFrostRing (ma, p, eng))))
       \<and> 0 \<le> p_mp (fst (snd (castMeteor (ma, p, eng))))
       \<and> 0 \<le> p_mp (fst (snd (castMinorHeal (ca, p, eng))))"
    by (intro impI conjI casts_mp_nonneg)
  show ?thesis
    by (rule conjI [OF castWind_cases conjI [OF castFrostRing_cases
          conjI [OF castMeteor_cases conjI [OF castMinorHeal_cases e]]]])
qed

theorem C2_mana_atomicity_witness:
  "p_mp (fst (snd (castWind (FighterAbilities_new, Player_new CHARACTERS_fighter,
       EffectEngine_new)))) = 4
   \<and> p_mp (fst (snd (castMeteor (MageAbilities_new, Player_new CHARACTERS_mage,
       EffectEngine_new)))) = 3
   \<and> castMeteor (MageAbilities_new, (Player_new CHARACTERS_mage)\<lparr>p_mp := 1\<rparr>,
       EffectEngine_new)
      = (MageAbilities_new, (Player_new CHARACTERS_mage)\<lparr>p_mp := 1\<rparr>, EffectEngine_new)
   \<and> castFrostRing (MageAbilities_new\<lparr>ma_frostRingCooldown := 5\<rparr>,
       Player_new CHARACTERS_mage, EffectEngine_new)
      = (MageAbilities_new\<lparr>ma_frostRingCooldown := 5\<rparr>, Player_new CHARACTERS_mage,
         EffectEngine_new)
   \<and> p_mp (fst (snd (castMinorHeal (CelestialAbilities_new,
       Player_new CHARACTERS_celestial, EffectEngine_new)))) = 3"
proof -
  have mp: "p_mp (Player_new CHARACTERS_fighter) = 5" "p_mp (Player_new CHARACTERS_mage) = 5"
    "p_mp (Player_new CHARACTERS_celestial) = 5"
    by (simp_all add: Player_new_def MP_CONFIG_maxMp_def)
  have cost: "wind_mpCost = 1" "meteor_mpCost = 2" "frostRing_mpCost = 1" "minorHeal_mpCost = 2"
    by (simp_all add: wind_mpCost_def meteor_mpCost_def frostRing_mpCost_def
        minorHeal_mpCost_def)
  have cd: "\<not> 0 < ma_meteorCooldown MageAbilities_new"
    "\<not> 0 < ca_healCooldown CelestialAbilities_new"
    "0 < ma_frostRingCooldown (MageAbilities_new\<lparr>ma_frostRingCooldown := 5\<rparr>)"
    by (simp_all add: MageAbilities_new_def CelestialAbilities_new_def)
  note fighter = C2_mana_atomicity [of "Player_new CHARACTERS_fighter" FighterAbilities_new
      EffectEngine_new MageAbilities_new CelestialAbilities_new]
  note mage = C2_mana_atomicity [of "Player_new CHARACTERS_mage" FighterAbilities_new
      EffectEngine_new MageAbilities_new CelestialAbilities_new]
  note cooling = C2_mana_atomicity [of "Player_new CHARACTERS_mage" FighterAbilities_new
      EffectEngine_new "MageAbilities_new\<lparr>ma_frostRingCooldown := 5\<rparr>"
      CelestialAbilities_new]
  note drained = C2_mana_atomicity [of "(Player_new CHARACTERS_mage)\<lparr>p_mp := 1\<rparr>"
      FighterAbilities_new EffectEngine_new MageAbilities_new CelestialAbilities_new]
  note celestial = C2_mana_atomicity [of "Player_new CHARACTERS_celestial"
      FighterAbilities_new EffectEngine_new MageAbilities_new CelestialAbilities_new]
  have w: "p_mp (fst (snd (castWind (FighterAbilities_new, Player_new CHARACTERS_fighter,
       EffectEngine_new)))) = 4"
    using fighter [THEN conjunct1, THEN conjunct2] mp(1) cost(1) by auto
  have m: "p_mp (fst (snd (castMeteor (MageAbilities_new, Player_new CHARACTERS_mage,
       EffectEngine_new)))) = 3"
    using mage [THEN conjunct2, THEN conjunct2, THEN conjunct1, THEN conjunct2]
      mp(2) cost(2) cd(1) by auto
  have f: "castFrostRing (MageAbilities_new\<lparr>ma_frostRingCooldown := 5\<rparr>,
       Player_new CHARACTERS_mage, EffectEngine_new)
      = (MageAbilities_new\<lparr>ma_frostRingCooldown := 5\<rparr>, Player_new CHARACTERS_mage,
         EffectEngine_new)"
    using cooling [THEN conjunct2, THEN conjunct1, THEN conjunct1] cd(3) by blast
  have m1: "castMeteor (MageAbilities_new, (Player_new CHARACTERS_mage)\<lparr>p_mp := 1\<rparr>,
       EffectEngine_new)
      = (MageAbilities_new, (Player_new CHARACTERS_mage)\<lparr>p_mp := 1\<rparr>, EffectEngine_new)"
    using drained [THEN conjunct2, THEN conjunct2, THEN conjunct1, THEN conjunct1] cost(2)
    by simp
  have h: "p_mp (fst (snd (castMinorHeal (CelestialAbilities_new,
       Player_new CHARACTERS_celestial, EffectEngine_new)))) = 3"
    using celestial [THEN conjunct2, THEN conjunct2, THEN conjunct2, THEN conjunct1,
        THEN conjunct2] mp(3) cost(4) cd(2) by auto
  show ?thesis using w m m1 f h by blast
qed

section \<open>The frame of the effect engine\<close>

lemma update_drops_dying:
  assumes "\<not> effect_alive (advanceEffect dt pl f)"
  shows "EffectEngine_update dt pl (eng\<lparr>en_effects := fs @ f # gs\<rparr>) enemies
       = EffectEngine_update dt pl (eng\<lparr>en_effects := fs @ gs\<rparr>) enemies"
  using assms by (simp add: EffectEngine_update_def Let_def)

lemma update_all_dying:
  assumes "\<forall>f\<in>set (en_effects eng). \<not> effect_alive (advanceEffect dt pl f)"
  shows "EffectEngine_update dt pl eng enemies = (eng\<lparr>en_effects := []\<rparr>, enemies)"
proof -
  have "filter effect_alive (map (advanceEffect dt pl) (en_effects eng)) = []"
    using assms by (simp add: filter_empty_conv)
  then show ?thesis by (simp add: EffectEngine_update_def Let_def)
qed

lemma update_all_surviving:
  assumes "\<forall>f\<in>set (en_effects eng). effect_alive (advanceEffect dt pl f)"
  shows "Advance_spec dt pl eng enemies =
     (fst (EffectEngine_update dt pl eng enemies)
        \<lparr>en_effects := filter effect_alive
            (en_effects (fst (EffectEngine_update dt pl eng enemies)))\<rparr>,
      snd (EffectEngine_update dt pl eng enemies))"
proof -
  have "filter effect_alive (map (advanceEffect dt pl) (en_effects eng))
      = map (advanceEffect dt pl) (en_effects eng)"
    using assms by (simp add: filter_id_conv)
  then show ?thesis
    by (simp add: EffectEngine_update_def Advance_spec_def split_beta Let_def)
qed

lemma update_shape:
  "EffectEngine_update dt pl eng enemies =
     (eng\<lparr>en_effects :=
         fst (checkHits (filter effect_alive (map (advanceEffect dt pl) (en_effects eng)))
               enemies)\<rparr>,
      snd (checkHits (filter effect_alive (map (advanceEffect dt pl) (en_effects eng)))
            enemies))"
  by (simp add: EffectEngine_update_def split_beta Let_def)

lemma distance_self: "distance x y x y = 0"
  by (simp add: distance_def)

lemma checkHits_length: "length (fst (checkHits fs es)) = length fs"
  by (induction fs arbitrary: es) (simp_all add: split_beta)

lemma update_keeps_checked:
  "length (en_effects (fst (EffectEngine_update dt pl eng enemies)))
     = length (filter effect_alive (map (advanceEffect dt pl) (en_effects eng)))"
  by (simp add: EffectEngine_update_def Let_def split_beta checkHits_length)

lemma dead_stays_dead:
  assumes "\<not> effect_alive h"
  shows "\<not> effect_alive (advanceEffect dt pl h)"
  using assms
  by (cases h)
     (simp_all add: advanceEffect_def Projectile_update_def SwingEffect_update_def
        NovaEffect_update_def SpinAttackState_update_def WindPushEffect_update_def
        FrostRingEffect_update_def LightningArcEffect_update_def MeteorEffect_update_def
        PulseEffect_update_def Let_def)

lemma advance_of_alive:
  "filter effect_alive (map (advanceEffect dt pl) (filter effect_alive fs))
     = filter effect_alive (map (advanceEffect dt pl) fs)"
  by (induction fs) (simp_all add: dead_stays_dead)

lemma update_skips_dead:
  "EffectEngine_update dt pl eng enemies
     = EffectEngine_update dt pl (eng\<lparr>en_effects := filter effect_alive (en_effects eng)\<rparr>)
         enemies"
  by (simp add: EffectEngine_update_def advance_of_alive)

lemma projectile_hit_frame:
  assumes "pr_alive (Projectile_update dt q)" "\<not> e_dead e" "e_id e \<notin> pr_hitEnemies q"
    and "distance (pr_x q + pr_vx q * dt) (pr_y q + pr_vy q * dt) (e_x e) (e_y e)
           < pr_radius q + e_radius e"
  shows "EffectEngine_update dt pl (eng\<lparr>en_effects := [Projectile q]\<rparr>) (e # es)
     = (eng\<lparr>en_effects := [Projectile ((Projectile_update dt q)
            \<lparr>pr_hitEnemies := insert (e_id e) (pr_hitEnemies q), pr_alive := False\<rparr>)]\<rparr>,
        Enemy_takeDamage e (pr_damage q) # es)"
proof -
  have f: "pr_x (Projectile_update dt q) = pr_x q + pr_vx q * dt"
    "pr_y (Projectile_update dt q) = pr_y q + pr_vy q * dt"
    "pr_radius (Projectile_update dt q) = pr_radius q"
    "pr_damage (Projectile_update dt q) = pr_damage q"
    "pr_hitEnemies (Projectile_update dt q) = pr_hitEnemies q"
    by (simp_all add: Projectile_update_def Let_def)
  have "checkProjectileHit (Projectile_update dt q) (e # es)
      = ((Projectile_update dt q)
            \<lparr>pr_hitEnemies := insert (e_id e) (pr_hitEnemies q), pr_alive := False\<rparr>,
         Enemy_takeDamage e (pr_damage q) # es)"
    using assms by (simp add: checkProjectileHit_def f)
  then show ?thesis
    using assms(1) by (simp add: EffectEngine_update_def advanceEffect_def)
qed

lemma projectile_next_frame:
  "EffectEngine_update dt2 pl
      (eng\<lparr>en_effects := [Projectile (q\<lparr>pr_hitEnemies := hs, pr_alive := False\<rparr>)]\<rparr>) enemies
     = (eng\<lparr>en_effects := []\<rparr>, enemies)"
  by (simp add: EffectEngine_update_def advanceEffect_def Projectile_update_def Let_def)

text \<open>
  Claim C3, as the spec states it, at a concrete input: a meteor in its impact phase whose
  timer runs out in this frame, and an enemy standing in its radius that it has not hit.
  The alive flag turns false during the advance. With the hit-tests run before the
  removal, as the claim orders the steps, the enemy's \<open>takeDamage\<close> is invoked once;
  \<open>update\<close> removes the meteor first and leaves the enemy as it was.
\<close>

theorem C3_order_counterexample:
  "effect_alive (Meteor lastMeteor)
   \<and> \<not> effect_alive (advanceEffect 0.016 (fighterAt 560 500) (Meteor lastMeteor))
   \<and> EffectEngine_update 0.016 (fighterAt 560 500) \<lparr>en_effects = [Meteor lastMeteor]\<rparr>
        [shambler0] = (\<lparr>en_effects = []\<rparr>, [shambler0])
   \<and> map e_dmgCalls (snd (Advance_spec 0.016 (fighterAt 560 500)
        \<lparr>en_effects = [Meteor lastMeteor]\<rparr> [shambler0])) = [1]
   \<and> e_dmgCalls shambler0 = 0"
  by (simp add: lastMeteor_def MeteorEffect_new_def advanceEffect_def MeteorEffect_update_def
      EffectEngine_update_def Advance_spec_def checkMeteorHit_def meteorBody_def Let_def
      shambler0_def Enemy_new_def ENEMY_TYPES_shambler_def Enemy_takeDamage_def
      distance_self)

text \<open>
  Claim C3, amended. One call of \<open>update\<close> advances every effect, then drops the
  effects whose alive flag is false, then runs the hit-tests of the effects that are
  left, in order, on the roster. So an effect whose alive flag turns false during the
  advance takes no part in the frame: the result is the same without it, and when every
  effect dies in the advance the roster is untouched. When no effect dies in the
  advance, the result differs from the order of the spec only in that an effect whose
  own hit-test cleared its alive flag is still in the list, until the next call.

  The hit-tests drop nothing: the list after the call is as long as the list they were
  run on. An effect that is not alive is not alive after an advance either, so the next
  call drops it before its hit-tests: a call gives the same result on the list without
  its dead effects. A projectile that is alive after the advance and reaches the first
  enemy of the roster (live, not hit before) has the enemy's \<open>takeDamage\<close> invoked and
  its own alive flag cleared, and is the one effect in the list after the call; the
  next call, whatever its time step, empties the list and leaves the roster as it is.
\<close>

theorem C3_update_order:
  "EffectEngine_update dt pl eng enemies =
     (eng\<lparr>en_effects :=
         fst (checkHits (filter effect_alive (map (advanceEffect dt pl) (en_effects eng)))
               enemies)\<rparr>,
      snd (checkHits (filter effect_alive (map (advanceEffect dt pl) (en_effects eng)))
            enemies))
   \<and> (\<not> effect_alive (advanceEffect dt pl f) \<longrightarrow>
        EffectEngine_update dt pl (eng\<lparr>en_effects := fs @ f # gs\<rparr>) enemies
          = EffectEngine_update dt pl (eng\<lparr>en_effects := fs @ gs\<rparr>) enemies)
   \<and> ((\<forall>g\<in>set (en_effects eng). \<not> effect_alive (advanceEffect dt pl g)) \<longrightarrow>
        EffectEngine_update dt pl eng enemies = (eng\<lparr>en_effects := []\<rparr>, enemies))
   \<and> ((\<forall>g\<in>set (en_effects eng). effect_alive (advanceEffect dt pl g)) \<longrightarrow>
        Advance_spec dt pl eng enemies =
          (fst (EffectEngine_update dt pl eng enemies)
             \<lparr>en_effects := filter effect_alive
                 (en_effects (fst (EffectEngine_update dt pl eng enemies)))\<rparr>,
           snd (EffectEngine_update dt pl eng enemies)))
   \<and> length (en_effects (fst (EffectEngine_update dt pl eng enemies)))
       = length (filter effect_alive (map (advanceEffect dt pl) (en_effects eng)))
   \<and> (\<not> effect_alive h \<longrightarrow> \<not> effect_alive (advanceEffect dt pl h))
   \<and> EffectEngine_update dt pl eng enemies
       = EffectEngine_update dt pl (eng\<lparr>en_effects := filter effect_alive (en_effects eng)\<rparr>)
           enemies
   \<and> (pr_alive (Projectile_update dt q) \<and> \<not> e_dead e \<and> e_id e \<notin> pr_hitEnemies q
        \<and> distance (pr_x q + pr_vx q * dt) (pr_y q + pr_vy q * dt) (e_x e) (e_y e)
            < pr_radius q + e_radius e \<longrightarrow>
        EffectEngine_update dt pl (eng\<lparr>en_effects := [Projectile q]\<rparr>) (e # es)
          = (eng\<lparr>en_effects := [Projectile ((Projectile_update dt q)
                 \<lparr>pr_hitEnemies := insert (e_id e) (pr_hitEnemies q), pr_alive := False\<rparr>)]\<rparr>,
             Enemy_takeDamage e (pr_damage q) # es)
        \<and> EffectEngine_update dt2 pl
            (fst (EffectEngine_update dt pl (eng\<lparr>en_effects := [Projectile q]\<rparr>) (e # es)))
            (snd (EffectEngine_update dt pl (eng\<lparr>en_effects := [Projectile q]\<rparr>) (e # es)))
          = (eng\<lparr>en_effects := []\<rparr>, Enemy_takeDamage e (pr_damage q) # es))"
proof (intro conjI impI)
  show "EffectEngine_update dt pl eng enemies =
     (eng\<lparr>en_effects :=
         fst (checkHits (filter effect_alive (map (advanceEffect dt pl) (en_effects eng)))
               enemies)\<rparr>,
      snd (checkHits (filter effect_alive (map (advanceEffect dt pl) (en_effects eng)))
            enemies))"
    by (rule update_shape)
next
  assume "\<not> effect_alive (advanceEffect dt pl f)"
  then show "EffectEngine_update dt pl (eng\<lparr>en_effects := fs @ f # gs\<rparr>) enemies
          = EffectEngine_update dt pl (eng\<lparr>en_effects := fs @ gs\<rparr>) enemies"
    by (rule update_drops_dying)
next
  assume "\<forall>g\<in>set (en_effects eng). \<not> effect_alive (advanceEffect dt pl g)"
  then show "EffectEngine_update dt pl eng enemies = (eng\<lparr>en_effects := []\<rparr>, enemies)"
    by (rule update_all_dying)
next
  assume "\<forall>g\<in>set (en_effects eng). effect_alive (advanceEffect dt pl g)"
  then show "Advance_spec dt pl eng enemies =
          (fst (EffectEngine_update dt pl eng enemies)
             \<lparr>en_effects := filter effect_alive
                 (en_effects (fst (EffectEngine_update dt pl eng enemies)))\<rparr>,
           snd (EffectEngine_update dt pl eng enemies))"
    by (rule update_all_surviving)
next
  show "length (en_effects (fst (EffectEngine_update dt pl eng enemies)))
       = length (filter effect_alive (map (advanceEffect dt pl) (en_effects eng)))"
    by (rule update_keeps_checked)
next
  assume "\<not> effect_alive h"
  then show "\<not> effect_alive (advanceEffect dt pl h)" by (rule dead_stays_dead)
next
  show "EffectEngine_update dt pl eng enemies
       = EffectEngine_update dt pl (eng\<lparr>en_effects := filter effect_alive (en_effects eng)\<rparr>)
           enemies"
    by (rule update_skips_dead)
next
  assume a: "pr_alive (Projectile_update dt q) \<and> \<not> e_dead e \<and> e_id e \<notin> pr_hitEnemies q
        \<and> distance (pr_x q + pr_vx q * dt) (pr_y q + pr_vy q * dt) (e_x e) (e_y e)
            < pr_radius q + e_radius e"
  then show first: "EffectEngine_update dt pl (eng\<lparr>en_effects := [Projectile q]\<rparr>) (e # es)
          = (eng\<lparr>en_effects := [Projectile ((Projectile_update dt q)
                 \<lparr>pr_hitEnemies := insert (e_id e) (pr_hitEnemies q), pr_alive := False\<rparr>)]\<rparr>,
             Enemy_takeDamage e (pr_damage q) # es)"
    by (intro projectile_hit_frame) simp_all
  show "EffectEngine_update dt2 pl
            (fst (EffectEngine_update dt pl (eng\<lparr>en_effects := [Projectile q]\<rparr>) (e # es)))
            (snd (EffectEngine_update dt pl (eng\<lparr>en_effects := [Projectile q]\<rparr>) (e # es)))
          = (eng\<lparr>en_effects := []\<rparr>, Enemy_takeDamage e (pr_damage q) # es)"
    unfolding first fst_conv snd_conv by (rule projectile_next_frame)
qed

theorem C3_update_order_witness:
  "EffectEngine_update 0.016 (fighterAt 560 500)
       \<lparr>en_effects = [Nova (fireBurstAt 500 500), Meteor lastMeteor]\<rparr> [shambler0]
     = EffectEngine_update 0.016 (fighterAt 560 500)
       \<lparr>en_effects = [Nova (fireBurstAt 500 500)]\<rparr> [shambler0]
   \<and> EffectEngine_update 0.016 (fighterAt 560 500) \<lparr>en_effects = [Meteor lastMeteor]\<rparr>
       [shambler0] = (\<lparr>en_effects = []\<rparr>, [shambler0])
   \<and> Advance_spec 0.016 (fighterAt 560 500) \<lparr>en_effects = [Nova (fireBurstAt 500 500)]\<rparr>
       [shambler0]
     = (fst (EffectEngine_update 0.016 (fighterAt 560 500)
              \<lparr>en_effects = [Nova (fireBurstAt 500 500)]\<rparr> [shambler0])
          \<lparr>en_effects := filter effect_alive
              (en_effects (fst (EffectEngine_update 0.016 (fighterAt 560 500)
                 \<lparr>en_effects = [Nova (fireBurstAt 500 500)]\<rparr> [shambler0])))\<rparr>,
        snd (EffectEngine_update 0.016 (fighterAt 560 500)
              \<lparr>en_effects = [Nova (fireBurstAt 500 500)]\<rparr> [shambler0]))
   \<and> EffectEngine_update 0.016 (fighterAt 560 500) \<lparr>en_effects = [Projectile testBolt]\<rparr>
       [shambler0]
     = (\<lparr>en_effects = [Projectile (testBolt\<lparr>pr_x := 491.6, pr_lifetime := 1.984,
            pr_hitEnemies := {0}, pr_alive := False\<rparr>)]\<rparr>,
        [Enemy_takeDamage shambler0 10])
   \<and> EffectEngine_update 0.016 (fighterAt 560 500)
       (fst (EffectEngine_update 0.016 (fighterAt 560 500)
          \<lparr>en_effects = [Projectile testBolt]\<rparr> [shambler0]))
       (snd (EffectEngine_update 0.016 (fighterAt 560 500)
          \<lparr>en_effects = [Projectile testBolt]\<rparr> [shambler0]))
     = (\<lparr>en_effects = []\<rparr>, [Enemy_takeDamage shambler0 10])
   \<and> e_dmgCalls (Enemy_takeDamage shambler0 10) = 1"
proof -
  have dying: "\<not> effect_alive (advanceEffect 0.016 (fighterAt 560 500) (Meteor lastMeteor))"
    by (simp add: advanceEffect_def MeteorEffect_update_def lastMeteor_def
        MeteorEffect_new_def Let_def)
  have living: "effect_alive (advanceEffect 0.016 (fighterAt 560 500)
      (Nova (fireBurstAt 500 500)))"
    by (simp add: advanceEffect_def NovaEffect_update_def fireBurstAt_def NovaEffect_new_def
        Let_def fireBurst_radius_def fireBurst_expandSpeed_def)
  have a: "EffectEngine_update 0.016 (fighterAt 560 500)
       \<lparr>en_effects = [Nova (fireBurstAt 500 500), Meteor lastMeteor]\<rparr> [shambler0]
     = EffectEngine_update 0.016 (fighterAt 560 500)
       \<lparr>en_effects = [Nova (fireBurstAt 500 500)]\<rparr> [shambler0]"
    using C3_update_order [where dt = "0.016" and pl = "fighterAt 560 500"
        and eng = "\<lparr>en_effects = []\<rparr>" and enemies = "[shambler0]"
        and f = "Meteor lastMeteor" and fs = "[Nova (fireBurstAt 500 500)]" and gs = "[]",
        THEN conjunct2, THEN conjunct1] dying
    by simp
  have b: "EffectEngine_update 0.016 (fighterAt 560 500) \<lparr>en_effects = [Meteor lastMeteor]\<rparr>
       [shambler0] = (\<lparr>en_effects = []\<rparr>, [shambler0])"
    using C3_update_order [where dt = "0.016" and pl = "fighterAt 560 500"
        and eng = "\<lparr>en_effects = [Meteor lastMeteor]\<rparr>" and enemies = "[shambler0]",
        THEN conjunct2, THEN conjunct2, THEN conjunct1] dying
    by simp
  have c: "Advance_spec 0.016 (fighterAt 560 500) \<lparr>en_effects = [Nova (fireBurstAt 500 500)]\<rparr>
       [shambler0]
     = (fst (EffectEngine_update 0.016 (fighterAt 560 500)
              \<lparr>en_effects = [Nova (fireBurstAt 500 500)]\<rparr> [shambler0])
          \<lparr>en_effects := filter effect_alive
              (en_effects (fst (EffectEngine_update 0.016 (fighterAt 560 500)
                 \<lparr>en_effects = [Nova (fireBurstAt 500 500)]\<rparr> [shambler0])))\<rparr>,
        snd (EffectEngine_update 0.016 (fighterAt 560 500)
              \<lparr>en_effects = [Nova (fireBurstAt 500 500)]\<rparr> [shambler0]))"
    using C3_update_order [where dt = "0.016" and pl = "fighterAt 560 500"
        and eng = "\<lparr>en_effects = [Nova (fireBurstAt 500 500)]\<rparr>" and enemies = "[shambler0]",
        THEN conjunct2, THEN conjunct2, THEN conjunct2, THEN conjunct1] living
    by simp
  have hyp: "pr_alive (Projectile_update 0.016 testBolt) \<and> \<not> e_dead shambler0
      \<and> e_id shambler0 \<notin> pr_hitEnemies testBolt
      \<and> distance (pr_x testBolt + pr_vx testBolt * 0.016)
          (pr_y testBolt + pr_vy testBolt * 0.016) (e_x shambler0) (e_y shambler0)
        < pr_radius testBolt + e_radius shambler0"
    by (simp add: testBolt_def Projectile_new_def Projectile_update_def Let_def
        shambler0_def Enemy_new_def ENEMY_TYPES_shambler_def distance_axis)
  have vals: "Projectile_update 0.016 testBolt
      = testBolt\<lparr>pr_x := 491.6, pr_lifetime := 1.984\<rparr>"
    "pr_hitEnemies testBolt = {}" "pr_damage testBolt = 10" "e_id shambler0 = 0"
    by (simp_all add: testBolt_def Projectile_new_def Projectile_update_def Let_def
        shambler0_def Enemy_new_def)
  note d = C3_update_order [where dt = "0.016" and pl = "fighterAt 560 500"
        and eng = "\<lparr>en_effects = []\<rparr>" and q = testBolt and e = shambler0 and es = "[]"
        and ?dt2.0 = "0.016",
        THEN conjunct2, THEN conjunct2, THEN conjunct2, THEN conjunct2, THEN conjunct2,
        THEN conjunct2, THEN conjunct2, rule_format, OF hyp]
  have d1: "EffectEngine_update 0.016 (fighterAt 560 500)
       \<lparr>en_effects = [Projectile testBolt]\<rparr> [shambler0]
     = (\<lparr>en_effects = [Projectile (testBolt\<lparr>pr_x := 491.6, pr_lifetime := 1.984,
            pr_hitEnemies := {0}, pr_alive := False\<rparr>)]\<rparr>,
        [Enemy_takeDamage shambler0 10])"
    using d [THEN conjunct1] unfolding vals by simp
  have d2: "EffectEngine_update 0.016 (fighterAt 560 500)
       (fst (EffectEngine_update 0.016 (fighterAt 560 500)
          \<lparr>en_effects = [Projectile testBolt]\<rparr> [shambler0]))
       (snd (EffectEngine_update 0.016 (fighterAt 560 500)
          \<lparr>en_effects = [Projectile testBolt]\<rparr> [shambler0]))
     = (\<lparr>en_effects = []\<rparr>, [Enemy_takeDamage shambler0 10])"
    using d [THEN conjunct2] unfolding vals by simp
  have d3: "e_dmgCalls (Enemy_takeDamage shambler0 10) = 1"
    by (simp add: Enemy_takeDamage_def Let_def shambler0_def Enemy_new_def)
  show ?thesis using a b c d1 d2 d3 by blast
qed

section \<open>Lightning chain\<close>

lemma nearestScan_inv:
  assumes "full = pre @ es" "length pre = i"
    and "(b = None \<and> bd = rng \<and> (\<forall>e\<in>set pre. \<not> chainCandidate cx cy rng hit e))
       \<or> (\<exists>k. b = Some k \<and> k < i \<and> chainCandidate cx cy rng hit (full ! k)
             \<and> bd = distance cx cy (e_x (full ! k)) (e_y (full ! k))
             \<and> (\<forall>e\<in>set pre. chainCandidate cx cy rng hit e \<longrightarrow>
                   bd \<le> distance cx cy (e_x e) (e_y e)))"
  shows "(fst (nearestScan cx cy hit es i (b, bd)) = None
            \<and> (\<forall>e\<in>set full. \<not> chainCandidate cx cy rng hit e))
       \<or> (\<exists>k. fst (nearestScan cx cy hit es i (b, bd)) = Some k \<and> isNearest cx cy rng hit full k)"
  using assms
proof (induction es arbitrary: pre i b bd)
  case Nil
  then show ?case by (auto simp: isNearest_def)
next
  case (Cons e es)
  have full: "full = (pre @ [e]) @ es" "length (pre @ [e]) = Suc i"
    using Cons.prems(1,2) by simp_all
  have ei: "full ! i = e" using Cons.prems(1,2) by (simp add: nth_append)
  show ?case
  proof (cases "e_dead e \<or> e_id e \<in> hit")
    case True
    then have nc: "\<not> chainCandidate cx cy rng hit e" by (auto simp: chainCandidate_def)
    have inv: "(b = None \<and> bd = rng \<and> (\<forall>e\<in>set (pre @ [e]). \<not> chainCandidate cx cy rng hit e))
       \<or> (\<exists>k. b = Some k \<and> k < Suc i \<and> chainCandidate cx cy rng hit (full ! k)
             \<and> bd = distance cx cy (e_x (full ! k)) (e_y (full ! k))
             \<and> (\<forall>e\<in>set (pre @ [e]). chainCandidate cx cy rng hit e \<longrightarrow>
                   bd \<le> distance cx cy (e_x e) (e_y e)))"
      using Cons.prems(3) nc by auto
    show ?thesis
      using Cons.IH [OF full inv] True by simp
  next
    case False
    let ?d = "distance cx cy (e_x e) (e_y e)"
    show ?thesis
    proof (cases "?d < bd")
      case lt: True
      have bdle: "bd \<le> rng" using Cons.prems(3) by (auto simp: chainCandidate_def)
      have cand: "chainCandidate cx cy rng hit e"
        using False lt bdle by (simp add: chainCandidate_def)
      have inv: "(Some i = None \<and> ?d = rng \<and> (\<forall>e\<in>set (pre @ [e]). \<not> chainCandidate cx cy rng hit e))
       \<or> (\<exists>k. Some i = Some k \<and> k < Suc i \<and> chainCandidate cx cy rng hit (full ! k)
             \<and> ?d = distance cx cy (e_x (full ! k)) (e_y (full ! k))
             \<and> (\<forall>e\<in>set (pre @ [e]). chainCandidate cx cy rng hit e \<longrightarrow>
                   ?d \<le> distance cx cy (e_x e) (e_y e)))"
      proof (rule disjI2, intro exI [of _ i] conjI ballI impI)
        fix e' assume e': "e' \<in> set (pre @ [e])" and c': "chainCandidate cx cy rng hit e'"
        show "?d \<le> distance cx cy (e_x e') (e_y e')"
        proof (cases "e' = e")
          case True then show ?thesis by simp
        next
          case ne: False
          then have "e' \<in> set pre" using e' by simp
          then have "bd \<le> distance cx cy (e_x e') (e_y e')"
            using Cons.prems(3) c' by (auto simp: chainCandidate_def)
          then show ?thesis using lt by simp
        qed
      qed (simp_all add: ei cand)
      show ?thesis
        using Cons.IH [OF full inv] False lt by (simp add: Let_def)
    next
      case ge: False
      have inv: "(b = None \<and> bd = rng \<and> (\<forall>e\<in>set (pre @ [e]). \<not> chainCandidate cx cy rng hit e))
       \<or> (\<exists>k. b = Some k \<and> k < Suc i \<and> chainCandidate cx cy rng hit (full ! k)
             \<and> bd = distance cx cy (e_x (full ! k)) (e_y (full ! k))
             \<and> (\<forall>e\<in>set (pre @ [e]). chainCandidate cx cy rng hit e \<longrightarrow>
                   bd \<le> distance cx cy (e_x e) (e_y e)))"
        using Cons.prems(3) ge by (auto simp: chainCandidate_def)
      show ?thesis
        using Cons.IH [OF full inv] False ge by (simp add: Let_def)
    qed
  qed
qed

lemma findNearest_None:
  "findNearest cx cy rng hit es = None \<Longrightarrow> \<forall>e\<in>set es. \<not> chainCandidate cx cy rng hit e"
  using nearestScan_inv [of es "[]" es 0 None rng rng cx cy hit]
  by (auto simp: findNearest_def)

lemma findNearest_Some:
  "findNearest cx cy rng hit es = Some k \<Longrightarrow> isNearest cx cy rng hit es k"
  using nearestScan_inv [of es "[]" es 0 None rng rng cx cy hit]
  by (auto simp: findNearest_def)

lemma chainLoop_spec:
  "chainSpec n cx cy dmg decay rng hit es
     (fst (chainLoop n cx cy dmg decay rng hit es)) (snd (chainLoop n cx cy dmg decay rng hit es))"
proof (induction n arbitrary: cx cy dmg hit es)
  case 0
  show ?case by (simp add: chainSpec.stop_at_max)
next
  case (Suc n)
  show ?case
  proof (cases "findNearest cx cy rng hit es")
    case None
    then show ?thesis
      using findNearest_None [OF None] by (simp add: chainSpec.stop_no_target)
  next
    case (Some k)
    show ?thesis
      using chainSpec.hop [OF findNearest_Some [OF Some]
          Suc.IH [of "e_x (es ! k)" "e_y (es ! k)" "dmg * decay" "insert (e_id (es ! k)) hit"
            "es[k := Enemy_takeDamage (es ! k) dmg]"]]
      by (simp add: Some Let_def split_beta)
  qed
qed

lemma chainLoop_length:
  "length (fst (chainLoop n cx cy dmg decay rng hit es)) \<le> n"
proof (induction n arbitrary: cx cy dmg hit es)
  case 0
  show ?case by simp
next
  case (Suc n)
  show ?case
  proof (cases "findNearest cx cy rng hit es")
    case None
    then show ?thesis by simp
  next
    case (Some k)
    show ?thesis
      using Suc.IH [of "e_x (es ! k)" "e_y (es ! k)" "dmg * decay" "insert (e_id (es ! k)) hit"
            "es[k := Enemy_takeDamage (es ! k) dmg]"]
      by (simp add: Some Let_def split_beta)
  qed
qed

lemma chainLoop_damage:
  "i < length (fst (chainLoop n cx cy dmg decay rng hit es)) \<Longrightarrow>
   ch_damage (fst (chainLoop n cx cy dmg decay rng hit es) ! i) = dmg * decay ^ i"
proof (induction n arbitrary: cx cy dmg hit es i)
  case 0
  then show ?case by simp
next
  case (Suc n)
  show ?case
  proof (cases "findNearest cx cy rng hit es")
    case None
    then show ?thesis using Suc.prems by simp
  next
    case (Some k)
    show ?thesis
    proof (cases i)
      case 0
      then show ?thesis by (simp add: Some Let_def split_beta)
    next
      case (Suc j)
      have "j < length (fst (chainLoop n (e_x (es ! k)) (e_y (es ! k)) (dmg * decay) decay rng
          (insert (e_id (es ! k)) hit) (es[k := Enemy_takeDamage (es ! k) dmg])))"
        using Suc.prems Suc by (simp add: Some Let_def split_beta)
      from Suc.IH [OF this] show ?thesis
        by (simp add: Some Let_def split_beta Suc mult.assoc)
    qed
  qed
qed

lemma decay_strict:
  fixes base decay :: real
  assumes "0 < base" "0 < decay" "decay < 1" "i < j"
  shows "base * decay ^ j < base * decay ^ i"
  using assms by (simp add: power_strict_decreasing)

lemma chainLoop_empty:
  "fst (chainLoop (Suc n) cx cy dmg decay rng hit es) = [] \<Longrightarrow>
   \<forall>e\<in>set es. \<not> chainCandidate cx cy rng hit e"
proof (cases "findNearest cx cy rng hit es")
  case None
  then show ?thesis by (rule findNearest_None)
next
  case (Some k)
  assume "fst (chainLoop (Suc n) cx cy dmg decay rng hit es) = []"
  then show ?thesis by (simp add: Some Let_def split_beta)
qed

text \<open>
  Claim C4, as the spec states it, at a concrete input: the mage's lightning arc, whose
  configured chain count is 3, cast at damage 30 with four enemies in a row within range.
  The chain has four hops, one more than the chain count.
\<close>

theorem C4_chain_counterexample: "lightningArc_chainCount = 3
   \<and> length (la_chains (fst (LightningArcEffect_new 500 500 30 lightningArc_chainCount
        0.7 200 fourInARow))) = 4
   \<and> map ch_damage (la_chains (fst (LightningArcEffect_new 500 500 30 lightningArc_chainCount
        0.7 200 fourInARow))) = [30, 21, 14.7, 10.29]"
  by (simp add: lightningArc_chainCount_def LightningArcEffect_new_def buildChain_def
      fourInARow_def shamblerAt_def Enemy_new_def ENEMY_TYPES_shambler_def
      findNearest_def distance_axis Let_def Enemy_takeDamage_def eval_nat_numeral)

text \<open>
  Claim C4, amended. The constructor of a lightning arc resolves the whole chain: what
  \<open>_buildChain\<close> records and does to the roster is a chain as the spec describes it
  (each hop goes to a nearest live, un-hit enemy within range of the previous position,
  which takes the hop's damage at once), of at most \<open>chainCount + 1\<close> hops: the strike
  from the cast origin and \<open>chainCount\<close> jumps. It ends earlier only when no live,
  un-hit enemy is within range. Hop \<open>i\<close> carries \<open>baseDamage * decay ^ i\<close>, which is
  strictly decreasing for a positive base damage and a decay strictly between 0 and 1.
  The hit-test of the engine leaves a lightning arc and the roster as they are.
\<close>

theorem C4_lightning_chain:
  "chainSpec (nat (maxChains + 1)) x y base decay rng {} enemies
     (fst (buildChain x y base maxChains decay rng enemies))
     (snd (buildChain x y base maxChains decay rng enemies))
   \<and> length (fst (buildChain x y base maxChains decay rng enemies)) \<le> nat (maxChains + 1)
   \<and> (fst (buildChain x y base maxChains decay rng enemies) = [] \<and> 0 \<le> maxChains \<longrightarrow>
        (\<forall>e\<in>set enemies. \<not> chainCandidate x y rng {} e))
   \<and> (\<forall>i < length (fst (buildChain x y base maxChains decay rng enemies)).
        ch_damage (fst (buildChain x y base maxChains decay rng enemies) ! i)
          = base * decay ^ i)
   \<and> (0 < base \<and> 0 < decay \<and> decay < 1 \<longrightarrow>
        (\<forall>j < length (fst (buildChain x y base maxChains decay rng enemies)). \<forall>i < j.
           ch_damage (fst (buildChain x y base maxChains decay rng enemies) ! j)
             < ch_damage (fst (buildChain x y base maxChains decay rng enemies) ! i)))
   \<and> LightningArcEffect_new x y base maxChains decay rng enemies =
        (\<lparr>la_alive = True, la_timer = 0.4,
          la_chains = fst (buildChain x y base maxChains decay rng enemies)\<rparr>,
         snd (buildChain x y base maxChains decay rng enemies))
   \<and> checkHit (LightningArc arc) roster = (LightningArc arc, roster)"
proof (intro conjI allI impI)
  show "chainSpec (nat (maxChains + 1)) x y base decay rng {} enemies
     (fst (buildChain x y base maxChains decay rng enemies))
     (snd (buildChain x y base maxChains decay rng enemies))"
    unfolding buildChain_def by (rule chainLoop_spec)
  show "length (fst (buildChain x y base maxChains decay rng enemies)) \<le> nat (maxChains + 1)"
    unfolding buildChain_def by (rule chainLoop_length)
  show "LightningArcEffect_new x y base maxChains decay rng enemies =
        (\<lparr>la_alive = True, la_timer = 0.4,
          la_chains = fst (buildChain x y base maxChains decay rng enemies)\<rparr>,
         snd (buildChain x y base maxChains decay rng enemies))"
    by (simp add: LightningArcEffect_new_def split_beta)
  show "checkHit (LightningArc arc) roster = (LightningArc arc, roster)"
    by simp
next
  assume a: "fst (buildChain x y base maxChains decay rng enemies) = [] \<and> 0 \<le> maxChains"
  then obtain n where n: "nat (maxChains + 1) = Suc n"
    by (cases "nat (maxChains + 1)") auto
  show "\<forall>e\<in>set enemies. \<not> chainCandidate x y rng {} e"
    using a chainLoop_empty [of n x y base decay rng "{}" enemies]
    by (simp add: buildChain_def n)
next
  fix i
  assume "i < length (fst (buildChain x y base maxChains decay rng enemies))"
  then show "ch_damage (fst (buildChain x y base maxChains decay rng enemies) ! i)
      = base * decay ^ i"
    unfolding buildChain_def by (rule chainLoop_damage)
next
  fix j i
  assume pos: "0 < base \<and> 0 < decay \<and> decay < 1"
    and j: "j < length (fst (buildChain x y base maxChains decay rng enemies))"
    and i: "i < j"
  have i': "i < length (fst (buildChain x y base maxChains decay rng enemies))"
    using i j by simp
  have "ch_damage (fst (buildChain x y base maxChains decay rng enemies) ! j) = base * decay ^ j"
    "ch_damage (fst (buildChain x y base maxChains decay rng enemies) ! i) = base * decay ^ i"
    using j i' unfolding buildChain_def by (simp_all add: chainLoop_damage)
  then show "ch_damage (fst (buildChain x y base maxChains decay rng enemies) ! j)
      < ch_damage (fst (buildChain x y base maxChains decay rng enemies) ! i)"
    using decay_strict [of base decay i j] pos i by simp
qed

theorem C4_lightning_chain_witness:
  "length (fst (buildChain 500 500 30 3 0.7 200 fourInARow)) \<le> 4
   \<and> ch_damage (fst (buildChain 500 500 30 3 0.7 200 fourInARow) ! 2) = 30 * 0.7 ^ 2
   \<and> ch_damage (fst (buildChain 500 500 30 3 0.7 200 fourInARow) ! 3)
       < ch_damage (fst (buildChain 500 500 30 3 0.7 200 fourInARow) ! 0)
   \<and> \<not> chainCandidate 500 500 200 {} (shamblerAt 0 900 500)"
proof -
  have len: "length (fst (buildChain 500 500 30 3 0.7 200 fourInARow)) = 4"
    by (simp add: buildChain_def fourInARow_def shamblerAt_def Enemy_new_def
        ENEMY_TYPES_shambler_def findNearest_def distance_axis Let_def Enemy_takeDamage_def
        eval_nat_numeral)
  note T = C4_lightning_chain [of 3 500 500 30 "0.7" 200 fourInARow]
  have a: "length (fst (buildChain 500 500 30 3 0.7 200 fourInARow)) \<le> 4"
    using T [THEN conjunct2, THEN conjunct1] by simp
  have b: "ch_damage (fst (buildChain 500 500 30 3 0.7 200 fourInARow) ! 2) = 30 * 0.7 ^ 2"
    using T [THEN conjunct2, THEN conjunct2, THEN conjunct2, THEN conjunct1] len by simp
  have c: "ch_damage (fst (buildChain 500 500 30 3 0.7 200 fourInARow) ! 3)
       < ch_damage (fst (buildChain 500 500 30 3 0.7 200 fourInARow) ! 0)"
    using T [THEN conjunct2, THEN conjunct2, THEN conjunct2, THEN conjunct2, THEN conjunct1]
      len by simp
  have far: "fst (buildChain 500 500 30 3 0.7 200 [shamblerAt 0 900 500]) = []"
    by (simp add: buildChain_def shamblerAt_def Enemy_new_def ENEMY_TYPES_shambler_def
        findNearest_def distance_axis Let_def eval_nat_numeral)
  have d: "\<not> chainCandidate 500 500 200 {} (shamblerAt 0 900 500)"
    using C4_lightning_chain [of 3 500 500 30 "0.7" 200 "[shamblerAt 0 900 500]",
        THEN conjunct2, THEN conjunct2, THEN conjunct1] far by simp
  show ?thesis using a b c d by blast
qed

section \<open>Expanding rings\<close>

lemma forEnemies_length: "length (snd (forEnemies b eff es)) = length es"
  by (induction es arbitrary: eff) (simp_all add: split_beta)

lemma forEnemies_hits:
  assumes body: "\<And>eff e. b eff e = (if P eff e then (add (e_id e) eff, g eff e) else (eff, e))"
    and P_add: "\<And>eff i e. i \<noteq> e_id e \<Longrightarrow> P (add i eff) e = P eff e"
    and g_add: "\<And>eff i e. g (add i eff) e = g eff e"
    and dist: "distinct (map e_id es)"
  shows "snd (forEnemies b eff es) = map (\<lambda>e. if P eff e then g eff e else e) es
       \<and> fst (forEnemies b eff es)
           = foldl (\<lambda>f e. if P eff e then add (e_id e) f else f) eff es"
  using dist
proof (induction es arbitrary: eff)
  case Nil
  show ?case by simp
next
  case (Cons e es)
  have d: "distinct (map e_id es)" and ne: "\<forall>e'\<in>set es. e_id e \<noteq> e_id e'"
    using Cons.prems by auto
  show ?case
  proof (cases "P eff e")
    case True
    have same: "\<forall>e'\<in>set es. P (add (e_id e) eff) e' = P eff e'"
      using ne P_add by simp
    have m: "map (\<lambda>e'. if P (add (e_id e) eff) e' then g (add (e_id e) eff) e' else e') es
        = map (\<lambda>e'. if P eff e' then g eff e' else e') es"
      using same g_add by (intro map_cong) auto
    have f: "foldl (\<lambda>f e'. if P (add (e_id e) eff) e' then add (e_id e') f else f) h es
        = foldl (\<lambda>f e'. if P eff e' then add (e_id e') f else f) h es" for h
      using same by (intro foldl_cong) auto
    show ?thesis
      using Cons.IH [OF d, of "add (e_id e) eff"] True
      by (simp add: body split_beta m f)
  next
    case False
    show ?thesis
      using Cons.IH [OF d, of eff] False by (simp add: body split_beta)
  qed
qed

lemma foldl_add_proj:
  assumes "\<And>i f. proj (add i f) = proj f"
  shows "proj (foldl (\<lambda>f e. if Q e then add (e_id e) f else f) eff es) = proj eff"
  by (induction es arbitrary: eff) (simp_all add: assms)

lemma foldl_add_hits:
  assumes "\<And>i f. H (add i f) = insert i (H f)"
  shows "H (foldl (\<lambda>f e. if Q e then add (e_id e) f else f) eff es)
       = H eff \<union> e_id ` {e \<in> set es. Q e}"
  by (induction es arbitrary: eff) (auto simp: assms)

lemma novaBody_shape:
  "novaBody n e =
     (if ringHit (nv_x n) (nv_y n) (nv_radius n) (nv_hitEnemies n) e
      then (n\<lparr>nv_hitEnemies := insert (e_id e) (nv_hitEnemies n)\<rparr>, novaHit n e)
      else (n, e))"
  by (auto simp: novaBody_def ringHit_def novaHit_def Let_def)

lemma novaHit_damagedOnce: "damagedOnce e (novaHit n e)"
  by (simp add: novaHit_def damagedOnce_def Enemy_takeDamage_def applySlow_def
      applyKnockback_def Let_def)

lemma nv_foldl:
  "foldl (\<lambda>f e. if Q e then f\<lparr>nv_hitEnemies := insert (e_id e) (nv_hitEnemies f)\<rparr> else f) n es
     = n\<lparr>nv_hitEnemies := nv_hitEnemies n \<union> e_id ` {e \<in> set es. Q e}\<rparr>"
  by (induction es arbitrary: n) (auto intro: arg_cong)

lemma nv_loop:
  assumes "distinct (map e_id es)"
  shows "forEnemies novaBody n es =
     (n\<lparr>nv_hitEnemies := nv_hitEnemies n \<union>
          e_id ` {e \<in> set es. ringHit (nv_x n) (nv_y n) (nv_radius n) (nv_hitEnemies n) e}\<rparr>,
      map (\<lambda>e. if ringHit (nv_x n) (nv_y n) (nv_radius n) (nv_hitEnemies n) e
                then novaHit n e else e) es)"
proof -
  have "snd (forEnemies novaBody n es)
      = map (\<lambda>e. if ringHit (nv_x n) (nv_y n) (nv_radius n) (nv_hitEnemies n) e
                  then novaHit n e else e) es
    \<and> fst (forEnemies novaBody n es)
      = foldl (\<lambda>f e. if ringHit (nv_x n) (nv_y n) (nv_radius n) (nv_hitEnemies n) e
                      then f\<lparr>nv_hitEnemies := insert (e_id e) (nv_hitEnemies f)\<rparr> else f) n es"
  proof (rule forEnemies_hits [where g = novaHit])
    fix eff :: novaEffect and e :: enemy
    show "novaBody eff e =
        (if ringHit (nv_x eff) (nv_y eff) (nv_radius eff) (nv_hitEnemies eff) e
         then (eff\<lparr>nv_hitEnemies := insert (e_id e) (nv_hitEnemies eff)\<rparr>, novaHit eff e)
         else (eff, e))"
      by (rule novaBody_shape)
  next
    fix eff :: novaEffect and i :: nat and e :: enemy
    assume "i \<noteq> e_id e"
    then show "ringHit (nv_x (eff\<lparr>nv_hitEnemies := insert i (nv_hitEnemies eff)\<rparr>))
          (nv_y (eff\<lparr>nv_hitEnemies := insert i (nv_hitEnemies eff)\<rparr>))
          (nv_radius (eff\<lparr>nv_hitEnemies := insert i (nv_hitEnemies eff)\<rparr>))
          (nv_hitEnemies (eff\<lparr>nv_hitEnemies := insert i (nv_hitEnemies eff)\<rparr>)) e
        = ringHit (nv_x eff) (nv_y eff) (nv_radius eff) (nv_hitEnemies eff) e"
      by (auto simp: ringHit_def)
  next
    fix eff :: novaEffect and i :: nat and e :: enemy
    show "novaHit (eff\<lparr>nv_hitEnemies := insert i (nv_hitEnemies eff)\<rparr>) e = novaHit eff e"
      by (simp add: novaHit_def Let_def)
  next
    show "distinct (map e_id es)" by (rule assms)
  qed
  then show ?thesis
    by (simp add: nv_foldl prod_eq_iff)
qed

lemma frostRingBody_shape:
  "frostRingBody n e =
     (if ringHit (fr_x n) (fr_y n) (fr_radius n) (fr_hitEnemies n) e
      then (n\<lparr>fr_hitEnemies := insert (e_id e) (fr_hitEnemies n)\<rparr>, frostHit n e)
      else (n, e))"
  by (auto simp: frostRingBody_def ringHit_def frostHit_def Let_def)

lemma frostHit_damagedOnce: "damagedOnce e (frostHit n e)"
  by (simp add: frostHit_def damagedOnce_def Enemy_takeDamage_def applySlow_def
      applyKnockback_def Let_def)

lemma fr_foldl:
  "foldl (\<lambda>f e. if Q e then f\<lparr>fr_hitEnemies := insert (e_id e) (fr_hitEnemies f)\<rparr> else f) n es
     = n\<lparr>fr_hitEnemies := fr_hitEnemies n \<union> e_id ` {e \<in> set es. Q e}\<rparr>"
  by (induction es arbitrary: n) (auto intro: arg_cong)

lemma fr_loop:
  assumes "distinct (map e_id es)"
  shows "forEnemies frostRingBody n es =
     (n\<lparr>fr_hitEnemies := fr_hitEnemies n \<union>
          e_id ` {e \<in> set es. ringHit (fr_x n) (fr_y n) (fr_radius n) (fr_hitEnemies n) e}\<rparr>,
      map (\<lambda>e. if ringHit (fr_x n) (fr_y n) (fr_radius n) (fr_hitEnemies n) e
                then frostHit n e else e) es)"
proof -
  have "snd (forEnemies frostRingBody n es)
      = map (\<lambda>e. if ringHit (fr_x n) (fr_y n) (fr_radius n) (fr_hitEnemies n) e
                  then frostHit n e else e) es
    \<and> fst (forEnemies frostRingBody n es)
      = foldl (\<lambda>f e. if ringHit (fr_x n) (fr_y n) (fr_radius n) (fr_hitEnemies n) e
                      then f\<lparr>fr_hitEnemies := insert (e_id e) (fr_hitEnemies f)\<rparr> else f) n es"
  proof (rule forEnemies_hits [where g = frostHit])
    fix eff :: frostRingEffect and e :: enemy
    show "frostRingBody eff e =
        (if ringHit (fr_x eff) (fr_y eff) (fr_radius eff) (fr_hitEnemies eff) e
         then (eff\<lparr>fr_hitEnemies := insert (e_id e) (fr_hitEnemies eff)\<rparr>, frostHit eff e)
         else (eff, e))"
      by (rule frostRingBody_shape)
  next
    fix eff :: frostRingEffect and i :: nat and e :: enemy
    assume "i \<noteq> e_id e"
    then show "ringHit (fr_x (eff\<lparr>fr_hitEnemies := insert i (fr_hitEnemies eff)\<rparr>))
          (fr_y (eff\<lparr>fr_hitEnemies := insert i (fr_hitEnemies eff)\<rparr>))
          (fr_radius (eff\<lparr>fr_hitEnemies := insert i (fr_hitEnemies eff)\<rparr>))
          (fr_hitEnemies (eff\<lparr>fr_hitEnemies := insert i (fr_hitEnemies eff)\<rparr>)) e
        = ringHit (fr_x eff) (fr_y eff) (fr_radius eff) (fr_hitEnemies eff) e"
      by (auto simp: ringHit_def)
  next
    fix eff :: frostRingEffect and i :: nat and e :: enemy
    show "frostHit (eff\<lparr>fr_hitEnemies := insert i (fr_hitEnemies eff)\<rparr>) e = frostHit eff e"
      by (simp add: frostHit_def Let_def)
  next
    show "distinct (map e_id es)" by (rule assms)
  qed
  then show ?thesis
    by (simp add: fr_foldl prod_eq_iff)
qed

lemma pulseBody_shape:
  "pulseBody n e =
     (if ringHit (pu_x n) (pu_y n) (pu_radius n) (pu_hitEnemies n) e
      then (n\<lparr>pu_hitEnemies := insert (e_id e) (pu_hitEnemies n)\<rparr>, pulseHit n e)
      else (n, e))"
  by (auto simp: pulseBody_def ringHit_def pulseHit_def Let_def)

lemma pulseHit_damagedOnce: "damagedOnce e (pulseHit n e)"
  by (simp add: pulseHit_def damagedOnce_def Enemy_takeDamage_def applySlow_def
      applyKnockback_def Let_def)

lemma pu_foldl:
  "foldl (\<lambda>f e. if Q e then f\<lparr>pu_hitEnemies := insert (e_id e) (pu_hitEnemies f)\<rparr> else f) n es
     = n\<lparr>pu_hitEnemies := pu_hitEnemies n \<union> e_id ` {e \<in> set es. Q e}\<rparr>"
  by (induction es arbitrary: n) (auto intro: arg_cong)

lemma pu_loop:
  assumes "distinct (map e_id es)"
  shows "forEnemies pulseBody n es =
     (n\<lparr>pu_hitEnemies := pu_hitEnemies n \<union>
          e_id ` {e \<in> set es. ringHit (pu_x n) (pu_y n) (pu_radius n) (pu_hitEnemies n) e}\<rparr>,
      map (\<lambda>e. if ringHit (pu_x n) (pu_y n) (pu_radius n) (pu_hitEnemies n) e
                then pulseHit n e else e) es)"
proof -
  have "snd (forEnemies pulseBody n es)
      = map (\<lambda>e. if ringHit (pu_x n) (pu_y n) (pu_radius n) (pu_hitEnemies n) e
                  then pulseHit n e else e) es
    \<and> fst (forEnemies pulseBody n es)
      = foldl (\<lambda>f e. if ringHit (pu_x n) (pu_y n) (pu_radius n) (pu_hitEnemies n) e
                      then f\<lparr>pu_hitEnemies := insert (e_id e) (pu_hitEnemies f)\<rparr> else f) n es"
  proof (rule forEnemies_hits [where g = pulseHit])
    fix eff :: pulseEffect and e :: enemy
    show "pulseBody eff e =
        (if ringHit (pu_x eff) (pu_y eff) (pu_radius eff) (pu_hitEnemies eff) e
         then (eff\<lparr>pu_hitEnemies := insert (e_id e) (pu_hitEnemies eff)\<rparr>, pulseHit eff e)
         else (eff, e))"
      by (rule pulseBody_shape)
  next
    fix eff :: pulseEffect and i :: nat and e :: enemy
    assume "i \<noteq> e_id e"
    then show "ringHit (pu_x (eff\<lparr>pu_hitEnemies := insert i (pu_hitEnemies eff)\<rparr>))
          (pu_y (eff\<lparr>pu_hitEnemies := insert i (pu_hitEnemies eff)\<rparr>))
          (pu_radius (eff\<lparr>pu_hitEnemies := insert i (pu_hitEnemies eff)\<rparr>))
          (pu_hitEnemies (eff\<lparr>pu_hitEnemies := insert i (pu_hitEnemies eff)\<rparr>)) e
        = ringHit (pu_x eff) (pu_y eff) (pu_radius eff) (pu_hitEnemies eff) e"
      by (auto simp: ringHit_def)
  next
    fix eff :: pulseEffect and i :: nat and e :: enemy
    show "pulseHit (eff\<lparr>pu_hitEnemies := insert i (pu_hitEnemies eff)\<rparr>) e = pulseHit eff e"
      by (simp add: pulseHit_def Let_def)
  next
    show "distinct (map e_id es)" by (rule assms)
  qed
  then show ?thesis
    by (simp add: pu_foldl prod_eq_iff)
qed

lemma ring_frame_dead:
  assumes "ringView f = Some (x, y, maxR, s, r, hs, True)" "maxR \<le> r + s * dt"
  shows "EffectEngine_update dt pl \<lparr>en_effects = [f]\<rparr> es = (\<lparr>en_effects = []\<rparr>, es)"
  using assms
  by (cases f)
     (simp_all add: EffectEngine_update_def advanceEffect_def NovaEffect_update_def
       FrostRingEffect_update_def PulseEffect_update_def Let_def)

lemma ring_frame_alive:
  assumes view: "ringView f = Some (x, y, maxR, s, r, hs, True)"
    and alive: "r + s * dt < maxR"
    and dist: "distinct (map e_id es)"
  shows "\<exists>f' G. EffectEngine_update dt pl \<lparr>en_effects = [f]\<rparr> es =
            (\<lparr>en_effects = [f']\<rparr>,
             map (\<lambda>e. if ringHit x y (r + s * dt) hs e then G e else e) es)
        \<and> ringView f' = Some (x, y, maxR, s, r + s * dt,
             hs \<union> e_id ` {e \<in> set es. ringHit x y (r + s * dt) hs e}, True)
        \<and> (\<forall>e. damagedOnce e (G e))"
proof (cases f)
  case (Nova n)
  let ?n = "n\<lparr>nv_radius := r + s * dt\<rparr>"
  have up: "NovaEffect_update dt n = ?n" "nv_alive ?n"
    using view alive Nova by (simp_all add: NovaEffect_update_def Let_def)
  have "EffectEngine_update dt pl \<lparr>en_effects = [f]\<rparr> es =
      (\<lparr>en_effects = [Nova (fst (forEnemies novaBody ?n es))]\<rparr>,
       snd (forEnemies novaBody ?n es))"
    using up by (simp add: Nova EffectEngine_update_def advanceEffect_def Let_def
        checkNovaHit_def split_beta)
  then show ?thesis
    using view Nova nv_loop [OF dist, of ?n] novaHit_damagedOnce
    by (intro exI [of _ "Nova (fst (forEnemies novaBody ?n es))"] exI [of _ "novaHit ?n"])
       simp
next
  case (FrostRing n)
  let ?n = "n\<lparr>fr_radius := r + s * dt\<rparr>"
  have up: "FrostRingEffect_update dt n = ?n" "fr_alive ?n"
    using view alive FrostRing by (simp_all add: FrostRingEffect_update_def Let_def)
  have "EffectEngine_update dt pl \<lparr>en_effects = [f]\<rparr> es =
      (\<lparr>en_effects = [FrostRing (fst (forEnemies frostRingBody ?n es))]\<rparr>,
       snd (forEnemies frostRingBody ?n es))"
    using up by (simp add: FrostRing EffectEngine_update_def advanceEffect_def Let_def
        checkFrostRingHit_def split_beta)
  then show ?thesis
    using view FrostRing fr_loop [OF dist, of ?n] frostHit_damagedOnce
    by (intro exI [of _ "FrostRing (fst (forEnemies frostRingBody ?n es))"]
          exI [of _ "frostHit ?n"])
       simp
next
  case (Pulse n)
  let ?n = "n\<lparr>pu_radius := r + s * dt\<rparr>"
  have up: "PulseEffect_update dt n = ?n" "pu_alive ?n"
    using view alive Pulse by (simp_all add: PulseEffect_update_def Let_def)
  have "EffectEngine_update dt pl \<lparr>en_effects = [f]\<rparr> es =
      (\<lparr>en_effects = [Pulse (fst (forEnemies pulseBody ?n es))]\<rparr>,
       snd (forEnemies pulseBody ?n es))"
    using up by (simp add: Pulse EffectEngine_update_def advanceEffect_def Let_def
        checkPulseHit_def split_beta)
  then show ?thesis
    using view Pulse pu_loop [OF dist, of ?n] pulseHit_damagedOnce
    by (intro exI [of _ "Pulse (fst (forEnemies pulseBody ?n es))"]
          exI [of _ "pulseHit ?n"])
       simp
qed (use view in simp_all)

lemma run_empty: "engineRun pl (\<lparr>en_effects = []\<rparr>, es) dts = (\<lparr>en_effects = []\<rparr>, es)"
  by (induction dts) (simp_all add: EffectEngine_update_def)

lemma hit_map_ids:
  assumes "\<forall>e. damagedOnce e (G e)"
  shows "map e_id (map (\<lambda>e. if Q e then G e else e) es) = map e_id es"
  using assms by (simp add: damagedOnce_def)


lemma run_after_hit:
  assumes "ringView f = Some (x, y, maxR, s, r, hs, True)"
    and "distinct (map e_id es)" "k < length es" "e_id (es ! k) \<in> hs"
    and "r < maxR" "maxR \<le> r + s * sum_list dts"
  shows "e_dmgCalls (snd (engineRun pl (\<lparr>en_effects = [f]\<rparr>, es) dts) ! k) = e_dmgCalls (es ! k)
       \<and> en_effects (fst (engineRun pl (\<lparr>en_effects = [f]\<rparr>, es) dts)) = []"
  using assms
proof (induction dts arbitrary: f es r hs)
  case Nil
  then show ?case by simp
next
  case (Cons dt dts)
  show ?case
  proof (cases "maxR \<le> r + s * dt")
    case True
    show ?thesis
      using ring_frame_dead [OF Cons.prems(1) True, of pl es]
      by (simp add: run_empty)
  next
    case False
    then have alive: "r + s * dt < maxR" by simp
    obtain f' G where step: "EffectEngine_update dt pl \<lparr>en_effects = [f]\<rparr> es =
            (\<lparr>en_effects = [f']\<rparr>,
             map (\<lambda>e. if ringHit x y (r + s * dt) hs e then G e else e) es)"
      and view': "ringView f' = Some (x, y, maxR, s, r + s * dt,
             hs \<union> e_id ` {e \<in> set es. ringHit x y (r + s * dt) hs e}, True)"
      and G: "\<forall>e. damagedOnce e (G e)"
      using ring_frame_alive [OF Cons.prems(1) alive Cons.prems(2), of pl] by blast
    let ?es' = "map (\<lambda>e. if ringHit x y (r + s * dt) hs e then G e else e) es"
    have nohit: "\<not> ringHit x y (r + s * dt) hs (es ! k)"
      using Cons.prems(4) by (simp add: ringHit_def)
    have k': "?es' ! k = es ! k" using Cons.prems(3) nohit by simp
    have ids: "map e_id ?es' = map e_id es" by (rule hit_map_ids [OF G])
    have sum: "maxR \<le> (r + s * dt) + s * sum_list dts"
      using Cons.prems(6) by (simp add: algebra_simps)
    have "e_dmgCalls (snd (engineRun pl (\<lparr>en_effects = [f']\<rparr>, ?es') dts) ! k)
          = e_dmgCalls (?es' ! k)
        \<and> en_effects (fst (engineRun pl (\<lparr>en_effects = [f']\<rparr>, ?es') dts)) = []"
    proof (rule Cons.IH [OF view' _ _ _ alive sum])
      show "distinct (map e_id ?es')" using Cons.prems(2) by (simp only: ids)
      show "k < length ?es'" using Cons.prems(3) by simp
      show "e_id (?es' ! k) \<in> hs \<union> e_id ` {e \<in> set es. ringHit x y (r + s * dt) hs e}"
        using k' Cons.prems(4) by simp
    qed
    then show ?thesis by (simp add: step k')
  qed
qed

lemma run_before_hit:
  assumes "ringView f = Some (x, y, maxR, s, r, hs, True)"
    and "distinct (map e_id es)" "k < length es"
    and "\<not> e_dead (es ! k)" "e_id (es ! k) \<notin> hs"
    and "d = distance x y (e_x (es ! k)) (e_y (es ! k))" "er = e_radius (es ! k)"
    and "r \<le> max (d - er) 10" "r < maxR"
    and "\<forall>dt\<in>set dts. 0 < s * dt \<and> s * dt < min (d + 25) maxR - max (d - er) 10"
    and "maxR \<le> r + s * sum_list dts"
  shows "e_dmgCalls (snd (engineRun pl (\<lparr>en_effects = [f]\<rparr>, es) dts) ! k)
           = Suc (e_dmgCalls (es ! k))
       \<and> en_effects (fst (engineRun pl (\<lparr>en_effects = [f]\<rparr>, es) dts)) = []"
  using assms
proof (induction dts arbitrary: f es r hs)
  case Nil
  then show ?case by simp
next
  case (Cons dt dts)
  let ?r' = "r + s * dt"
  have stp: "0 < s * dt" "s * dt < min (d + 25) maxR - max (d - er) 10"
    using Cons.prems(10) by simp_all
  have below: "?r' < min (d + 25) maxR" using stp(2) Cons.prems(8) by linarith
  then have alive: "?r' < maxR" and inner: "?r' < d + 25" by simp_all
  obtain f' G where step: "EffectEngine_update dt pl \<lparr>en_effects = [f]\<rparr> es =
          (\<lparr>en_effects = [f']\<rparr>,
           map (\<lambda>e. if ringHit x y ?r' hs e then G e else e) es)"
    and view': "ringView f' = Some (x, y, maxR, s, ?r',
           hs \<union> e_id ` {e \<in> set es. ringHit x y ?r' hs e}, True)"
    and G: "\<forall>e. damagedOnce e (G e)"
    using ring_frame_alive [OF Cons.prems(1) alive Cons.prems(2), of pl] by blast
  let ?es' = "map (\<lambda>e. if ringHit x y ?r' hs e then G e else e) es"
  let ?hs' = "hs \<union> e_id ` {e \<in> set es. ringHit x y ?r' hs e}"
  have ids: "map e_id ?es' = map e_id es" by (rule hit_map_ids [OF G])
  have dist': "distinct (map e_id ?es')" using Cons.prems(2) by (simp only: ids)
  have len': "k < length ?es'" using Cons.prems(3) by simp
  have sum: "maxR \<le> ?r' + s * sum_list dts"
    using Cons.prems(11) by (simp add: algebra_simps)
  have hit_iff: "ringHit x y ?r' hs (es ! k) \<longleftrightarrow> d - er < ?r'"
    using Cons.prems(4,5,6,7) inner by (auto simp: ringHit_def)
  show ?case
  proof (cases "d - er < ?r'")
    case True
    then have hit: "ringHit x y ?r' hs (es ! k)" using hit_iff by simp
    have k': "?es' ! k = G (es ! k)" using Cons.prems(3) hit by simp
    have calls: "e_dmgCalls (?es' ! k) = Suc (e_dmgCalls (es ! k))"
      using G by (simp add: k' damagedOnce_def)
    have mem: "e_id (?es' ! k) \<in> ?hs'"
    proof -
      have "es ! k \<in> {e \<in> set es. ringHit x y ?r' hs e}"
        using Cons.prems(3) hit by simp
      moreover have "e_id (?es' ! k) = e_id (es ! k)"
        using G by (simp add: k' damagedOnce_def)
      ultimately show ?thesis by blast
    qed
    have "e_dmgCalls (snd (engineRun pl (\<lparr>en_effects = [f']\<rparr>, ?es') dts) ! k)
          = e_dmgCalls (?es' ! k)
        \<and> en_effects (fst (engineRun pl (\<lparr>en_effects = [f']\<rparr>, ?es') dts)) = []"
      by (rule run_after_hit [OF view' dist' len' mem alive sum])
    then show ?thesis by (simp add: step calls)
  next
    case False
    then have nohit: "\<not> ringHit x y ?r' hs (es ! k)" using hit_iff by simp
    have k': "?es' ! k = es ! k" using Cons.prems(3) nohit by simp
    have notmem: "e_id (?es' ! k) \<notin> ?hs'"
    proof
      assume "e_id (?es' ! k) \<in> ?hs'"
      then obtain e where e: "e \<in> set es" "ringHit x y ?r' hs e" "e_id e = e_id (es ! k)"
        using Cons.prems(5) k' by auto
      then obtain j where j: "j < length es" "es ! j = e" by (auto simp: in_set_conv_nth)
      have "map e_id es ! j = map e_id es ! k" using j e(3) Cons.prems(3) by simp
      moreover have "j < length (map e_id es)" "k < length (map e_id es)"
        using j(1) Cons.prems(3) by simp_all
      ultimately have "j = k"
        using nth_eq_iff_index_eq [OF Cons.prems(2)] by blast
      then show False using j(2) e(2) nohit by simp
    qed
    have "e_dmgCalls (snd (engineRun pl (\<lparr>en_effects = [f']\<rparr>, ?es') dts) ! k)
          = Suc (e_dmgCalls (?es' ! k))
        \<and> en_effects (fst (engineRun pl (\<lparr>en_effects = [f']\<rparr>, ?es') dts)) = []"
    proof (rule Cons.IH [OF view' dist' len' _ notmem _ _ _ alive _ sum])
      show "\<not> e_dead (?es' ! k)" using k' Cons.prems(4) by simp
      show "d = distance x y (e_x (?es' ! k)) (e_y (?es' ! k))" using k' Cons.prems(6) by simp
      show "er = e_radius (?es' ! k)" using k' Cons.prems(7) by simp
      show "?r' \<le> max (d - er) 10" using False by simp
      show "\<forall>dt\<in>set dts. 0 < s * dt \<and> s * dt < min (d + 25) maxR - max (d - er) 10"
        using Cons.prems(10) by simp
    qed
    then show ?thesis by (simp add: step k')
  qed
qed

text \<open>
  Claim C1. An engine holds one expanding ring as its constructor made it (nova, frost
  ring or pulse; radius 10, nobody hit) with a positive expansion speed and a maximum
  radius above 10. The roster, with distinct ids, holds a live enemy whose distance from
  the ring's origin is at least 10; nothing but the engine touches the roster, so the
  enemy stands still. The frames are small: each grows the radius by less than 25, by
  less than \<open>maxRadius - 10\<close> and by less than \<open>maxRadius - distance + enemy radius\<close>
  (for an enemy within the maximum radius that is positive), and together they cover the
  lifetime of the ring, \<open>10 + speed * total time \<ge> maxRadius\<close>. Then over the run the
  enemy's \<open>takeDamage\<close> is invoked exactly once, and the engine ends empty.
\<close>

theorem C1_ring_hits_once:
  assumes "f \<in> {Nova (NovaEffect_new x y dmg maxR s),
                FrostRing (FrostRingEffect_new x y dmg maxR s slowFactor slowDuration),
                Pulse (PulseEffect_new x y dmg maxR s knockback)}"
    and "0 < s" "10 < maxR"
    and "k < length es" "distinct (map e_id es)" "\<not> e_dead (es ! k)"
    and "10 \<le> distance x y (e_x (es ! k)) (e_y (es ! k))" "0 \<le> e_radius (es ! k)"
    and "\<forall>dt\<in>set dts. 0 < dt \<and> s * dt < 25 \<and> s * dt < maxR - 10
           \<and> s * dt < maxR - distance x y (e_x (es ! k)) (e_y (es ! k)) + e_radius (es ! k)"
    and "maxR \<le> 10 + s * sum_list dts"
  shows "e_dmgCalls (snd (engineRun pl (\<lparr>en_effects = [f]\<rparr>, es) dts) ! k)
           = Suc (e_dmgCalls (es ! k))
       \<and> en_effects (fst (engineRun pl (\<lparr>en_effects = [f]\<rparr>, es) dts)) = []"
proof (rule run_before_hit [where x = x and y = y and maxR = maxR and s = s and r = 10
      and hs = "{}" and d = "distance x y (e_x (es ! k)) (e_y (es ! k))"
      and er = "e_radius (es ! k)"])
  show "ringView f = Some (x, y, maxR, s, 10, {}, True)"
    using assms(1)
    by (auto simp: NovaEffect_new_def FrostRingEffect_new_def PulseEffect_new_def)
  show "\<forall>dt\<in>set dts. 0 < s * dt
      \<and> s * dt < min (distance x y (e_x (es ! k)) (e_y (es ! k)) + 25) maxR
          - max (distance x y (e_x (es ! k)) (e_y (es ! k)) - e_radius (es ! k)) 10"
  proof
    fix dt assume "dt \<in> set dts"
    then have b: "0 < dt" "s * dt < 25" "s * dt < maxR - 10"
      "s * dt < maxR - distance x y (e_x (es ! k)) (e_y (es ! k)) + e_radius (es ! k)"
      using assms(9) by simp_all
    have "0 < s * dt" using b(1) assms(2) by simp
    moreover have "s * dt < min (distance x y (e_x (es ! k)) (e_y (es ! k)) + 25) maxR
          - max (distance x y (e_x (es ! k)) (e_y (es ! k)) - e_radius (es ! k)) 10"
      using b(2-4) assms(7,8) by (simp add: min_def max_def)
    ultimately show "0 < s * dt
      \<and> s * dt < min (distance x y (e_x (es ! k)) (e_y (es ! k)) + 25) maxR
          - max (distance x y (e_x (es ! k)) (e_y (es ! k)) - e_radius (es ! k)) 10"
      by simp
  qed
qed (use assms in simp_all)

theorem C1_ring_hits_once_witness:
  "e_dmgCalls (snd (engineRun (fighterAt 560 500)
      (\<lparr>en_effects = [Nova (fireBurstAt 500 500)]\<rparr>, [shamblerAt 0 530 500]) nineFrames) ! 0)
     = 1
   \<and> en_effects (fst (engineRun (fighterAt 560 500)
      (\<lparr>en_effects = [Nova (fireBurstAt 500 500)]\<rparr>, [shamblerAt 0 530 500]) nineFrames)) = []"
proof -
  have e: "e_x (shamblerAt 0 530 500) = 530" "e_y (shamblerAt 0 530 500) = 500"
    "e_radius (shamblerAt 0 530 500) = 12" "\<not> e_dead (shamblerAt 0 530 500)"
    "e_dmgCalls (shamblerAt 0 530 500) = 0"
    by (simp_all add: shamblerAt_def Enemy_new_def ENEMY_TYPES_shambler_def)
  have f: "Nova (fireBurstAt 500 500) \<in>
      {Nova (NovaEffect_new 500 500 fireBurst_damage 60 350),
       FrostRing (FrostRingEffect_new 500 500 fireBurst_damage 60 350 0 0),
       Pulse (PulseEffect_new 500 500 fireBurst_damage 60 350 0)}"
    by (simp add: fireBurstAt_def fireBurst_radius_def fireBurst_expandSpeed_def)
  have small: "\<forall>dt\<in>set nineFrames. 0 < dt \<and> 350 * dt < 25 \<and> 350 * dt < 60 - 10
      \<and> 350 * dt < 60 - distance 500 500 (e_x ([shamblerAt 0 530 500] ! 0))
            (e_y ([shamblerAt 0 530 500] ! 0)) + e_radius ([shamblerAt 0 530 500] ! 0)"
    by (simp add: nineFrames_def e distance_axis)
  have full: "(60::real) \<le> 10 + 350 * sum_list nineFrames"
    by (simp add: nineFrames_def)
  show ?thesis
    using C1_ring_hits_once [where pl = "fighterAt 560 500" and k = 0, OF f _ _ _ _ _ _ _ small full] e
    by (simp add: distance_axis)
qed

end
